(* ===== verification/Prelude.thy ===== *)
theory Prelude
  imports Complex_Main
begin

text \<open>
  Shared vocabulary of the development: the exceptions the two handlers can meet, the
  result type \<open>exn + 'a\<close> with its sequencing operator, Python's truncating conversion
  from a quotient to an integer, and the list lemmas the component theories share.
  The named collections gather the unfolding rules of each layer, so that a proof says
  \<open>simp add: py_defs\<close> instead of listing definitions.
\<close>

named_theorems py_defs "definitions of the Python value operations"
named_theorems db_defs "definitions of the storage operations"
named_theorems handler_defs "definitions of the request handlers"

section \<open>Exceptions and results\<close>

text \<open>
  The exception classes that reach the handlers' \<open>except\<close> clauses. \<open>ValueError\<close> and
  \<open>TypeError\<close> come from Python's conversions, \<open>OverflowError\<close> from conversions to
  \<open>float\<close>, \<open>ZeroDivisionError\<close> from a division, \<open>KeyError\<close> from a missing
  dictionary key; \<open>IntegrityError\<close> is the storage
  layer's constraint violation, \<open>DataError\<close> its refusal of an ill-typed value and
  \<open>OperationalError\<close> any other persistence failure.
\<close>

datatype exn =
    ValueError | TypeError | OverflowError | ZeroDivisionError | KeyError
  | IntegrityError | DataError | OperationalError

type_synonym 'a result = "exn + 'a"

definition rbind :: "'a result \<Rightarrow> ('a \<Rightarrow> 'b result) \<Rightarrow> 'b result" where
  "rbind m f = (case m of Inl e \<Rightarrow> Inl e | Inr x \<Rightarrow> f x)"

text \<open>Python's \<open>int(x)\<close> on a finite float drops the fractional part.\<close>

definition trunc :: "rat \<Rightarrow> int" where
  "trunc r = (if 0 \<le> r then \<lfloor>r\<rfloor> else \<lceil>r\<rceil>)"

section \<open>Sequencing results\<close>

lemma rbind_Inl [simp]: "rbind (Inl e) f = Inl e"
  by (simp add: rbind_def)

lemma rbind_Inr [simp]: "rbind (Inr x) f = f x"
  by (simp add: rbind_def)

lemma rbind_eq_Inr_iff: "rbind m f = Inr y \<longleftrightarrow> (\<exists>x. m = Inr x \<and> f x = Inr y)"
  by (cases m) simp_all

lemma rbind_eq_Inl_iff:
  "rbind m f = Inl e \<longleftrightarrow> m = Inl e \<or> (\<exists>x. m = Inr x \<and> f x = Inl e)"
  by (cases m) simp_all

lemma rbind_assoc: "rbind (rbind m f) g = rbind m (\<lambda>x. rbind (f x) g)"
  by (cases m) simp_all

section \<open>Truncation towards zero\<close>

lemma trunc_of_int [simp]: "trunc (of_int n) = n"
  by (simp add: trunc_def)

lemma trunc_nonneg: "0 \<le> r \<Longrightarrow> trunc r = \<lfloor>r\<rfloor>"
  by (simp add: trunc_def)

lemma trunc_neg: "r < 0 \<Longrightarrow> trunc r = \<lceil>r\<rceil>"
  by (simp add: trunc_def)

lemma trunc_minus: "trunc (- r) = - trunc r"
  by (cases "r = 0") (auto simp: trunc_def ceiling_def)

lemma trunc_abs_le: "\<bar>rat_of_int (trunc r)\<bar> \<le> \<bar>r\<bar>"
  by (auto simp: trunc_def)

lemma trunc_mono:
  assumes "r \<le> s"
  shows "trunc r \<le> trunc s"
proof (cases "0 \<le> r")
  case True
  with assms show ?thesis
    by (simp add: trunc_def floor_mono)
next
  case False
  then have neg: "\<lceil>r\<rceil> \<le> 0"
    by (simp add: ceiling_le_zero)
  show ?thesis
  proof (cases "0 \<le> s")
    case True
    then have pos: "0 \<le> \<lfloor>s\<rfloor>" by simp
    from True False have "trunc r = \<lceil>r\<rceil>" "trunc s = \<lfloor>s\<rfloor>"
      by (simp_all add: trunc_def)
    with neg pos show ?thesis by linarith
  next
    case s: False
    with False assms show ?thesis
      by (simp add: trunc_def ceiling_mono)
  qed
qed

lemma trunc_zero [simp]: "trunc 0 = 0"
  by (simp add: trunc_def)

lemma trunc_eqI:
  assumes "of_int n \<le> r" and "r < of_int n + 1" and "0 \<le> r"
  shows "trunc r = n"
  using assms by (simp add: trunc_def floor_unique)

lemma floor_le_trunc: "\<lfloor>r\<rfloor> \<le> trunc r"
  by (auto simp: trunc_def)

section \<open>Scaled error bounds\<close>

lemma abs_scaled_quotient:
  fixes r :: rat and n t :: int
  assumes "0 < t" and "\<bar>r - of_int n / of_int t\<bar> < 1 / of_int t"
  shows "of_int (n - 1) < r * of_int t" and "r * of_int t < of_int (n + 1)"
proof -
  from assms(1) have "r * of_int t - of_int n = (r - of_int n / of_int t) * of_int t"
    by (simp add: field_simps)
  then have "\<bar>r * of_int t - of_int n\<bar> = \<bar>r - of_int n / of_int t\<bar> * of_int t"
    using assms(1) by (simp add: abs_mult)
  also from assms have "\<dots> < 1 / of_int t * of_int t"
    by (intro mult_strict_right_mono) simp_all
  finally have "\<bar>r * of_int t - of_int n\<bar> < 1"
    using assms(1) by simp
  then show "of_int (n - 1) < r * of_int t" and "r * of_int t < of_int (n + 1)"
    by simp_all
qed

text \<open>
  A rational closer than \<open>1 / t\<close> to a quotient \<open>n / t\<close> of integers has the floor of the
  quotient, or one less when the quotient is an integer.
\<close>

lemma floor_near_quotient:
  fixes r :: rat and n t :: int
  assumes "0 < t" and "\<bar>r - of_int n / of_int t\<bar> < 1 / of_int t"
  shows "n div t - (if t dvd n then 1 else 0) \<le> \<lfloor>r\<rfloor>" and "\<lfloor>r\<rfloor> \<le> n div t"
proof -
  define m k where "m = n div t" and "k = m - (if t dvd n then 1 else 0)"
  note lo = abs_scaled_quotient(1) [OF assms] and hi = abs_scaled_quotient(2) [OF assms]
  have n: "n = m * t + n mod t" by (simp add: m_def)
  from assms(1) have md: "0 \<le> n mod t" "n mod t < t" by simp_all
  have "(m + 1) * t = m * t + t" by (simp add: algebra_simps)
  with n md have "n + 1 \<le> (m + 1) * t" by linarith
  then have "rat_of_int (n + 1) \<le> of_int ((m + 1) * t)" by (simp only: of_int_le_iff)
  with hi have "r * of_int t < of_int (m + 1) * of_int t" by simp
  with assms(1) have "r < of_int (m + 1)" by simp
  then have "\<lfloor>r\<rfloor> < m + 1" by (simp only: floor_less_iff)
  then show "\<lfloor>r\<rfloor> \<le> n div t" by (simp add: m_def)
  have "k * t \<le> n - 1"
  proof (cases "t dvd n")
    case True
    then have "n mod t = 0" by simp
    moreover from True have "k * t = m * t - t" by (simp add: k_def algebra_simps)
    ultimately show ?thesis using n assms(1) by linarith
  next
    case False
    then have "n mod t \<noteq> 0" by (simp add: dvd_eq_mod_eq_0)
    moreover from False have "k * t = m * t" by (simp add: k_def)
    ultimately show ?thesis using n md by linarith
  qed
  then have "rat_of_int (k * t) \<le> of_int (n - 1)" by (simp only: of_int_le_iff)
  with lo have "of_int k * of_int t < r * of_int t" by simp
  with assms(1) have "of_int k < r" by simp
  then have "k \<le> \<lfloor>r\<rfloor>" by (simp only: le_floor_iff less_imp_le)
  then show "n div t - (if t dvd n then 1 else 0) \<le> \<lfloor>r\<rfloor>"
    by (simp only: k_def m_def)
qed

lemma scaled_abs_le:
  fixes u r n c :: rat
  assumes "0 < u" and "\<bar>r / u - n\<bar> \<le> c"
  shows "\<bar>r - n * u\<bar> \<le> c * u"
proof -
  from assms(1) have "r - n * u = (r / u - n) * u"
    by (simp add: field_simps)
  with assms(1) have "\<bar>r - n * u\<bar> = \<bar>r / u - n\<bar> * u"
    by (simp add: abs_mult)
  with assms show ?thesis
    by (simp add: mult_right_mono)
qed

section \<open>Lists\<close>

lemma find_None_iff_filter: "List.find P xs = None \<longleftrightarrow> filter P xs = []"
  by (induction xs) auto

lemma find_Some_set: "List.find P xs = Some x \<Longrightarrow> x \<in> set xs \<and> P x"
  by (induction xs) (auto split: if_splits)

lemma distinct_map_filter_le_one:
  "distinct (map f xs) \<Longrightarrow> length (filter (\<lambda>x. f x = k) xs) \<le> 1"
  by (induction xs) (auto simp: filter_empty_conv image_iff)

lemma distinct_map_unique:
  "distinct (map f xs) \<Longrightarrow> x \<in> set xs \<Longrightarrow> y \<in> set xs \<Longrightarrow> f x = f y \<Longrightarrow> x = y"
  by (meson distinct_map inj_onD)

lemma distinct_map_filter_single:
  "distinct (map f xs) \<Longrightarrow> x \<in> set xs \<Longrightarrow> filter (\<lambda>y. f y = f x) xs = [x]"
proof (induction xs)
  case Nil
  then show ?case by simp
next
  case (Cons a xs)
  show ?case
  proof (cases "a = x")
    case True
    with Cons.prems have "filter (\<lambda>y. f y = f x) xs = []"
      by (auto simp: filter_empty_conv image_iff)
    with True show ?thesis by simp
  next
    case False
    with Cons.prems have "x \<in> set xs" "f a \<noteq> f x"
      by (auto simp: image_iff)
    with Cons show ?thesis by simp
  qed
qed

lemma filter_fresh_append:
  "\<forall>x \<in> set ys. \<not> P x \<Longrightarrow> filter P (xs @ ys) = filter P xs"
  by simp

section \<open>Joins over keyed tables\<close>

text \<open>
  A nested iteration that keeps the rows with a given key visits at most one row when the
  keys are distinct, so it is a lookup.
\<close>

lemma concat_map_if_key:
  assumes "distinct (map f xs)"
  shows "concat (map (\<lambda>x. if a = f x then g x else []) xs) =
         (case List.find (\<lambda>x. a = f x) xs of None \<Rightarrow> [] | Some x \<Rightarrow> g x)"
  using assms
proof (induction xs)
  case Nil
  then show ?case by simp
next
  case (Cons x xs)
  show ?case
  proof (cases "a = f x")
    case True
    with Cons.prems have "\<forall>y \<in> set xs. a \<noteq> f y"
      by auto
    then have "concat (map (\<lambda>x. if a = f x then g x else []) xs) = []"
      by simp
    with True show ?thesis by simp
  next
    case False
    from Cons.prems have "distinct (map f xs)" by simp
    from Cons.IH [OF this] False show ?thesis by simp
  qed
qed

lemma concat_map_if_Some_key:
  assumes "distinct (map f xs)"
  shows "concat (map (\<lambda>x. if a = Some (f x) then g x else []) xs) =
         (case List.find (\<lambda>x. a = Some (f x)) xs of None \<Rightarrow> [] | Some x \<Rightarrow> g x)"
proof -
  from assms have "distinct (map (\<lambda>x. Some (f x)) xs)"
    by (simp add: distinct_map inj_on_def)
  then show ?thesis
    by (rule concat_map_if_key)
qed

lemma filter_Some_key:
  assumes "distinct (map f xs)"
  shows "filter (\<lambda>x. a = Some (f x)) xs =
         (case List.find (\<lambda>x. a = Some (f x)) xs of None \<Rightarrow> [] | Some x \<Rightarrow> [x])"
  using assms
proof (induction xs)
  case Nil
  then show ?case by simp
next
  case (Cons x xs)
  show ?case
  proof (cases "a = Some (f x)")
    case True
    with Cons.prems have "\<forall>y \<in> set xs. a \<noteq> Some (f y)"
      by auto
    then have "filter (\<lambda>x. a = Some (f x)) xs = []"
      by (simp add: filter_empty_conv)
    with True show ?thesis by simp
  next
    case False
    from Cons.prems have "distinct (map f xs)" by simp
    from Cons.IH [OF this] False show ?thesis by simp
  qed
qed

lemma concat_map_guards:
  "concat (map (\<lambda>x. if P x then (if A then (if Q x then (if B then [h x] else []) else []) else []) else []) xs) =
   (if A \<and> B then map h (filter (\<lambda>x. P x \<and> Q x) xs) else [])"
  by (induction xs) simp_all

lemma map_filter_if_None:
  "List.map_filter (\<lambda>x. if P x then None else Some (g x)) xs = map g (filter (\<lambda>x. \<not> P x) xs)"
  by (induction xs) (simp_all add: List.map_filter_simps)

lemma find_key:
  assumes "distinct (map f xs)" and "x \<in> set xs" and "P = (\<lambda>y. a = f y)" and "a = f x"
  shows "List.find P xs = Some x"
  using assms by (induction xs) (auto simp: image_iff)

lemma find_Some_key:
  assumes "distinct (map f xs)" and "x \<in> set xs" and "a = Some (f x)"
  shows "List.find (\<lambda>y. a = Some (f y)) xs = Some x"
  using assms by (induction xs) (auto simp: image_iff)

lemma set_map_filter:
  "y \<in> set (List.map_filter f xs) \<longleftrightarrow> (\<exists>x \<in> set xs. f x = Some y)"
  by (induction xs) (auto simp: List.map_filter_simps split: option.splits)

lemma map_map_filter_inverse:
  assumes "\<And>x y. f x = Some y \<Longrightarrow> g y = x"
  shows "map g (List.map_filter f xs) = filter (\<lambda>x. f x \<noteq> None) xs"
  using assms by (induction xs) (auto simp: List.map_filter_simps split: option.splits)

end
