(* ===== verification/Binary64.thy ===== *)
theory Binary64
  imports Prelude "HOL-Library.Log_Nat"
begin

text \<open>
  Python's \<open>float\<close> is IEEE 754 binary64. The low-stock handler divides integers and
  truncates the quotient (\<open>src/low_stock_alert_APIEndpoint.py\<close>, lines 46 and 48), and the
  creation handler converts the price with \<open>float(...)\<close> (\<open>src/fixedApiEnd.py\<close>, line 26);
  both results depend on rounding. A finite float is modelled by the rational it denotes,
  \<open>round64\<close> rounds a rational to the nearest binary64 value (ties to even, gradual
  underflow), and the operations below raise what Python raises. Signed zeros are not
  distinguished: \<open>-0.0\<close> is \<open>Finite 0\<close>.
\<close>

section \<open>Rounding to binary64\<close>

datatype pyfloat = Finite rat | PosInf | NegInf | NaN

definition pow2 :: "int \<Rightarrow> rat" where
  "pow2 e = power_int 2 e"

definition round_half_even :: "rat \<Rightarrow> int" where
  "round_half_even r =
     (let f = \<lfloor>r\<rfloor>; d = r - of_int f
      in if d < 1 / 2 then f else if 1 / 2 < d then f + 1 else if even f then f else f + 1)"

definition floor_log2 :: "rat \<Rightarrow> int" where
  "floor_log2 x =
     (let (a, b) = quotient_of x; d = bitlen a - bitlen b
      in if pow2 d \<le> x then d else d - 1)"

definition ulp_exponent :: "rat \<Rightarrow> int" where
  "ulp_exponent x = max (floor_log2 \<bar>x\<bar>) (- 1022) - 52"

definition round64 :: "rat \<Rightarrow> rat" where
  "round64 x =
     (if x = 0 then 0
      else let u = pow2 (ulp_exponent x)
           in sgn x * of_int (round_half_even (\<bar>x\<bar> / u)) * u)"

definition overflow_threshold :: rat where
  "overflow_threshold = 2 ^ 1024 - 2 ^ 970"

definition float_of_rat :: "rat \<Rightarrow> pyfloat" where
  "float_of_rat x =
     (if overflow_threshold \<le> \<bar>x\<bar> then (if 0 < x then PosInf else NegInf)
      else Finite (round64 x))"

section \<open>Python's operations on floats\<close>

text \<open>\<open>float(n)\<close> for an integer \<open>n\<close>: correctly rounded, \<open>OverflowError\<close> out of range.\<close>

definition float_of_int :: "int \<Rightarrow> pyfloat result" where
  "float_of_int n =
     (if overflow_threshold \<le> \<bar>of_int n\<bar> then Inl OverflowError
      else Inr (Finite (round64 (of_int n))))"

text \<open>\<open>a / b\<close> for integers: the correctly rounded quotient.\<close>

definition int_true_div :: "int \<Rightarrow> int \<Rightarrow> pyfloat result" where
  "int_true_div a b =
     (if b = 0 then Inl ZeroDivisionError
      else if overflow_threshold \<le> \<bar>of_int a / of_int b\<bar> then Inl OverflowError
      else Inr (Finite (round64 (of_int a / of_int b))))"

definition float_sign_neg :: "pyfloat \<Rightarrow> bool" where
  "float_sign_neg x = (case x of Finite r \<Rightarrow> r < 0 | NegInf \<Rightarrow> True | _ \<Rightarrow> False)"

text \<open>
  \<open>x / y\<close> for floats: a zero divisor raises; otherwise the IEEE quotient, which
  overflows to an infinity without raising.
\<close>

definition float_div :: "pyfloat \<Rightarrow> pyfloat \<Rightarrow> pyfloat result" where
  "float_div x y =
     (case y of
        Finite b \<Rightarrow>
          if b = 0 then Inl ZeroDivisionError
          else (case x of
                  Finite a \<Rightarrow> Inr (float_of_rat (a / b))
                | NaN \<Rightarrow> Inr NaN
                | _ \<Rightarrow> Inr (if float_sign_neg x = (b < 0) then PosInf else NegInf))
      | NaN \<Rightarrow> Inr NaN
      | _ \<Rightarrow> (case x of Finite a \<Rightarrow> Inr (Finite 0) | _ \<Rightarrow> Inr NaN))"

text \<open>\<open>x > 0\<close> for a float; every comparison with NaN is false.\<close>

definition float_pos :: "pyfloat \<Rightarrow> bool" where
  "float_pos x = (case x of Finite r \<Rightarrow> 0 < r | PosInf \<Rightarrow> True | _ \<Rightarrow> False)"

text \<open>\<open>int(x)\<close> for a float: truncation; infinities and NaN raise.\<close>

definition int_of_float :: "pyfloat \<Rightarrow> int result" where
  "int_of_float x =
     (case x of
        Finite r \<Rightarrow> Inr (trunc r)
      | NaN \<Rightarrow> Inl ValueError
      | _ \<Rightarrow> Inl OverflowError)"

lemmas float_defs [py_defs] =
  float_of_rat_def float_of_int_def int_true_div_def float_div_def float_pos_def
  int_of_float_def float_sign_neg_def

section \<open>Powers of two\<close>

lemma pow2_pos [simp]: "0 < pow2 e"
  by (simp add: pow2_def)

lemma pow2_nonzero [simp]: "pow2 e \<noteq> 0"
  by (simp add: pow2_def)

lemma pow2_nonneg [simp]: "0 \<le> pow2 e"
  by (simp add: pow2_def)

lemma pow2_not_le_0 [simp]: "\<not> pow2 e \<le> 0"
  by (simp add: pow2_def not_le)

lemma pow2_0 [simp]: "pow2 0 = 1"
  by (simp add: pow2_def)

lemma pow2_nat: "pow2 (int n) = 2 ^ n"
  by (simp add: pow2_def)

lemma pow2_nonneg_exp: "0 \<le> e \<Longrightarrow> pow2 e = 2 ^ nat e"
  by (simp add: pow2_def power_int_nonneg_exp)

lemma pow2_add: "pow2 (a + b) = pow2 a * pow2 b"
  by (simp add: pow2_def power_int_add)

lemma pow2_diff: "pow2 (a - b) = pow2 a / pow2 b"
  by (simp add: pow2_def power_int_diff)

lemma pow2_Suc: "pow2 (e + 1) = 2 * pow2 e"
  by (simp add: pow2_add) (simp add: pow2_def)

lemma pow2_mono: "a \<le> b \<Longrightarrow> pow2 a \<le> pow2 b"
  by (simp add: pow2_def power_int_increasing)

lemma pow2_strict_mono: "a < b \<Longrightarrow> pow2 a < pow2 b"
  by (simp add: pow2_def power_int_strict_increasing)

lemma pow2_le_iff [simp]: "pow2 a \<le> pow2 b \<longleftrightarrow> a \<le> b"
  by (metis pow2_mono pow2_strict_mono not_le)

lemma pow2_less_iff [simp]: "pow2 a < pow2 b \<longleftrightarrow> a < b"
  by (metis pow2_mono pow2_strict_mono not_le)

section \<open>The exponent of a positive rational\<close>

lemma bitlen_pow2_bounds:
  assumes "0 < a"
  shows "pow2 (bitlen a - 1) \<le> of_int a" and "of_int a < pow2 (bitlen a)"
proof -
  from assms have b: "1 \<le> bitlen a"
    using bitlen_eq_zero_iff [of a] bitlen_nonneg [of a] by linarith
  from bitlen_bounds [OF assms]
  have "(2::int) ^ nat (bitlen a - 1) \<le> a" and "a < 2 ^ nat (bitlen a)"
    by simp_all
  then have "rat_of_int (2 ^ nat (bitlen a - 1)) \<le> of_int a"
    and "rat_of_int a < of_int (2 ^ nat (bitlen a))"
    by (simp_all only: of_int_le_iff of_int_less_iff)
  with b show "pow2 (bitlen a - 1) \<le> of_int a" and "of_int a < pow2 (bitlen a)"
    by (simp_all add: pow2_nonneg_exp)
qed

lemma floor_log2_bounds:
  assumes "0 < x"
  shows "pow2 (floor_log2 x) \<le> x \<and> x < pow2 (floor_log2 x + 1)"
proof -
  obtain a b where q: "quotient_of x = (a, b)"
    by (cases "quotient_of x")
  then have b: "0 < b" and x: "x = of_int a / of_int b"
    by (auto dest: quotient_of_denom_pos quotient_of_div)
  with assms have a: "0 < a"
    by (simp add: zero_less_divide_iff)
  let ?d = "bitlen a - bitlen b"
  note A = bitlen_pow2_bounds [OF a] and B = bitlen_pow2_bounds [OF b]
  have "x < pow2 (bitlen a) / pow2 (bitlen b - 1)"
    unfolding x using A B a b
    by (intro frac_less) simp_all
  then have up: "x < pow2 (?d + 1)"
    by (simp add: pow2_diff [symmetric] algebra_simps)
  have "pow2 (bitlen a - 1) / pow2 (bitlen b) < x"
    unfolding x using A B a b
    by (intro frac_less2) simp_all
  then have lo: "pow2 (?d - 1) < x"
    by (simp add: pow2_diff [symmetric] algebra_simps)
  show ?thesis
  proof (cases "pow2 ?d \<le> x")
    case True
    with up q show ?thesis by (simp add: floor_log2_def)
  next
    case False
    with lo q show ?thesis by (simp add: floor_log2_def)
  qed
qed

lemma floor_log2_unique:
  assumes "pow2 e \<le> x" and "x < pow2 (e + 1)"
  shows "floor_log2 x = e"
proof -
  from assms have "0 < x"
    using pow2_pos [of e] by linarith
  from floor_log2_bounds [OF this]
  have "pow2 (floor_log2 x) < pow2 (e + 1)" and "pow2 e < pow2 (floor_log2 x + 1)"
    using assms by linarith+
  then show ?thesis by simp
qed

section \<open>Rounding to the nearest integer, ties to even\<close>

lemma round_half_even_unique:
  assumes "\<bar>r - of_int n\<bar> < 1 / 2"
  shows "round_half_even r = n"
proof -
  from assms have lo: "of_int n - 1 / 2 < r" and hi: "r < of_int n + 1 / 2"
    by linarith+
  then have "\<lfloor>r\<rfloor> = n \<or> \<lfloor>r\<rfloor> = n - 1" by linarith
  then show ?thesis
  proof
    assume "\<lfloor>r\<rfloor> = n"
    with hi show ?thesis by (simp add: round_half_even_def Let_def)
  next
    assume f: "\<lfloor>r\<rfloor> = n - 1"
    from lo have "1 / 2 < r - (of_int n - 1)" by linarith
    with f show ?thesis by (simp add: round_half_even_def Let_def)
  qed
qed

lemma round_half_even_of_int [simp]: "round_half_even (of_int n) = n"
  by (rule round_half_even_unique) simp

lemma round_half_even_error: "\<bar>r - of_int (round_half_even r)\<bar> \<le> 1 / 2"
proof -
  have "0 \<le> r - of_int \<lfloor>r\<rfloor>" and "r - of_int \<lfloor>r\<rfloor> < 1"
    by linarith+
  then show ?thesis
    unfolding round_half_even_def Let_def
    by (auto simp only: of_int_add of_int_1 split: if_splits)
qed

section \<open>Properties of \<open>round64\<close>\<close>

lemma ulp_exponent_eq:
  assumes "pow2 e \<le> \<bar>x\<bar>" and "\<bar>x\<bar> < pow2 (e + 1)"
  shows "ulp_exponent x = max e (- 1022) - 52"
  using floor_log2_unique [OF assms] by (simp add: ulp_exponent_def)

lemma round64_eqI:
  assumes "pow2 e \<le> \<bar>x\<bar>" and "\<bar>x\<bar> < pow2 (e + 1)" and "- 1022 \<le> e"
    and "\<bar>\<bar>x\<bar> / pow2 (e - 52) - of_int n\<bar> < 1 / 2"
  shows "round64 x = sgn x * of_int n * pow2 (e - 52)"
proof -
  from assms(1) have "x \<noteq> 0"
    by auto
  moreover from assms(1-3) have "ulp_exponent x = e - 52"
    by (simp add: ulp_exponent_eq)
  ultimately show ?thesis
    using round_half_even_unique [OF assms(4)] by (simp add: round64_def)
qed

lemma round64_0 [simp]: "round64 0 = 0"
  by (simp add: round64_def)

lemma ulp_exponent_minus [simp]: "ulp_exponent (- x) = ulp_exponent x"
  by (simp add: ulp_exponent_def)

lemma round64_minus: "round64 (- x) = - round64 x"
  by (simp add: round64_def Let_def sgn_minus)

lemma round_half_even_nonneg: "0 \<le> r \<Longrightarrow> 0 \<le> round_half_even r"
  by (auto simp: round_half_even_def Let_def)

lemma round64_nonneg: "0 \<le> x \<Longrightarrow> 0 \<le> round64 x"
  by (auto simp: round64_def Let_def intro!: mult_nonneg_nonneg round_half_even_nonneg)

lemma round64_error:
  "\<bar>round64 x - x\<bar> \<le> pow2 (ulp_exponent x) / 2"
proof (cases "x = 0")
  case True
  then show ?thesis by simp
next
  case False
  let ?u = "pow2 (ulp_exponent x)"
  let ?n = "round_half_even (\<bar>x\<bar> / ?u)"
  have "\<bar>\<bar>x\<bar> / ?u - of_int ?n\<bar> \<le> 1 / 2"
    by (rule round_half_even_error)
  then have "\<bar>\<bar>x\<bar> - of_int ?n * ?u\<bar> \<le> 1 / 2 * ?u"
    by (rule scaled_abs_le [OF pow2_pos])
  moreover have "\<bar>round64 x - x\<bar> = \<bar>\<bar>x\<bar> - of_int ?n * ?u\<bar>"
    using False by (cases "0 < x") (auto simp: round64_def Let_def sgn_if abs_if)
  ultimately show ?thesis by simp
qed

section \<open>Integers that binary64 represents exactly\<close>

lemma overflow_threshold_pow2: "overflow_threshold = pow2 1024 - pow2 970"
  unfolding overflow_threshold_def pow2_def by (simp only: power_int_numeral)

lemma overflow_threshold_ge: "pow2 1023 \<le> overflow_threshold"
proof -
  have "pow2 (1023 + 1) = 2 * pow2 1023"
    by (rule pow2_Suc)
  then have "pow2 1024 = 2 * pow2 1023"
    by (simp only: one_add_one numeral_plus_one semiring_norm numeral_plus_numeral)
  moreover have "pow2 970 \<le> pow2 1023"
    by simp
  ultimately show ?thesis
    unfolding overflow_threshold_pow2 by linarith
qed

lemma round64_integral_multiple:
  assumes "x \<noteq> 0" and "\<bar>x\<bar> = of_int m * pow2 (ulp_exponent x)"
  shows "round64 x = x"
proof -
  from assms(2) have "\<bar>x\<bar> / pow2 (ulp_exponent x) = of_int m"
    by simp
  with assms(1) have "round64 x = sgn x * (of_int m * pow2 (ulp_exponent x))"
    by (simp add: round64_def Let_def mult.assoc)
  also have "\<dots> = sgn x * \<bar>x\<bar>"
    by (simp only: assms(2))
  also have "\<dots> = x"
    by (rule sgn_mult_abs)
  finally show ?thesis .
qed

lemma abs_of_int_less_pow2:
  assumes "\<bar>n\<bar> < 2 ^ k"
  shows "\<bar>rat_of_int n\<bar> < pow2 (int k)"
proof -
  from assms have "rat_of_int \<bar>n\<bar> < of_int (2 ^ k)"
    by (simp only: of_int_less_iff)
  then show ?thesis
    by (simp add: pow2_nat)
qed

section \<open>Bounds of the rounded value\<close>

lemma round_half_even_floor: "\<lfloor>r\<rfloor> \<le> round_half_even r \<and> round_half_even r \<le> \<lfloor>r\<rfloor> + 1"
  by (simp add: round_half_even_def Let_def)

lemma round_half_even_ge:
  assumes "of_int n \<le> r"
  shows "n \<le> round_half_even r"
proof -
  from assms have "n \<le> \<lfloor>r\<rfloor>" by (simp add: le_floor_iff)
  with round_half_even_floor [of r] show ?thesis by linarith
qed

lemma round_half_even_le:
  assumes "r \<le> of_int n"
  shows "round_half_even r \<le> n"
proof (cases "r = of_int n")
  case True
  then show ?thesis by simp
next
  case False
  with assms have "r < of_int n" by simp
  then have "\<lfloor>r\<rfloor> < n" by (simp add: floor_less_iff)
  with round_half_even_floor [of r] show ?thesis by linarith
qed

lemma round_half_even_mono:
  assumes "r \<le> s"
  shows "round_half_even r \<le> round_half_even s"
proof (cases "\<lfloor>r\<rfloor> = \<lfloor>s\<rfloor>")
  case True
  with assms have "r - of_int \<lfloor>r\<rfloor> \<le> s - of_int \<lfloor>s\<rfloor>" by simp
  with True show ?thesis
    by (auto simp: round_half_even_def Let_def)
next
  case False
  with assms have "\<lfloor>r\<rfloor> < \<lfloor>s\<rfloor>"
    by (simp add: floor_mono order.strict_iff_order)
  with round_half_even_floor [of r] round_half_even_floor [of s] show ?thesis
    by linarith
qed

lemma pow2_multiple:
  assumes "k \<le> e"
  shows "pow2 e = of_int (2 ^ nat (e - k)) * pow2 k"
proof -
  from assms have "pow2 e = pow2 (int (nat (e - k)) + k)" by simp
  also have "\<dots> = pow2 (int (nat (e - k))) * pow2 k" by (rule pow2_add)
  also have "\<dots> = of_int (2 ^ nat (e - k)) * pow2 k" by (simp only: pow2_nat of_int_power of_int_numeral)
  finally show ?thesis .
qed

lemma round64_pos_eq:
  assumes "0 < x"
  shows "round64 x = of_int (round_half_even (x / pow2 (ulp_exponent x))) * pow2 (ulp_exponent x)"
  using assms by (simp add: round64_def Let_def)

lemma round64_ge_multiple:
  assumes "0 < x" and "of_int n * pow2 (ulp_exponent x) \<le> x"
  shows "of_int n * pow2 (ulp_exponent x) \<le> round64 x"
proof -
  from assms(2) have "of_int n \<le> x / pow2 (ulp_exponent x)"
    by (simp add: pos_le_divide_eq)
  then have "n \<le> round_half_even (x / pow2 (ulp_exponent x))"
    by (rule round_half_even_ge)
  then have "rat_of_int n \<le> of_int (round_half_even (x / pow2 (ulp_exponent x)))"
    by (simp only: of_int_le_iff)
  then show ?thesis
    unfolding round64_pos_eq [OF assms(1)] by (rule mult_right_mono) simp
qed

lemma round64_le_multiple:
  assumes "0 < x" and "x \<le> of_int n * pow2 (ulp_exponent x)"
  shows "round64 x \<le> of_int n * pow2 (ulp_exponent x)"
proof -
  from assms(2) have "x / pow2 (ulp_exponent x) \<le> of_int n"
    by (simp add: pos_divide_le_eq)
  then have "round_half_even (x / pow2 (ulp_exponent x)) \<le> n"
    by (rule round_half_even_le)
  then have "rat_of_int (round_half_even (x / pow2 (ulp_exponent x))) \<le> of_int n"
    by (simp only: of_int_le_iff)
  then show ?thesis
    unfolding round64_pos_eq [OF assms(1)] by (rule mult_right_mono) simp
qed

lemma floor_log2_le:
  assumes "0 < x" and "x \<le> pow2 e"
  shows "floor_log2 x \<le> e"
proof -
  from floor_log2_bounds [OF assms(1)] assms(2) have "pow2 (floor_log2 x) \<le> pow2 e"
    by linarith
  then show ?thesis by simp
qed

lemma floor_log2_ge:
  assumes "pow2 e \<le> x"
  shows "e \<le> floor_log2 x"
proof -
  from assms have "0 < x"
    using pow2_pos [of e] by linarith
  from floor_log2_bounds [OF this] assms have "pow2 e < pow2 (floor_log2 x + 1)"
    by linarith
  then show ?thesis by simp
qed

lemma round64_le_pow2:
  assumes "0 < x" and "x \<le> pow2 e" and "- 1074 \<le> e"
  shows "round64 x \<le> pow2 e"
proof -
  from assms(1,2) have "floor_log2 \<bar>x\<bar> \<le> e"
    by (simp add: floor_log2_le)
  with assms(3) have k: "ulp_exponent x \<le> e"
    by (simp add: ulp_exponent_def)
  from assms(2) show ?thesis
    unfolding pow2_multiple [OF k] by (rule round64_le_multiple [OF assms(1)])
qed

lemma round64_ge_pow2:
  assumes "pow2 e \<le> x" and "- 1074 \<le> e"
  shows "pow2 e \<le> round64 x"
proof -
  from assms(1) have pos: "0 < x"
    using pow2_pos [of e] by linarith
  let ?E = "floor_log2 \<bar>x\<bar>"
  from pos assms(1) have eE: "e \<le> ?E"
    by (simp add: floor_log2_ge)
  show ?thesis
  proof (cases "- 1022 \<le> ?E")
    case True
    then have k: "ulp_exponent x \<le> ?E"
      by (simp add: ulp_exponent_def)
    from pos floor_log2_bounds [of "\<bar>x\<bar>"] have "pow2 ?E \<le> x"
      by simp
    then have "pow2 ?E \<le> round64 x"
      unfolding pow2_multiple [OF k] by (rule round64_ge_multiple [OF pos])
    moreover from eE have "pow2 e \<le> pow2 ?E"
      by simp
    ultimately show ?thesis by linarith
  next
    case False
    with assms(2) have k: "ulp_exponent x \<le> e"
      by (simp add: ulp_exponent_def)
    from assms(1) show ?thesis
      unfolding pow2_multiple [OF k] by (rule round64_ge_multiple [OF pos])
  qed
qed

section \<open>Rounding is monotone\<close>

lemma floor_log2_mono:
  assumes "0 < x" and "x \<le> y"
  shows "floor_log2 x \<le> floor_log2 y"
proof -
  from assms have "0 < y" by linarith
  from floor_log2_bounds [OF assms(1)] floor_log2_bounds [OF this] assms(2)
  have "pow2 (floor_log2 x) < pow2 (floor_log2 y + 1)"
    by linarith
  then show ?thesis by simp
qed

lemma round64_mono_pos:
  assumes "0 < x" and "x \<le> y"
  shows "round64 x \<le> round64 y"
proof -
  from assms have y: "0 < y" by linarith
  let ?Ex = "floor_log2 \<bar>x\<bar>" and ?Ey = "floor_log2 \<bar>y\<bar>"
  from assms y have E: "?Ex \<le> ?Ey"
    by (simp add: floor_log2_mono)
  show ?thesis
  proof (cases "ulp_exponent x = ulp_exponent y")
    case True
    let ?u = "pow2 (ulp_exponent y)"
    from assms(2) have "x / ?u \<le> y / ?u"
      by (simp add: divide_right_mono)
    then have "round_half_even (x / ?u) \<le> round_half_even (y / ?u)"
      by (rule round_half_even_mono)
    then have "rat_of_int (round_half_even (x / ?u)) \<le> of_int (round_half_even (y / ?u))"
      by (simp only: of_int_le_iff)
    then have "of_int (round_half_even (x / ?u)) * ?u \<le> of_int (round_half_even (y / ?u)) * ?u"
      by (rule mult_right_mono) simp
    with True show ?thesis
      by (simp only: round64_pos_eq [OF assms(1)] round64_pos_eq [OF y])
  next
    case False
    with E have lt: "?Ex < ?Ey" and norm: "- 1022 < ?Ey"
      by (auto simp: ulp_exponent_def max_def split: if_splits)
    from floor_log2_bounds [of "\<bar>x\<bar>"] assms(1) have "x < pow2 (?Ex + 1)"
      by simp
    moreover from lt have "pow2 (?Ex + 1) \<le> pow2 ?Ey"
      by simp
    ultimately have "x \<le> pow2 ?Ey" by linarith
    with assms(1) norm have "round64 x \<le> pow2 ?Ey"
      by (intro round64_le_pow2) simp_all
    moreover from floor_log2_bounds [of "\<bar>y\<bar>"] y have "pow2 ?Ey \<le> y"
      by simp
    with norm have "pow2 ?Ey \<le> round64 y"
      by (intro round64_ge_pow2) simp_all
    ultimately show ?thesis by linarith
  qed
qed

lemma round64_mono:
  assumes "x \<le> y"
  shows "round64 x \<le> round64 y"
proof -
  consider "0 < x" | "x \<le> 0" "0 \<le> y" | "y < 0"
    using assms by linarith
  then show ?thesis
  proof cases
    case 1
    then show ?thesis using assms by (rule round64_mono_pos)
  next
    case 2
    from 2(1) have "0 \<le> round64 (- x)" by (intro round64_nonneg) simp
    then have "round64 x \<le> 0" by (simp add: round64_minus)
    with round64_nonneg [OF 2(2)] show ?thesis by linarith
  next
    case 3
    with assms have "0 < - y" "- y \<le> - x" by simp_all
    then have "round64 (- y) \<le> round64 (- x)" by (rule round64_mono_pos)
    then show ?thesis by (simp add: round64_minus)
  qed
qed

lemma round64_pos:
  assumes "pow2 (- 1074) \<le> x"
  shows "0 < round64 x"
proof -
  from assms have "pow2 (- 1074) \<le> round64 x"
    by (rule round64_ge_pow2) simp
  with pow2_pos [of "- 1074"] show ?thesis by linarith
qed

lemma round64_abs_le_pow2:
  assumes "\<bar>x\<bar> \<le> pow2 e" and "- 1074 \<le> e"
  shows "\<bar>round64 x\<bar> \<le> pow2 e"
proof -
  consider "0 < x" | "x = 0" | "x < 0" by linarith
  then show ?thesis
  proof cases
    case 1
    with assms round64_le_pow2 [of x e] round64_nonneg [of x] show ?thesis by simp
  next
    case 2
    then show ?thesis by simp
  next
    case 3
    with assms round64_le_pow2 [of "- x" e] round64_nonneg [of "- x"] show ?thesis
      by (simp add: round64_minus)
  qed
qed

section \<open>Rounding fixes the values of binary64\<close>

lemma round64_dyadic_exact:
  assumes "\<bar>m\<bar> < 2 ^ 53" and "- 1074 \<le> e"
  shows "round64 (of_int m * pow2 e) = of_int m * pow2 e"
proof (cases "m = 0")
  case True
  then show ?thesis by simp
next
  case False
  let ?x = "rat_of_int m * pow2 e"
  from False have nz: "?x \<noteq> 0" by simp
  then have pos: "0 < \<bar>?x\<bar>" by simp
  have "\<bar>?x\<bar> = \<bar>rat_of_int m\<bar> * pow2 e"
    by (simp add: abs_mult)
  also from abs_of_int_less_pow2 [OF assms(1)] have "\<dots> < pow2 (int 53) * pow2 e"
    by (intro mult_strict_right_mono) simp_all
  finally have "\<bar>?x\<bar> < pow2 (53 + e)"
    by (simp add: pow2_add)
  with floor_log2_bounds [OF pos] have "pow2 (floor_log2 \<bar>?x\<bar>) < pow2 (53 + e)"
    by linarith
  then have "floor_log2 \<bar>?x\<bar> < 53 + e" by simp
  with assms(2) have k: "ulp_exponent ?x \<le> e"
    by (simp add: ulp_exponent_def)
  define k where "k = ulp_exponent ?x"
  from k have "pow2 e = of_int (2 ^ nat (e - k)) * pow2 k"
    unfolding k_def by (rule pow2_multiple)
  then have "\<bar>?x\<bar> = of_int (\<bar>m\<bar> * 2 ^ nat (e - k)) * pow2 k"
    by (simp add: abs_mult)
  then have "\<bar>?x\<bar> = of_int (\<bar>m\<bar> * 2 ^ nat (e - k)) * pow2 (ulp_exponent ?x)"
    by (simp only: k_def)
  with nz show ?thesis
    by (rule round64_integral_multiple)
qed

lemma round64_of_int_exact:
  assumes "\<bar>n\<bar> < 2 ^ 53"
  shows "round64 (of_int n) = of_int n"
  using round64_dyadic_exact [OF assms, of 0] by simp

lemma float_of_int_exact:
  assumes "\<bar>n\<bar> < 2 ^ 53"
  shows "float_of_int n = Inr (Finite (of_int n))"
proof -
  have "pow2 (int 53) \<le> pow2 1023" by simp
  with abs_of_int_less_pow2 [OF assms] overflow_threshold_ge
  have "\<not> overflow_threshold \<le> \<bar>rat_of_int n\<bar>"
    by linarith
  with assms show ?thesis
    by (simp add: float_of_int_def round64_of_int_exact)
qed

lemma ulp_exponent_ge: "- 1074 \<le> ulp_exponent x"
  by (simp add: ulp_exponent_def)

lemma round64_significand_le:
  assumes "x \<noteq> 0"
  shows "round_half_even (\<bar>x\<bar> / pow2 (ulp_exponent x)) \<le> 2 ^ 53"
proof -
  let ?E = "floor_log2 \<bar>x\<bar>" and ?k = "ulp_exponent x"
  from assms have pos: "0 < \<bar>x\<bar>" by simp
  from floor_log2_bounds [OF pos] have "\<bar>x\<bar> \<le> pow2 (?E + 1)"
    by simp
  also have "pow2 (?E + 1) \<le> pow2 (?k + 53)"
    by (simp add: ulp_exponent_def)
  also have "\<dots> = of_int (2 ^ 53) * pow2 ?k"
    by (subst pow2_multiple [of ?k]) simp_all
  finally have "\<bar>x\<bar> / pow2 ?k \<le> of_int (2 ^ 53)"
    by (simp add: pos_divide_le_eq)
  then show ?thesis
    by (rule round_half_even_le)
qed

lemma round64_representable:
  "\<exists>m e. \<bar>m\<bar> < 2 ^ 53 \<and> - 1074 \<le> e \<and> round64 x = of_int m * pow2 e"
proof (cases "x = 0")
  case True
  then have "\<bar>0::int\<bar> < 2 ^ 53 \<and> - 1074 \<le> (0::int) \<and> round64 x = of_int 0 * pow2 0"
    by simp
  then show ?thesis by blast
next
  case False
  let ?k = "ulp_exponent x"
  let ?n = "round_half_even (\<bar>x\<bar> / pow2 ?k)"
  have n0: "0 \<le> ?n"
    by (rule round_half_even_nonneg) simp
  define s :: int where "s = (if 0 < x then 1 else - 1)"
  have s: "\<bar>s\<bar> = 1"
    by (simp add: s_def)
  have eq: "round64 x = of_int (s * ?n) * pow2 ?k"
    using False by (simp add: round64_def Let_def sgn_if s_def)
  show ?thesis
  proof (cases "?n = 2 ^ 53")
    case True
    have "pow2 (?k + 1) = 2 * pow2 ?k" by (rule pow2_Suc)
    with True eq have "round64 x = of_int (s * 2 ^ 52) * pow2 (?k + 1)"
      by simp
    moreover have "\<bar>s * 2 ^ 52\<bar> < (2::int) ^ 53"
      using s by (simp add: abs_mult)
    moreover have "- 1074 \<le> ?k + 1"
      using ulp_exponent_ge [of x] by simp
    ultimately show ?thesis by blast
  next
    case ne: False
    with round64_significand_le [OF False] n0 s have "\<bar>s * ?n\<bar> < 2 ^ 53"
      by (simp add: abs_mult)
    with eq show ?thesis
      using ulp_exponent_ge [of x] by blast
  qed
qed

lemma round64_idem: "round64 (round64 x) = round64 x"
proof -
  from round64_representable [of x] obtain m e where
    "\<bar>m\<bar> < 2 ^ 53" "- 1074 \<le> e" "round64 x = of_int m * pow2 e"
    by blast
  then show ?thesis
    by (simp add: round64_dyadic_exact)
qed

section \<open>Relative error\<close>

text \<open>
  Above the subnormal range the rounding error is at most \<open>2 ^ -53\<close> of the value, and a
  quotient whose divisor and whose result are both rounded is within three such units
  of the exact quotient.
\<close>

lemma round64_rel_error:
  assumes "pow2 (- 1022) \<le> \<bar>x\<bar>"
  shows "\<bar>round64 x - x\<bar> \<le> \<bar>x\<bar> * pow2 (- 53)"
proof -
  let ?E = "floor_log2 \<bar>x\<bar>"
  from assms have E: "- 1022 \<le> ?E" by (rule floor_log2_ge)
  from assms have "0 < \<bar>x\<bar>"
    using pow2_pos [of "- 1022"] by linarith
  then have "pow2 ?E \<le> \<bar>x\<bar>"
    using floor_log2_bounds [of "\<bar>x\<bar>"] by simp
  then have "pow2 ?E * pow2 (- 53) \<le> \<bar>x\<bar> * pow2 (- 53)"
    by (intro mult_right_mono) simp_all
  moreover from E have "pow2 (ulp_exponent x) / 2 = pow2 ?E * pow2 (- 53)"
    using pow2_Suc [of "?E - 53"] by (simp add: ulp_exponent_def pow2_add [symmetric])
  ultimately show ?thesis
    using round64_error [of x] by linarith
qed

lemma quotient_rel_error:
  fixes a a' q r u :: rat
  assumes "0 < a" and "0 \<le> q" and "0 \<le> u" and "u \<le> 1 / 3"
    and "\<bar>a' - a\<bar> \<le> a * u" and "\<bar>r - q / a'\<bar> \<le> q / a' * u"
  shows "\<bar>r - q / a\<bar> \<le> q / a * (3 * u)"
proof -
  define y x where "y = q / a'" and "x = q / a"
  from assms(1,4) have "a * u \<le> a * (1 / 3)"
    by (intro mult_left_mono) simp_all
  with assms(1,5) have a': "0 < a'" by linarith
  with assms(2) have y: "0 \<le> y" by (simp add: y_def)
  from a' assms(1) have "x - y = y * ((a' - a) / a)"
    by (simp add: x_def y_def field_simps)
  then have "\<bar>x - y\<bar> = \<bar>y\<bar> * (\<bar>a' - a\<bar> / \<bar>a\<bar>)"
    by (simp only: abs_mult abs_divide)
  also have "\<dots> = y * (\<bar>a' - a\<bar> / a)"
    using y assms(1) by (simp only: abs_of_nonneg abs_of_pos)
  also have "\<dots> \<le> y * u"
  proof (rule mult_left_mono [OF _ y])
    from assms(1,5) show "\<bar>a' - a\<bar> / a \<le> u"
      by (simp add: pos_divide_le_eq mult.commute)
  qed
  finally have xy: "\<bar>x - y\<bar> \<le> y * u" .
  from y assms(4) have "y * u \<le> y * (1 / 3)"
    by (intro mult_left_mono) simp_all
  with xy have "2 * y \<le> 3 * x" by linarith
  then have "(2 * y) * u \<le> (3 * x) * u"
    using assms(3) by (rule mult_right_mono)
  then have "2 * (y * u) \<le> x * (3 * u)" by (simp add: mult_ac)
  with xy assms(6) [folded y_def] have "\<bar>r - x\<bar> \<le> x * (3 * u)" by linarith
  then show ?thesis by (simp only: x_def)
qed

section \<open>Operations within the range\<close>

lemma not_overflow:
  assumes "\<bar>x\<bar> \<le> pow2 e" and "e < 1023"
  shows "\<not> overflow_threshold \<le> \<bar>x\<bar>"
proof -
  from assms(2) have "pow2 e < pow2 1023" by simp
  with assms(1) overflow_threshold_ge show ?thesis by linarith
qed

lemma float_of_rat_finite:
  assumes "\<bar>x\<bar> \<le> pow2 e" and "e < 1023"
  shows "float_of_rat x = Finite (round64 x)"
  using not_overflow [OF assms] by (simp add: float_of_rat_def)

lemma int_true_div_finite:
  assumes "b \<noteq> 0" and "\<bar>of_int a / of_int b\<bar> \<le> pow2 e" and "e < 1023"
  shows "int_true_div a b = Inr (Finite (round64 (of_int a / of_int b)))"
  using not_overflow [OF assms(2,3)] assms(1) by (simp add: int_true_div_def)

lemma float_of_int_finite:
  assumes "\<bar>of_int n\<bar> \<le> pow2 e" and "e < 1023"
  shows "float_of_int n = Inr (Finite (round64 (of_int n)))"
  using not_overflow [OF assms] by (simp add: float_of_int_def)

lemma abs_of_int_le_pow2:
  assumes "\<bar>n\<bar> \<le> 2 ^ k"
  shows "\<bar>rat_of_int n\<bar> \<le> pow2 (int k)"
proof -
  from assms have "rat_of_int \<bar>n\<bar> \<le> of_int (2 ^ k)"
    by (simp only: of_int_le_iff)
  then show ?thesis
    by (simp add: pow2_nat)
qed

end
