(* ===== verification/Py_Value.thy ===== *)
theory Py_Value
  imports Binary64
begin

text \<open>
  The request body is whatever \<open>request.json\<close> parsed: a JSON value. This theory gives
  the values and the Python operations the handlers apply to them: truthiness
  (\<open>not data\<close>), membership (\<open>field in data\<close>), subscription (\<open>data['sku']\<close>) and the
  conversions \<open>float(...)\<close> and \<open>int(...)\<close>, each with the exception Python raises on
  the values it refuses. A string is a list of characters with code points below 256
  (the type \<open>char\<close>), so text with other code points is outside the model.
\<close>

section \<open>JSON values\<close>

datatype json =
    JNull
  | JBool bool
  | JInt int
  | JFloat pyfloat
  | JStr string
  | JArray "json list"
  | JObject "(string \<times> json) list"

text \<open>\<open>bool(x)\<close>: empty containers, zero, \<open>False\<close> and \<open>None\<close> are falsy.\<close>

fun truthy :: "json \<Rightarrow> bool" where
  "truthy JNull = False"
| "truthy (JBool b) = b"
| "truthy (JInt n) = (n \<noteq> 0)"
| "truthy (JFloat f) = (f \<noteq> Finite 0)"
| "truthy (JStr s) = (s \<noteq> [])"
| "truthy (JArray xs) = (xs \<noteq> [])"
| "truthy (JObject kvs) = (kvs \<noteq> [])"

text \<open>\<open>needle in hay\<close> for two strings: the substring test.\<close>

fun contains_str :: "string \<Rightarrow> string \<Rightarrow> bool" where
  "contains_str n [] = (n = [])"
| "contains_str n (c # cs) = (take (length n) (c # cs) = n \<or> contains_str n cs)"

text \<open>
  \<open>field in data\<close>: a key of a dictionary, an element of a list, a substring of a
  string; the other values are not containers.
\<close>

fun py_contains :: "string \<Rightarrow> json \<Rightarrow> bool result" where
  "py_contains k (JObject kvs) = Inr (k \<in> set (map fst kvs))"
| "py_contains k (JArray xs) = Inr (JStr k \<in> set xs)"
| "py_contains k (JStr s) = Inr (contains_str k s)"
| "py_contains k _ = Inl TypeError"

text \<open>
  \<open>all(field in data for field in fields)\<close>: the generator stops at the first field
  that is missing, and an exception of a membership test leaves \<open>all\<close>.
\<close>

fun all_in :: "string list \<Rightarrow> json \<Rightarrow> bool result" where
  "all_in [] d = Inr True"
| "all_in (k # ks) d = rbind (py_contains k d) (\<lambda>b. if b then all_in ks d else Inr False)"

text \<open>
  \<open>data[key]\<close> with a string key: the value stored in a dictionary, \<open>KeyError\<close> when
  it has none; a list or a string wants integer indices, the other values are not
  subscriptable.
\<close>

fun py_getitem :: "json \<Rightarrow> string \<Rightarrow> json result" where
  "py_getitem (JObject kvs) k = (case map_of kvs k of None \<Rightarrow> Inl KeyError | Some v \<Rightarrow> Inr v)"
| "py_getitem _ k = Inl TypeError"

section \<open>Numeric strings\<close>

text \<open>
  \<open>float(s)\<close> and \<open>int(s)\<close> strip the characters \<open>str.isspace\<close> accepts. Below code point
  256 these are the ASCII controls 0x09 to 0x0D and 0x1C to 0x1F, the space, the next-line
  control 0x85 and the no-break space 0xA0; the digits are the ASCII digits, the only
  decimal digits below 256.
\<close>

definition is_space :: "char \<Rightarrow> bool" where
  "is_space c = (c \<in> set [CHR 0x09, CHR 0x0A, CHR 0x0B, CHR 0x0C, CHR 0x0D,
     CHR 0x1C, CHR 0x1D, CHR 0x1E, CHR 0x1F, CHR 0x20, CHR 0x85, CHR 0xA0])"

definition strip :: "string \<Rightarrow> string" where
  "strip s = rev (dropWhile is_space (rev (dropWhile is_space s)))"

definition digit_val :: "char \<Rightarrow> nat option" where
  "digit_val c =
     (let n = of_char c :: nat in if 48 \<le> n \<and> n \<le> 57 then Some (n - 48) else None)"

text \<open>A digit part: digits, with single underscores allowed between two digits.\<close>

fun digitpart :: "string \<Rightarrow> nat list option" where
  "digitpart [] = None"
| "digitpart [c] = map_option (\<lambda>v. [v]) (digit_val c)"
| "digitpart (c # d # cs) =
     (case digit_val c of
        None \<Rightarrow> None
      | Some v \<Rightarrow>
          map_option ((#) v) (if d = CHR ''_'' then digitpart cs else digitpart (d # cs)))"

definition digits_value :: "nat list \<Rightarrow> nat" where
  "digits_value ds = foldl (\<lambda>a d. 10 * a + d) 0 ds"

text \<open>An optional sign: \<open>True\<close> for a leading minus.\<close>

definition split_sign :: "string \<Rightarrow> bool \<times> string" where
  "split_sign s =
     (case s of
        [] \<Rightarrow> (False, [])
      | c # r \<Rightarrow> if c = CHR ''-'' then (True, r) else if c = CHR ''+'' then (False, r)
                 else (False, s))"

text \<open>\<open>int(s)\<close> for a string, base ten.\<close>

definition parse_int :: "string \<Rightarrow> int option" where
  "parse_int s =
     (let (neg, r) = split_sign (strip s)
      in map_option (\<lambda>ds. if neg then - int (digits_value ds) else int (digits_value ds))
           (digitpart r))"

text \<open>Splitting at the first character that satisfies \<open>P\<close>, which is dropped.\<close>

definition split_at :: "(char \<Rightarrow> bool) \<Rightarrow> string \<Rightarrow> string \<times> string option" where
  "split_at P s =
     (case dropWhile (\<lambda>c. \<not> P c) s of
        [] \<Rightarrow> (s, None)
      | c # r \<Rightarrow> (takeWhile (\<lambda>c. \<not> P c) s, Some r))"

definition lower :: "char \<Rightarrow> char" where
  "lower c =
     (let n = of_char c :: nat in if 65 \<le> n \<and> n \<le> 90 then char_of (n + 32) else c)"

text \<open>
  The mantissa \<open>[digitpart] "." digitpart | digitpart ["."]\<close>: its digits and the
  number of digits after the point.
\<close>

definition parse_mantissa :: "string \<Rightarrow> (nat \<times> nat) option" where
  "parse_mantissa s =
     (case split_at (\<lambda>c. c = CHR ''.'') s of
        (ip, None) \<Rightarrow> map_option (\<lambda>ds. (digits_value ds, 0)) (digitpart ip)
      | (ip, Some fp) \<Rightarrow>
          if fp = [] then map_option (\<lambda>ds. (digits_value ds, 0)) (digitpart ip)
          else if ip = [] then map_option (\<lambda>fs. (digits_value fs, length fs)) (digitpart fp)
          else (case (digitpart ip, digitpart fp) of
                  (Some ds, Some fs) \<Rightarrow> Some (digits_value (ds @ fs), length fs)
                | _ \<Rightarrow> None))"

definition parse_exponent :: "string option \<Rightarrow> int option" where
  "parse_exponent ex =
     (case ex of
        None \<Rightarrow> Some 0
      | Some e \<Rightarrow>
          (let (neg, r) = split_sign e
           in map_option (\<lambda>ds. if neg then - int (digits_value ds) else int (digits_value ds))
                (digitpart r)))"

definition pow10 :: "int \<Rightarrow> rat" where
  "pow10 e = power_int 10 e"

text \<open>
  \<open>float(s)\<close> for a string: an optional sign, then \<open>inf\<close>, \<open>infinity\<close> or \<open>nan\<close> in
  any case, or a decimal number with an optional exponent, rounded to binary64.
\<close>

definition parse_float :: "string \<Rightarrow> pyfloat option" where
  "parse_float s =
     (let (neg, r) = split_sign (strip s); l = map lower r
      in if l = ''inf'' \<or> l = ''infinity'' then Some (if neg then NegInf else PosInf)
         else if l = ''nan'' then Some NaN
         else (case split_at (\<lambda>c. c = CHR ''e'' \<or> c = CHR ''E'') r of
                 (m, ex) \<Rightarrow>
                   (case (parse_mantissa m, parse_exponent ex) of
                      (Some (v, k), Some e) \<Rightarrow>
                        Some (float_of_rat ((if neg then - 1 else 1) * of_nat v
                          * pow10 (e - int k)))
                    | _ \<Rightarrow> None)))"

section \<open>Conversions\<close>

text \<open>\<open>float(x)\<close>, as in \<open>float(data['price'])\<close>.\<close>

fun py_float :: "json \<Rightarrow> pyfloat result" where
  "py_float (JBool b) = Inr (Finite (if b then 1 else 0))"
| "py_float (JInt n) = float_of_int n"
| "py_float (JFloat f) = Inr f"
| "py_float (JStr s) = (case parse_float s of None \<Rightarrow> Inl ValueError | Some f \<Rightarrow> Inr f)"
| "py_float _ = Inl TypeError"

text \<open>\<open>int(x)\<close>, as in \<open>int(data['initial_quantity'])\<close>.\<close>

fun py_int :: "json \<Rightarrow> int result" where
  "py_int (JBool b) = Inr (if b then 1 else 0)"
| "py_int (JInt n) = Inr n"
| "py_int (JFloat f) = int_of_float f"
| "py_int (JStr s) = (case parse_int s of None \<Rightarrow> Inl ValueError | Some n \<Rightarrow> Inr n)"
| "py_int _ = Inl TypeError"

section \<open>Responses\<close>

text \<open>
  A response is a status code and a JSON body, as in \<open>return jsonify(...), 400\<close>. An
  exception that no \<open>except\<close> clause of a handler catches leaves the handler; the
  framework answers it.
\<close>

datatype outcome = Reply nat json | Unhandled exn

definition status :: "outcome \<Rightarrow> nat option" where
  "status r = (case r of Reply c _ \<Rightarrow> Some c | Unhandled _ \<Rightarrow> None)"

definition error_body :: "string \<Rightarrow> json" where
  "error_body msg = JObject [(''error'', JStr msg)]"

text \<open>
  A replacement field \<open>{v}\<close> of an f-string is \<open>format(v, '')\<close>: a \<open>str\<close> is its own text.
  The creation handler formats \<open>data['sku']\<close> only after the query has found a row with
  that value, which is then a string (\<open>Create_Product.sku_lookup_Some\<close>). The
  text of the other values is not needed and not modelled: they are given the empty text.
\<close>

fun py_format :: "json \<Rightarrow> string" where
  "py_format (JStr s) = s"
| "py_format _ = []"

lemma status_Reply [simp]: "status (Reply c b) = Some c"
  by (simp add: status_def)

lemma status_Unhandled [simp]: "status (Unhandled e) = None"
  by (simp add: status_def)

lemmas parse_defs [py_defs] =
  parse_int_def parse_float_def parse_mantissa_def parse_exponent_def split_at_def
  split_sign_def strip_def digit_val_def digits_value_def is_space_def lower_def pow10_def

section \<open>Membership and subscription on dictionaries\<close>

lemma all_in_object:
  "all_in ks (JObject kvs) = Inr (set ks \<subseteq> fst ` set kvs)"
  by (induction ks) auto

lemma py_getitem_object_Inr:
  "k \<in> fst ` set kvs \<Longrightarrow> \<exists>v. py_getitem (JObject kvs) k = Inr v"
  by (cases "map_of kvs k") (auto simp: map_of_eq_None_iff)

lemma py_getitem_not_object:
  "\<forall>kvs. data \<noteq> JObject kvs \<Longrightarrow> py_getitem data k = Inl TypeError"
  by (cases data) auto

lemma py_getitem_Inr_object: "py_getitem data k = Inr v \<Longrightarrow> \<exists>kvs. data = JObject kvs"
  by (cases data) auto

lemma py_getitem_Inr_key: "py_getitem (JObject kvs) k = Inr v \<Longrightarrow> k \<in> fst ` set kvs"
  by (auto split: option.splits dest: map_of_SomeD intro: rev_image_eqI)

end
