(* ===== verification/Database.thy ===== *)
theory Database
  imports Py_Value
begin

text \<open>
  The storage collaborator both handlers talk to: the six tables of the schema, the
  constraints the storage layer enforces on an insert (column types, \<open>NOT NULL\<close>, unique
  SKU, one inventory row per product and warehouse, foreign keys), and the unit of work
  behind \<open>db.session\<close>: \<open>add\<close>, \<open>flush\<close>, \<open>commit\<close>, \<open>rollback\<close>, the query
  \<open>Product.query.filter_by(sku=...).first()\<close> and the read of an attribute of an object
  after the commit. The model classes are not part of the
  sources; the rows carry the columns the handlers read and write. A session works on a
  private copy of the committed tables, which \<open>commit\<close> publishes and \<open>rollback\<close> drops.
\<close>

section \<open>Tables\<close>

record product =
  p_id :: int
  p_name :: string
  p_sku :: string
  p_price :: pyfloat
  p_warehouse_id :: int
  p_product_type_id :: "int option"
  p_supplier_id :: "int option"

record inventory =
  i_id :: int
  i_product_id :: int
  i_warehouse_id :: int
  i_quantity :: int

record warehouse =
  w_id :: int
  w_name :: string
  w_company_id :: int

record product_type =
  pt_id :: int
  pt_low_stock_threshold :: int

record supplier =
  s_id :: int
  s_name :: string
  s_contact_email :: string

record sales_activity =
  sa_product_id :: int
  sa_warehouse_id :: int
  sa_quantity_sold :: "int option"
  sa_sale_date :: int

record database =
  products :: "product list"
  inventories :: "inventory list"
  warehouses :: "warehouse list"
  product_types :: "product_type list"
  suppliers :: "supplier list"
  sales_activities :: "sales_activity list"

definition empty_db :: database where
  "empty_db = \<lparr>products = [], inventories = [], warehouses = [], product_types = [],
     suppliers = [], sales_activities = []\<rparr>"

section \<open>Constraints of the schema\<close>

text \<open>
  What the storage layer keeps true of the committed tables: primary keys and SKUs are
  unique, there is one inventory row per product and warehouse, and every foreign key
  points at a row.
\<close>

definition wf_keys :: "database \<Rightarrow> bool" where
  "wf_keys db \<longleftrightarrow>
     distinct (map p_id (products db)) \<and>
     distinct (map p_sku (products db)) \<and>
     distinct (map i_id (inventories db)) \<and>
     distinct (map (\<lambda>i. (i_product_id i, i_warehouse_id i)) (inventories db)) \<and>
     distinct (map w_id (warehouses db)) \<and>
     distinct (map pt_id (product_types db)) \<and>
     distinct (map s_id (suppliers db))"

definition wf_refs :: "database \<Rightarrow> bool" where
  "wf_refs db \<longleftrightarrow>
     list_all (\<lambda>p. p_warehouse_id p \<in> set (map w_id (warehouses db)) \<and>
        (case p_product_type_id p of None \<Rightarrow> True
         | Some t \<Rightarrow> t \<in> set (map pt_id (product_types db))) \<and>
        (case p_supplier_id p of None \<Rightarrow> True
         | Some u \<Rightarrow> u \<in> set (map s_id (suppliers db)))) (products db) \<and>
     list_all (\<lambda>i. i_product_id i \<in> set (map p_id (products db)) \<and>
        i_warehouse_id i \<in> set (map w_id (warehouses db))) (inventories db)"

definition wf_db :: "database \<Rightarrow> bool" where
  "wf_db db \<longleftrightarrow> wf_keys db \<and> wf_refs db"

section \<open>Inserting rows\<close>

text \<open>
  The objects the handler builds carry the request's values as they are; the storage
  layer checks them when the row is written. A value of the wrong JSON type for its
  column is refused with \<open>DataError\<close>; \<open>null\<close> binds to SQL \<open>NULL\<close>.
\<close>

record product_obj =
  po_id :: "int option"
  po_name :: json
  po_sku :: json
  po_price :: pyfloat
  po_warehouse_id :: json

record inventory_obj =
  io_id :: "int option"
  io_product_id :: "int option"
  io_warehouse_id :: json
  io_quantity :: int

datatype orm_obj = ProductObj product_obj | InventoryObj inventory_obj

fun bind_string :: "json \<Rightarrow> string option result" where
  "bind_string (JStr s) = Inr (Some s)"
| "bind_string JNull = Inr None"
| "bind_string _ = Inl DataError"

fun bind_integer :: "json \<Rightarrow> int option result" where
  "bind_integer (JInt n) = Inr (Some n)"
| "bind_integer JNull = Inr None"
| "bind_integer _ = Inl DataError"

definition not_null :: "'a option \<Rightarrow> 'a result" where
  "not_null v = (case v of None \<Rightarrow> Inl IntegrityError | Some x \<Rightarrow> Inr x)"

text \<open>The next value of an auto-incremented key: one more than the largest key in use.\<close>

definition next_id :: "int list \<Rightarrow> int" where
  "next_id ids = foldr max ids 0 + 1"

definition insert_product :: "product_obj \<Rightarrow> database \<Rightarrow> (int \<times> database) result" where
  "insert_product ob db =
     rbind (bind_string (po_name ob)) (\<lambda>name.
     rbind (bind_string (po_sku ob)) (\<lambda>sku.
     rbind (bind_integer (po_warehouse_id ob)) (\<lambda>wid.
     rbind (not_null name) (\<lambda>name.
     rbind (not_null sku) (\<lambda>sku.
     rbind (not_null wid) (\<lambda>wid.
       if sku \<in> set (map p_sku (products db)) then Inl IntegrityError
       else if wid \<notin> set (map w_id (warehouses db)) then Inl IntegrityError
       else let pid = next_id (map p_id (products db))
            in Inr (pid, db\<lparr>products := products db @
                 [\<lparr>p_id = pid, p_name = name, p_sku = sku, p_price = po_price ob,
                   p_warehouse_id = wid, p_product_type_id = None,
                   p_supplier_id = None\<rparr>]\<rparr>)))))))"

definition insert_inventory :: "inventory_obj \<Rightarrow> database \<Rightarrow> (int \<times> database) result" where
  "insert_inventory ob db =
     rbind (bind_integer (io_warehouse_id ob)) (\<lambda>wid.
     rbind (not_null (io_product_id ob)) (\<lambda>pid.
     rbind (not_null wid) (\<lambda>wid.
       if pid \<notin> set (map p_id (products db)) then Inl IntegrityError
       else if wid \<notin> set (map w_id (warehouses db)) then Inl IntegrityError
       else if (pid, wid) \<in> set (map (\<lambda>i. (i_product_id i, i_warehouse_id i)) (inventories db))
         then Inl IntegrityError
       else let iid = next_id (map i_id (inventories db))
            in Inr (iid, db\<lparr>inventories := inventories db @
                 [\<lparr>i_id = iid, i_product_id = pid, i_warehouse_id = wid,
                   i_quantity = io_quantity ob\<rparr>]\<rparr>))))"

section \<open>The unit of work\<close>

text \<open>
  Failures that do not come from the data, such as a lost connection or a row that a
  concurrent request committed first, are an input of the model: a fault plan says which
  call to the storage layer fails, and with which exception.
\<close>

datatype db_call = Query | Flush | Commit | Refresh

type_synonym faults = "db_call \<Rightarrow> exn option"

definition no_faults :: faults where
  "no_faults = (\<lambda>_. None)"

definition check_fault :: "faults \<Rightarrow> db_call \<Rightarrow> unit result" where
  "check_fault f c = (case f c of None \<Rightarrow> Inr () | Some e \<Rightarrow> Inl e)"

record session =
  committed :: database
  working :: database
  objs :: "orm_obj list"

definition new_session :: "database \<Rightarrow> session" where
  "new_session db = \<lparr>committed = db, working = db, objs = []\<rparr>"

text \<open>\<open>db.session.add(obj)\<close>: the object joins the session; its handle is its position.\<close>

definition session_add :: "orm_obj \<Rightarrow> session \<Rightarrow> nat \<times> session" where
  "session_add ob s = (length (objs s), s\<lparr>objs := objs s @ [ob]\<rparr>)"

fun obj_id :: "orm_obj \<Rightarrow> int option" where
  "obj_id (ProductObj ob) = po_id ob"
| "obj_id (InventoryObj ob) = io_id ob"

text \<open>The attribute \<open>.id\<close> of the object behind a handle; \<open>None\<close> before its flush.\<close>

definition id_at :: "session \<Rightarrow> nat \<Rightarrow> int option" where
  "id_at s h = (if h < length (objs s) then obj_id (objs s ! h) else None)"

text \<open>Writing one object: a pending one is inserted and receives its key.\<close>

fun flush_obj :: "orm_obj \<Rightarrow> database \<Rightarrow> (orm_obj \<times> database) result" where
  "flush_obj (ProductObj ob) db =
     (if po_id ob \<noteq> None then Inr (ProductObj ob, db)
      else rbind (insert_product ob db)
             (\<lambda>(k, db'). Inr (ProductObj (ob\<lparr>po_id := Some k\<rparr>), db')))"
| "flush_obj (InventoryObj ob) db =
     (if io_id ob \<noteq> None then Inr (InventoryObj ob, db)
      else rbind (insert_inventory ob db)
             (\<lambda>(k, db'). Inr (InventoryObj (ob\<lparr>io_id := Some k\<rparr>), db')))"

fun flush_objs :: "orm_obj list \<Rightarrow> database \<Rightarrow> (orm_obj list \<times> database) result" where
  "flush_objs [] db = Inr ([], db)"
| "flush_objs (ob # obs) db =
     rbind (flush_obj ob db) (\<lambda>(ob', db').
     rbind (flush_objs obs db') (\<lambda>(obs', db''). Inr (ob' # obs', db'')))"

definition flush_pending :: "session \<Rightarrow> session result" where
  "flush_pending s =
     rbind (flush_objs (objs s) (working s))
       (\<lambda>(obs, db). Inr (s\<lparr>working := db, objs := obs\<rparr>))"

text \<open>\<open>db.session.flush()\<close>.\<close>

definition session_flush :: "faults \<Rightarrow> session \<Rightarrow> session result" where
  "session_flush f s = rbind (check_fault f Flush) (\<lambda>_. flush_pending s)"

text \<open>\<open>db.session.commit()\<close>: what is pending is written, then the copy is published.\<close>

definition session_commit :: "faults \<Rightarrow> session \<Rightarrow> session result" where
  "session_commit f s =
     rbind (check_fault f Commit) (\<lambda>_.
     rbind (flush_pending s) (\<lambda>s'. Inr (s'\<lparr>committed := working s'\<rparr>)))"

text \<open>
  \<open>obj.id\<close> after the commit. A commit expires the objects of the session, so the next
  read of an attribute loads the row again, in a new transaction; like every statement,
  the load can fail. With objects that do not expire the read is \<open>id_at\<close>, the case of a
  fault plan without \<open>Refresh\<close>.
\<close>

definition session_refresh :: "faults \<Rightarrow> session \<Rightarrow> nat \<Rightarrow> int option result" where
  "session_refresh f s h = rbind (check_fault f Refresh) (\<lambda>_. Inr (id_at s h))"

text \<open>\<open>db.session.rollback()\<close>: the copy and the objects of the transaction are dropped.\<close>

definition session_rollback :: "session \<Rightarrow> session" where
  "session_rollback s = s\<lparr>working := committed s, objs := []\<rparr>"

text \<open>
  \<open>Product.query.filter_by(sku=v).first()\<close>: the first product of the transaction's view
  whose SKU is \<open>v\<close>. No row has a \<open>NULL\<close> SKU.
\<close>

definition query_product_by_sku :: "faults \<Rightarrow> session \<Rightarrow> json \<Rightarrow> product option result" where
  "query_product_by_sku f s v =
     rbind (check_fault f Query) (\<lambda>_.
     rbind (bind_string v) (\<lambda>k.
       case k of
         None \<Rightarrow> Inr None
       | Some sku \<Rightarrow> Inr (List.find (\<lambda>p. p_sku p = sku) (products (working s)))))"

lemmas insert_defs [db_defs] = insert_product_def insert_inventory_def not_null_def next_id_def

lemmas session_defs [db_defs] =
  check_fault_def new_session_def session_add_def id_at_def flush_pending_def
  session_flush_def session_commit_def session_refresh_def session_rollback_def
  query_product_by_sku_def

section \<open>Column binding\<close>

lemma bind_string_Inr_iff:
  "bind_string v = Inr x \<longleftrightarrow> (v = JNull \<and> x = None) \<or> (\<exists>s. v = JStr s \<and> x = Some s)"
  by (cases v) auto

lemma bind_integer_Inr_iff:
  "bind_integer v = Inr x \<longleftrightarrow> (v = JNull \<and> x = None) \<or> (\<exists>n. v = JInt n \<and> x = Some n)"
  by (cases v) auto

lemma bind_string_Inl: "bind_string v = Inl e \<Longrightarrow> e = DataError"
  by (cases v) auto

lemma bind_integer_Inl: "bind_integer v = Inl e \<Longrightarrow> e = DataError"
  by (cases v) auto

lemma not_null_simps [simp]:
  "not_null (Some x) = Inr x"
  "not_null None = Inl IntegrityError"
  by (simp_all add: not_null_def)

lemma not_null_Inr_iff [simp]: "not_null v = Inr x \<longleftrightarrow> v = Some x"
  by (cases v) (auto simp: not_null_def)

lemma not_null_Inl_iff [simp]: "not_null v = Inl e \<longleftrightarrow> v = None \<and> e = IntegrityError"
  by (cases v) (auto simp: not_null_def)

section \<open>Fresh keys\<close>

lemma next_id_greater: "k \<in> set ids \<Longrightarrow> k < next_id ids"
  by (induction ids) (auto simp: next_id_def)

lemma next_id_fresh [simp]: "next_id ids \<notin> set ids"
  using next_id_greater [of "next_id ids" ids] by auto

lemma next_id_map_neq [simp]: "x \<in> set xs \<Longrightarrow> next_id (map f xs) \<noteq> f x"
  using next_id_greater [of "f x" "map f xs"] by auto

lemma next_id_notin_image [simp]: "next_id (map f xs) \<notin> f ` set xs"
  using next_id_fresh [of "map f xs"] by simp

lemma next_id_pos: "0 < next_id ids"
  by (induction ids) (auto simp: next_id_def)

section \<open>Effect of an insert\<close>

lemma insert_product_Inr_iff:
  "insert_product ob db = Inr (k, db') \<longleftrightarrow>
     (\<exists>name sku wid.
        po_name ob = JStr name \<and> po_sku ob = JStr sku \<and> po_warehouse_id ob = JInt wid \<and>
        sku \<notin> set (map p_sku (products db)) \<and> wid \<in> set (map w_id (warehouses db)) \<and>
        k = next_id (map p_id (products db)) \<and>
        db' = db\<lparr>products := products db @
          [\<lparr>p_id = k, p_name = name, p_sku = sku, p_price = po_price ob,
            p_warehouse_id = wid, p_product_type_id = None, p_supplier_id = None\<rparr>]\<rparr>)"
  by (auto simp: insert_product_def rbind_eq_Inr_iff bind_string_Inr_iff bind_integer_Inr_iff
        Let_def split: if_splits)

lemma insert_inventory_Inr_iff:
  "insert_inventory ob db = Inr (k, db') \<longleftrightarrow>
     (\<exists>pid wid.
        io_product_id ob = Some pid \<and> io_warehouse_id ob = JInt wid \<and>
        pid \<in> set (map p_id (products db)) \<and> wid \<in> set (map w_id (warehouses db)) \<and>
        (pid, wid) \<notin> set (map (\<lambda>i. (i_product_id i, i_warehouse_id i)) (inventories db)) \<and>
        k = next_id (map i_id (inventories db)) \<and>
        db' = db\<lparr>inventories := inventories db @
          [\<lparr>i_id = k, i_product_id = pid, i_warehouse_id = wid,
            i_quantity = io_quantity ob\<rparr>]\<rparr>)"
  by (auto simp: insert_inventory_def rbind_eq_Inr_iff bind_integer_Inr_iff
        Let_def split: if_splits)

lemma insert_product_Inl:
  "insert_product ob db = Inl e \<Longrightarrow> e = DataError \<or> e = IntegrityError"
  by (auto simp: insert_product_def rbind_eq_Inl_iff Let_def
        dest: bind_string_Inl bind_integer_Inl split: if_splits)

lemma insert_inventory_Inl:
  "insert_inventory ob db = Inl e \<Longrightarrow> e = DataError \<or> e = IntegrityError"
  by (auto simp: insert_inventory_def rbind_eq_Inl_iff Let_def
        dest: bind_integer_Inl split: if_splits)

section \<open>Inserts keep the constraints\<close>

lemma insert_product_wf:
  assumes "insert_product ob db = Inr (k, db')" and "wf_db db"
  shows "wf_db db'"
proof -
  from assms have "wf_keys db'"
    by (auto simp: insert_product_Inr_iff wf_db_def wf_keys_def)
  moreover from assms have "wf_refs db'"
    by (auto simp: insert_product_Inr_iff wf_db_def wf_refs_def list_all_iff
          split: option.splits)
  ultimately show ?thesis by (simp add: wf_db_def)
qed

lemma insert_inventory_wf:
  assumes "insert_inventory ob db = Inr (k, db')" and "wf_db db"
  shows "wf_db db'"
proof -
  from assms have "wf_keys db'"
    by (auto simp: insert_inventory_Inr_iff wf_db_def wf_keys_def)
  moreover from assms have "wf_refs db'"
    by (auto simp: insert_inventory_Inr_iff wf_db_def wf_refs_def list_all_iff
          split: option.splits)
  ultimately show ?thesis by (simp add: wf_db_def)
qed

lemma wf_inventory_product:
  "wf_db db \<Longrightarrow> i \<in> set (inventories db) \<Longrightarrow> i_product_id i \<in> p_id ` set (products db)"
  by (auto simp: wf_db_def wf_refs_def list_all_iff)

lemma wf_next_id_unused:
  "wf_db db \<Longrightarrow> i \<in> set (inventories db) \<Longrightarrow> i_product_id i \<noteq> next_id (map p_id (products db))"
  using wf_inventory_product [of db i] next_id_notin_image [of p_id "products db"] by auto

section \<open>The unit of work keeps the constraints and the committed tables\<close>

lemma flush_obj_wf:
  assumes "flush_obj ob db = Inr (ob', db')" and "wf_db db"
  shows "wf_db db'"
  using assms
  by (cases ob)
     (auto simp: rbind_eq_Inr_iff split: if_splits dest: insert_product_wf insert_inventory_wf)

lemma flush_objs_wf:
  "flush_objs obs db = Inr (obs', db') \<Longrightarrow> wf_db db \<Longrightarrow> wf_db db'"
proof (induction obs arbitrary: db obs' db')
  case Nil
  then show ?case by simp
next
  case (Cons ob obs)
  then show ?case
    by (auto simp: rbind_eq_Inr_iff dest: flush_obj_wf)
qed

lemma flush_pending_Inr:
  assumes "flush_pending s = Inr s'"
  shows "committed s' = committed s"
    and "wf_db (working s) \<Longrightarrow> wf_db (working s')"
  using assms by (auto simp: flush_pending_def rbind_eq_Inr_iff dest: flush_objs_wf)

lemma session_flush_Inr:
  assumes "session_flush f s = Inr s'"
  shows "committed s' = committed s"
    and "wf_db (working s) \<Longrightarrow> wf_db (working s')"
    and "f Flush = None"
  using assms
  by (auto simp: session_flush_def check_fault_def rbind_eq_Inr_iff dest: flush_pending_Inr
        split: option.splits)

lemma session_commit_Inr:
  assumes "session_commit f s = Inr s'"
  shows "committed s' = working s'"
    and "wf_db (working s) \<Longrightarrow> wf_db (committed s')"
    and "f Commit = None"
  using assms
  by (auto simp: session_commit_def check_fault_def rbind_eq_Inr_iff dest: flush_pending_Inr
        split: option.splits)

lemma session_add_simps [simp]:
  "committed (snd (session_add ob s)) = committed s"
  "working (snd (session_add ob s)) = working s"
  "objs (snd (session_add ob s)) = objs s @ [ob]"
  "fst (session_add ob s) = length (objs s)"
  by (simp_all add: session_add_def)

lemma session_add_eq:
  "session_add ob s = (h, s') \<longleftrightarrow> h = length (objs s) \<and> s' = s\<lparr>objs := objs s @ [ob]\<rparr>"
  by (auto simp: session_add_def)

lemma session_rollback_simps [simp]:
  "committed (session_rollback s) = committed s"
  "working (session_rollback s) = committed s"
  "objs (session_rollback s) = []"
  by (simp_all add: session_rollback_def)

lemma new_session_simps [simp]:
  "committed (new_session db) = db"
  "working (new_session db) = db"
  "objs (new_session db) = []"
  by (simp_all add: new_session_def)

section \<open>Flushing the objects of one creation\<close>

lemma check_fault_Inr_iff [simp]: "check_fault f c = Inr u \<longleftrightarrow> f c = None"
  by (simp add: check_fault_def split: option.splits)

lemma check_fault_Inl_iff [simp]: "check_fault f c = Inl e \<longleftrightarrow> f c = Some e"
  by (simp add: check_fault_def split: option.splits)

lemma session_flush_Inr_iff:
  "session_flush f s = Inr s' \<longleftrightarrow> f Flush = None \<and> flush_pending s = Inr s'"
  by (auto simp: session_flush_def rbind_eq_Inr_iff)

lemma session_commit_Inr_iff:
  "session_commit f s = Inr s' \<longleftrightarrow>
     f Commit = None \<and> (\<exists>s''. flush_pending s = Inr s'' \<and> s' = s''\<lparr>committed := working s''\<rparr>)"
  by (auto simp: session_commit_def rbind_eq_Inr_iff)

lemma session_refresh_Inr_iff:
  "session_refresh f s h = Inr k \<longleftrightarrow> f Refresh = None \<and> k = id_at s h"
  by (auto simp: session_refresh_def rbind_eq_Inr_iff)

lemma session_refresh_Inl_iff: "session_refresh f s h = Inl e \<longleftrightarrow> f Refresh = Some e"
  by (auto simp: session_refresh_def rbind_eq_Inl_iff)

lemma flush_pending_product:
  assumes "objs s = [ProductObj ob]" and "po_id ob = None"
  shows "flush_pending s = Inr s' \<longleftrightarrow>
    (\<exists>k db'. insert_product ob (working s) = Inr (k, db') \<and>
       s' = s\<lparr>working := db', objs := [ProductObj (ob\<lparr>po_id := Some k\<rparr>)]\<rparr>)"
  using assms by (auto simp: flush_pending_def rbind_eq_Inr_iff)

lemma flush_pending_inventory:
  assumes "objs s = [ProductObj ob, InventoryObj io]" and "po_id ob \<noteq> None" and "io_id io = None"
  shows "flush_pending s = Inr s' \<longleftrightarrow>
    (\<exists>j db'. insert_inventory io (working s) = Inr (j, db') \<and>
       s' = s\<lparr>working := db', objs := [ProductObj ob, InventoryObj (io\<lparr>io_id := Some j\<rparr>)]\<rparr>)"
  using assms by (auto simp: flush_pending_def rbind_eq_Inr_iff)

lemma query_product_by_sku_str:
  "f Query = None \<Longrightarrow>
   query_product_by_sku f s (JStr sku) = Inr (List.find (\<lambda>p. p_sku p = sku) (products (working s)))"
  by (simp add: query_product_by_sku_def check_fault_def)

lemma query_product_by_sku_fault:
  "f Query = Some e \<Longrightarrow> query_product_by_sku f s v = Inl e"
  by (simp add: query_product_by_sku_def check_fault_def)

lemma query_product_by_sku_Some:
  assumes "query_product_by_sku f s v = Inr (Some p)"
  shows "v = JStr (p_sku p)" and "p \<in> set (products (working s))" and "f Query = None"
  using assms
  by (auto simp: query_product_by_sku_def rbind_eq_Inr_iff bind_string_Inr_iff
        dest: find_Some_set split: option.splits)

end
