(* ===== verification/Fixtures.thy ===== *)
theory Fixtures
  imports Database
begin

text \<open>
  Sample tables and requests. The witness theorems of the component theories evaluate
  the handlers on them: one company with one warehouse, a product that is low on stock
  and sold sixty units in the last thirty days, and requests to create a second product.
\<close>

definition day :: int where
  "day = 86400000000"

definition sample_db :: database where
  "sample_db =
     \<lparr>products =
        [\<lparr>p_id = 1, p_name = ''Widget'', p_sku = ''W-1'', p_price = Finite 2,
          p_warehouse_id = 1, p_product_type_id = Some 3, p_supplier_id = Some 4\<rparr>],
      inventories =
        [\<lparr>i_id = 1, i_product_id = 1, i_warehouse_id = 1, i_quantity = 5\<rparr>],
      warehouses = [\<lparr>w_id = 1, w_name = ''Main'', w_company_id = 7\<rparr>],
      product_types = [\<lparr>pt_id = 3, pt_low_stock_threshold = 10\<rparr>],
      suppliers = [\<lparr>s_id = 4, s_name = ''Acme'', s_contact_email = ''sales@acme.example''\<rparr>],
      sales_activities =
        [\<lparr>sa_product_id = 1, sa_warehouse_id = 1, sa_quantity_sold = Some 40,
          sa_sale_date = 90 * day\<rparr>,
         \<lparr>sa_product_id = 1, sa_warehouse_id = 1, sa_quantity_sold = Some 20,
          sa_sale_date = 80 * day\<rparr>,
         \<lparr>sa_product_id = 1, sa_warehouse_id = 1, sa_quantity_sold = Some 1000,
          sa_sale_date = 50 * day\<rparr>]\<rparr>"

text \<open>
  Tables of two companies: company 7 owns the warehouses 1 and 2, company 8 the
  warehouse 3. The widget in warehouse 1 is low and sells; the bolt in warehouse 1 sells
  but is above the threshold; the nut in warehouse 2 is low but its last sale is older
  than the window; the widget in warehouse 3 is low and sells, for the other company;
  the bolt in warehouse 2 is low and sells, has no supplier, and one of its sales has no
  quantity.
\<close>

definition widget :: product where
  "widget = \<lparr>p_id = 1, p_name = ''Widget'', p_sku = ''W-1'', p_price = Finite 2,
     p_warehouse_id = 1, p_product_type_id = Some 3, p_supplier_id = Some 4\<rparr>"

definition bolt :: product where
  "bolt = \<lparr>p_id = 2, p_name = ''Bolt'', p_sku = ''B-1'', p_price = Finite 1,
     p_warehouse_id = 1, p_product_type_id = Some 3, p_supplier_id = None\<rparr>"

definition nut :: product where
  "nut = \<lparr>p_id = 3, p_name = ''Nut'', p_sku = ''N-1'', p_price = Finite 1,
     p_warehouse_id = 2, p_product_type_id = Some 5, p_supplier_id = Some 4\<rparr>"

definition widget_main :: inventory where
  "widget_main = \<lparr>i_id = 1, i_product_id = 1, i_warehouse_id = 1, i_quantity = 5\<rparr>"

definition bolt_main :: inventory where
  "bolt_main = \<lparr>i_id = 2, i_product_id = 2, i_warehouse_id = 1, i_quantity = 50\<rparr>"

definition nut_east :: inventory where
  "nut_east = \<lparr>i_id = 3, i_product_id = 3, i_warehouse_id = 2, i_quantity = 2\<rparr>"

definition widget_other :: inventory where
  "widget_other = \<lparr>i_id = 4, i_product_id = 1, i_warehouse_id = 3, i_quantity = 1\<rparr>"

definition bolt_east :: inventory where
  "bolt_east = \<lparr>i_id = 5, i_product_id = 2, i_warehouse_id = 2, i_quantity = 0\<rparr>"

definition wh_main :: warehouse where
  "wh_main = \<lparr>w_id = 1, w_name = ''Main'', w_company_id = 7\<rparr>"

definition wh_east :: warehouse where
  "wh_east = \<lparr>w_id = 2, w_name = ''East'', w_company_id = 7\<rparr>"

definition wh_other :: warehouse where
  "wh_other = \<lparr>w_id = 3, w_name = ''Other'', w_company_id = 8\<rparr>"

definition type_standard :: product_type where
  "type_standard = \<lparr>pt_id = 3, pt_low_stock_threshold = 10\<rparr>"

definition type_small :: product_type where
  "type_small = \<lparr>pt_id = 5, pt_low_stock_threshold = 4\<rparr>"

definition acme :: supplier where
  "acme = \<lparr>s_id = 4, s_name = ''Acme'', s_contact_email = ''sales@acme.example''\<rparr>"

definition stock_db :: database where
  "stock_db =
     \<lparr>products = [widget, bolt, nut],
      inventories = [widget_main, bolt_main, nut_east, widget_other, bolt_east],
      warehouses = [wh_main, wh_east, wh_other],
      product_types = [type_standard, type_small],
      suppliers = [acme],
      sales_activities =
        [\<lparr>sa_product_id = 1, sa_warehouse_id = 1, sa_quantity_sold = Some 40,
          sa_sale_date = 90 * day\<rparr>,
         \<lparr>sa_product_id = 2, sa_warehouse_id = 1, sa_quantity_sold = Some 300,
          sa_sale_date = 85 * day\<rparr>,
         \<lparr>sa_product_id = 1, sa_warehouse_id = 1, sa_quantity_sold = Some 20,
          sa_sale_date = 80 * day\<rparr>,
         \<lparr>sa_product_id = 3, sa_warehouse_id = 2, sa_quantity_sold = Some 9,
          sa_sale_date = 60 * day\<rparr>,
         \<lparr>sa_product_id = 1, sa_warehouse_id = 3, sa_quantity_sold = Some 15,
          sa_sale_date = 95 * day\<rparr>,
         \<lparr>sa_product_id = 2, sa_warehouse_id = 2, sa_quantity_sold = None,
          sa_sale_date = 75 * day\<rparr>,
         \<lparr>sa_product_id = 2, sa_warehouse_id = 2, sa_quantity_sold = Some 6,
          sa_sale_date = 70 * day\<rparr>,
         \<lparr>sa_product_id = 1, sa_warehouse_id = 1, sa_quantity_sold = Some 1000,
          sa_sale_date = 50 * day\<rparr>]\<rparr>"

definition sample_now :: int where
  "sample_now = 100 * day"

definition sample_request :: json where
  "sample_request =
     JObject [(''name'', JStr ''Gadget''), (''sku'', JStr ''G-1''), (''price'', JInt 3),
       (''warehouse_id'', JInt 1), (''initial_quantity'', JInt 8)]"

definition duplicate_request :: json where
  "duplicate_request =
     JObject [(''name'', JStr ''Widget again''), (''sku'', JStr ''W-1''), (''price'', JInt 3),
       (''warehouse_id'', JInt 1), (''initial_quantity'', JInt 8)]"

definition bad_price_request :: json where
  "bad_price_request =
     JObject [(''name'', JStr ''Gadget''), (''sku'', JStr ''G-1''), (''price'', JStr ''cheap''),
       (''warehouse_id'', JInt 1), (''initial_quantity'', JInt 8)]"

definition bad_quantity_request :: json where
  "bad_quantity_request =
     JObject [(''name'', JStr ''Gadget''), (''sku'', JStr ''G-1''), (''price'', JInt 3),
       (''warehouse_id'', JInt 1), (''initial_quantity'', JStr ''a few'')]"

definition unknown_warehouse_request :: json where
  "unknown_warehouse_request =
     JObject [(''name'', JStr ''Gadget''), (''sku'', JStr ''G-1''), (''price'', JInt 3),
       (''warehouse_id'', JInt 99), (''initial_quantity'', JInt 8)]"

definition infinite_quantity_request :: json where
  "infinite_quantity_request =
     JObject [(''name'', JStr ''Gadget''), (''sku'', JStr ''G-1''), (''price'', JInt 3),
       (''warehouse_id'', JInt 1), (''initial_quantity'', JFloat PosInf)]"

text \<open>The tables once the product of \<open>sample_request\<close> is created in \<open>sample_db\<close>.\<close>

definition gadget_db :: database where
  "gadget_db = sample_db
     \<lparr>products := products sample_db @
        [\<lparr>p_id = 2, p_name = ''Gadget'', p_sku = ''G-1'', p_price = Finite 3,
          p_warehouse_id = 1, p_product_type_id = None, p_supplier_id = None\<rparr>],
      inventories := inventories sample_db @
        [\<lparr>i_id = 2, i_product_id = 2, i_warehouse_id = 1, i_quantity = 8\<rparr>]\<rparr>"

text \<open>A fault plan in which the commit fails after the product row was flushed.\<close>

definition commit_fails :: faults where
  "commit_fails = (\<lambda>c. if c = Commit then Some OperationalError else None)"

text \<open>A fault plan in which the read of the key after the commit fails.\<close>

definition refresh_fails :: faults where
  "refresh_fails = (\<lambda>c. if c = Refresh then Some OperationalError else None)"

text \<open>A fault plan in which the query fails.\<close>

definition query_fails :: faults where
  "query_fails = (\<lambda>c. if c = Query then Some OperationalError else None)"

text \<open>The alerts of company 7 at \<open>sample_now\<close>.\<close>

definition stock_alerts_body :: json where
  "stock_alerts_body =
     JObject
       [(''alerts'', JArray
          [JObject
             [(''product_id'', JInt 1), (''product_name'', JStr ''Widget''),
              (''sku'', JStr ''W-1''), (''warehouse_id'', JInt 1),
              (''warehouse_name'', JStr ''Main''), (''current_stock'', JInt 5),
              (''threshold'', JInt 10), (''days_until_stockout'', JInt 2),
              (''supplier'', JObject [(''id'', JInt 4), (''name'', JStr ''Acme''),
                 (''contact_email'', JStr ''sales@acme.example'')])],
           JObject
             [(''product_id'', JInt 2), (''product_name'', JStr ''Bolt''),
              (''sku'', JStr ''B-1''), (''warehouse_id'', JInt 2),
              (''warehouse_name'', JStr ''East''), (''current_stock'', JInt 0),
              (''threshold'', JInt 10), (''days_until_stockout'', JInt 0),
              (''supplier'', JObject [(''id'', JNull), (''name'', JNull),
                 (''contact_email'', JNull)])]]),
        (''total_alerts'', JInt 2)]"

lemmas row_defs =
  widget_def bolt_def nut_def widget_main_def bolt_main_def nut_east_def widget_other_def
  bolt_east_def wh_main_def wh_east_def wh_other_def type_standard_def type_small_def acme_def

lemmas fixture_defs =
  day_def sample_db_def stock_db_def sample_now_def sample_request_def duplicate_request_def
  bad_price_request_def bad_quantity_request_def unknown_warehouse_request_def
  infinite_quantity_request_def commit_fails_def query_fails_def
  refresh_fails_def
  no_faults_def

lemma wf_sample_db: "wf_db sample_db"
  by (simp add: wf_db_def wf_keys_def wf_refs_def sample_db_def)

lemma wf_stock_db: "wf_db stock_db"
  by (simp add: wf_db_def wf_keys_def wf_refs_def stock_db_def row_defs)

lemma wf_keys_stock_db: "wf_keys stock_db"
  using wf_stock_db by (simp add: wf_db_def)

end
