(* ===== verification/Create_Product.thy ===== *)
theory Create_Product
  imports Fixtures
begin

text \<open>
  The product creation handler, \<open>create_product\<close> of \<open>src/fixedApiEnd.py\<close>: the check of
  the required fields, the \<open>try\<close> block that looks the SKU up, adds the product, flushes,
  adds the inventory row, commits and reads the key for the response, and the three
  \<open>except\<close> clauses that roll back and answer. The handler maps the request body and
  the session of the request to a response and the session it leaves; a request runs it
  on a fresh session and leaves the committed tables behind.
\<close>

section \<open>Responses\<close>

definition sku_exists_body :: "string \<Rightarrow> json" where
  "sku_exists_body sku =
     error_body (''Product with SKU '' @ [CHR 0x27] @ sku @ [CHR 0x27] @ '' already exists'')"

definition json_of_id :: "int option \<Rightarrow> json" where
  "json_of_id k = (case k of None \<Rightarrow> JNull | Some n \<Rightarrow> JInt n)"

definition created_body :: "int option \<Rightarrow> json" where
  "created_body k =
     JObject [(''message'', JStr ''Product created successfully''), (''product_id'', json_of_id k)]"

section \<open>Validation\<close>

definition required_fields :: "string list" where
  "required_fields = [''name'', ''sku'', ''price'', ''warehouse_id'', ''initial_quantity'']"

text \<open>The condition \<open>not data or not all(field in data for field in required_fields)\<close>.\<close>

definition missing_fields :: "json \<Rightarrow> bool result" where
  "missing_fields data =
     (if \<not> truthy data then Inr True
      else rbind (all_in required_fields data) (\<lambda>b. Inr (\<not> b)))"

section \<open>The transaction\<close>

text \<open>
  The constructor call \<open>Product(name=..., sku=..., price=float(...), warehouse_id=...)\<close>;
  its arguments are evaluated from left to right.
\<close>

definition build_product :: "json \<Rightarrow> product_obj result" where
  "build_product data =
     rbind (py_getitem data ''name'') (\<lambda>name.
     rbind (py_getitem data ''sku'') (\<lambda>sku.
     rbind (py_getitem data ''price'') (\<lambda>pr.
     rbind (py_float pr) (\<lambda>price.
     rbind (py_getitem data ''warehouse_id'') (\<lambda>wid.
       Inr \<lparr>po_id = None, po_name = name, po_sku = sku, po_price = price,
            po_warehouse_id = wid\<rparr>)))))"

text \<open>\<open>Inventory(product_id=product.id, warehouse_id=..., quantity=int(...))\<close>.\<close>

definition build_inventory :: "int option \<Rightarrow> json \<Rightarrow> inventory_obj result" where
  "build_inventory pid data =
     rbind (py_getitem data ''warehouse_id'') (\<lambda>wid.
     rbind (py_getitem data ''initial_quantity'') (\<lambda>q.
     rbind (py_int q) (\<lambda>quantity.
       Inr \<lparr>io_id = None, io_product_id = pid, io_warehouse_id = wid,
            io_quantity = quantity\<rparr>)))"

text \<open>
  The writes of the \<open>try\<close> block, from the construction of the product to the \<open>return\<close>
  (lines 22 to 46). The result is the response the block returns or the exception it
  raises, with the session as the block leaves it. The \<open>product.id\<close> of line 34 is read
  after the flush, from the object in the session; the \<open>product.id\<close> of line 45 is read
  after the commit.
\<close>

definition create_product_write :: "faults \<Rightarrow> json \<Rightarrow> session \<Rightarrow> outcome result \<times> session" where
  "create_product_write f data s =
     (case build_product data of
        Inl e \<Rightarrow> (Inl e, s)
      | Inr product \<Rightarrow>
     (case session_add (ProductObj product) s of (h, s1) \<Rightarrow>
     (case session_flush f s1 of
        Inl e \<Rightarrow> (Inl e, s1)
      | Inr s2 \<Rightarrow>
     (case build_inventory (id_at s2 h) data of
        Inl e \<Rightarrow> (Inl e, s2)
      | Inr inventory \<Rightarrow>
     (case session_add (InventoryObj inventory) s2 of (h', s3) \<Rightarrow>
     (case session_commit f s3 of
        Inl e \<Rightarrow> (Inl e, s3)
      | Inr s4 \<Rightarrow>
     (case session_refresh f s4 h of
        Inl e \<Rightarrow> (Inl e, s4)
      | Inr k \<Rightarrow> (Inr (Reply 201 (created_body k)), s4))))))))"

text \<open>
  The body of the \<open>try\<close> block: the lookup of the SKU (line 19), the early return with a
  message that reads \<open>data['sku']\<close> again (line 20), then the writes.
\<close>

definition create_product_try :: "faults \<Rightarrow> json \<Rightarrow> session \<Rightarrow> outcome result \<times> session" where
  "create_product_try f data s =
     (case rbind (py_getitem data ''sku'') (query_product_by_sku f s) of
        Inl e \<Rightarrow> (Inl e, s)
      | Inr (Some existing) \<Rightarrow>
          (rbind (py_getitem data ''sku'') (\<lambda>sku.
             Inr (Reply 409 (sku_exists_body (py_format sku)))), s)
      | Inr None \<Rightarrow> create_product_write f data s)"

text \<open>
  The \<open>except\<close> clauses, in the order the handler lists them: each rolls the session back
  and answers.
\<close>

definition create_product_except :: "exn \<Rightarrow> session \<Rightarrow> outcome \<times> session" where
  "create_product_except e s =
     (if e = ValueError \<or> e = TypeError
        then (Reply 400 (error_body ''Invalid data type for price or initial_quantity''),
              session_rollback s)
      else if e = IntegrityError
        then (Reply 409 (error_body ''Database integrity error. SKU might already exist.''),
              session_rollback s)
      else (Reply 500 (error_body ''An unexpected error occurred.''), session_rollback s))"

section \<open>The handler\<close>

text \<open>The handler on the session of the request.\<close>

definition create_product_session :: "faults \<Rightarrow> json \<Rightarrow> session \<Rightarrow> outcome \<times> session" where
  "create_product_session f data s =
     (case missing_fields data of
        Inl e \<Rightarrow> (Unhandled e, s)
      | Inr True \<Rightarrow> (Reply 400 (error_body ''Missing required fields''), s)
      | Inr False \<Rightarrow>
          (case create_product_try f data s of
             (Inr r, s') \<Rightarrow> (r, s')
           | (Inl e, s') \<Rightarrow> create_product_except e s'))"

text \<open>
  A request: the handler runs on a fresh session, and what other requests see afterwards
  are the committed tables.
\<close>

definition create_product :: "faults \<Rightarrow> database \<Rightarrow> json \<Rightarrow> outcome \<times> database" where
  "create_product f db data =
     (case create_product_session f data (new_session db) of (r, s) \<Rightarrow> (r, committed s))"

text \<open>The response of the clause that catches \<open>e\<close>.\<close>

definition except_reply :: "exn \<Rightarrow> outcome" where
  "except_reply e =
     (if e = ValueError \<or> e = TypeError
        then Reply 400 (error_body ''Invalid data type for price or initial_quantity'')
      else if e = IntegrityError
        then Reply 409 (error_body ''Database integrity error. SKU might already exist.'')
      else Reply 500 (error_body ''An unexpected error occurred.''))"

text \<open>The session a successful creation ends with: both objects flushed, all published.\<close>

definition created_session ::
  "database \<Rightarrow> product_obj \<Rightarrow> int \<Rightarrow> inventory_obj \<Rightarrow> int \<Rightarrow> session" where
  "created_session db2 product k inventory j =
     \<lparr>committed = db2, working = db2,
      objs = [ProductObj (product\<lparr>po_id := Some k\<rparr>),
              InventoryObj (inventory\<lparr>io_id := Some j\<rparr>)]\<rparr>"

section \<open>The handler unfolded\<close>

text \<open>
  The message of the early return names the SKU of the row found: the query compares the
  rows with \<open>data['sku']\<close>, so both are the same string.
\<close>

lemma sku_lookup_Some:
  assumes "rbind (py_getitem data ''sku'') (query_product_by_sku f s) = Inr (Some p)"
  shows "py_getitem data ''sku'' = Inr (JStr (p_sku p))"
  using assms by (auto simp: rbind_eq_Inr_iff dest: query_product_by_sku_Some(1))

lemma create_product_try_row:
  "create_product_try f data s =
     (case rbind (py_getitem data ''sku'') (query_product_by_sku f s) of
        Inl e \<Rightarrow> (Inl e, s)
      | Inr (Some p) \<Rightarrow> (Inr (Reply 409 (sku_exists_body (p_sku p))), s)
      | Inr None \<Rightarrow> create_product_write f data s)"
  by (auto simp: create_product_try_def dest: sku_lookup_Some split: sum.splits option.splits)

lemmas create_product_try_unfold = create_product_try_row create_product_write_def

lemma create_product_except_eq:
  "create_product_except e s = (except_reply e, session_rollback s)"
  by (simp add: create_product_except_def except_reply_def)

lemma create_product_unfold:
  "create_product f db data =
     (case missing_fields data of
        Inl e \<Rightarrow> (Unhandled e, db)
      | Inr True \<Rightarrow> (Reply 400 (error_body ''Missing required fields''), db)
      | Inr False \<Rightarrow>
          (case create_product_try f data (new_session db) of
             (Inr r, s) \<Rightarrow> (r, committed s)
           | (Inl e, s) \<Rightarrow> (except_reply e, committed (session_rollback s))))"
  by (simp add: create_product_def create_product_session_def create_product_except_eq
        split: sum.splits bool.splits prod.splits)

lemmas create_product_defs [handler_defs] =
  create_product_unfold create_product_try_unfold except_reply_def build_product_def
  build_inventory_def missing_fields_def required_fields_def

section \<open>Building the objects\<close>

lemma build_product_Inr_iff:
  "build_product data = Inr ob \<longleftrightarrow>
     (\<exists>name sku pr price wid.
        py_getitem data ''name'' = Inr name \<and> py_getitem data ''sku'' = Inr sku \<and>
        py_getitem data ''price'' = Inr pr \<and> py_float pr = Inr price \<and>
        py_getitem data ''warehouse_id'' = Inr wid \<and>
        ob = \<lparr>po_id = None, po_name = name, po_sku = sku, po_price = price,
               po_warehouse_id = wid\<rparr>)"
  by (auto simp: build_product_def rbind_eq_Inr_iff)

lemma build_inventory_Inr_iff:
  "build_inventory pid data = Inr ob \<longleftrightarrow>
     (\<exists>wid q quantity.
        py_getitem data ''warehouse_id'' = Inr wid \<and>
        py_getitem data ''initial_quantity'' = Inr q \<and> py_int q = Inr quantity \<and>
        ob = \<lparr>io_id = None, io_product_id = pid, io_warehouse_id = wid,
               io_quantity = quantity\<rparr>)"
  by (auto simp: build_inventory_def rbind_eq_Inr_iff)

lemma build_product_pending: "build_product data = Inr ob \<Longrightarrow> po_id ob = None"
  by (auto simp: build_product_Inr_iff)

lemma build_inventory_pending: "build_inventory pid data = Inr ob \<Longrightarrow> io_id ob = None"
  by (auto simp: build_inventory_Inr_iff)

section \<open>The successful run of the transaction\<close>

lemma create_product_try_201_iff:
  "create_product_try f data s = (Inr (Reply 201 body), s') \<longleftrightarrow>
     (\<exists>product h s1 s2 inventory h' s3.
        rbind (py_getitem data ''sku'') (query_product_by_sku f s) = Inr None \<and>
        build_product data = Inr product \<and>
        session_add (ProductObj product) s = (h, s1) \<and>
        session_flush f s1 = Inr s2 \<and>
        build_inventory (id_at s2 h) data = Inr inventory \<and>
        session_add (InventoryObj inventory) s2 = (h', s3) \<and>
        session_commit f s3 = Inr s' \<and> f Refresh = None \<and>
        body = created_body (id_at s' h))"
  by (auto simp: create_product_try_unfold session_refresh_Inr_iff session_refresh_Inl_iff
      split: sum.splits option.splits prod.splits)

lemma create_product_try_createdE:
  assumes "create_product_try f data (new_session db) = (Inr (Reply 201 body), s')"
  obtains product k db1 inventory j db2 where
    "rbind (py_getitem data ''sku'') (query_product_by_sku f (new_session db)) = Inr None"
    and "build_product data = Inr product" and "f Flush = None"
    and "insert_product product db = Inr (k, db1)"
    and "build_inventory (Some k) data = Inr inventory" and "f Commit = None"
    and "insert_inventory inventory db1 = Inr (j, db2)" and "f Refresh = None"
    and "body = created_body (Some k)"
    and "s' = created_session db2 product k inventory j"
proof -
  from assms obtain product h s1 s2 inventory h' s3 where
    q: "rbind (py_getitem data ''sku'') (query_product_by_sku f (new_session db)) = Inr None"
    and bp: "build_product data = Inr product"
    and a1: "session_add (ProductObj product) (new_session db) = (h, s1)"
    and fl: "session_flush f s1 = Inr s2"
    and bi: "build_inventory (id_at s2 h) data = Inr inventory"
    and a2: "session_add (InventoryObj inventory) s2 = (h', s3)"
    and co: "session_commit f s3 = Inr s'" and f3: "f Refresh = None"
    and body: "body = created_body (id_at s' h)"
    unfolding create_product_try_201_iff by blast
  from a1 have h: "h = 0" and s1: "s1 = \<lparr>committed = db, working = db, objs = [ProductObj product]\<rparr>"
    by (simp_all add: session_add_eq new_session_def)
  from fl s1 build_product_pending [OF bp]
  obtain k db1 where f1: "f Flush = None" and ip: "insert_product product db = Inr (k, db1)"
    and s2: "s2 = \<lparr>committed = db, working = db1, objs = [ProductObj (product\<lparr>po_id := Some k\<rparr>)]\<rparr>"
    by (auto simp: session_flush_Inr_iff flush_pending_product)
  from s2 h have id2: "id_at s2 h = Some k"
    by (simp add: id_at_def)
  from a2 s2 have s3: "s3 = \<lparr>committed = db, working = db1,
      objs = [ProductObj (product\<lparr>po_id := Some k\<rparr>), InventoryObj inventory]\<rparr>"
    by (simp add: session_add_eq)
  from co s3 build_inventory_pending [OF bi]
  obtain j db2 where f2: "f Commit = None" and ii: "insert_inventory inventory db1 = Inr (j, db2)"
    and s': "s' = created_session db2 product k inventory j"
    by (auto simp: session_commit_Inr_iff flush_pending_inventory created_session_def)
  from s' h have "id_at s' h = Some k"
    by (simp add: id_at_def created_session_def)
  with q bp f1 ip bi id2 f2 ii f3 body s' show ?thesis
    by (intro that) simp_all
qed

lemma create_product_try_createdI:
  assumes q: "rbind (py_getitem data ''sku'') (query_product_by_sku f (new_session db)) = Inr None"
    and bp: "build_product data = Inr product" and f1: "f Flush = None"
    and ip: "insert_product product db = Inr (k, db1)"
    and bi: "build_inventory (Some k) data = Inr inventory" and f2: "f Commit = None"
    and ii: "insert_inventory inventory db1 = Inr (j, db2)" and f3: "f Refresh = None"
  shows "create_product_try f data (new_session db) =
    (Inr (Reply 201 (created_body (Some k))), created_session db2 product k inventory j)"
proof -
  let ?s1 = "\<lparr>committed = db, working = db, objs = [ProductObj product]\<rparr>"
  let ?s2 = "\<lparr>committed = db, working = db1, objs = [ProductObj (product\<lparr>po_id := Some k\<rparr>)]\<rparr>"
  let ?s3 = "\<lparr>committed = db, working = db1,
      objs = [ProductObj (product\<lparr>po_id := Some k\<rparr>), InventoryObj inventory]\<rparr>"
  have a1: "session_add (ProductObj product) (new_session db) = (0, ?s1)"
    by (simp add: session_add_eq new_session_def)
  have fl: "session_flush f ?s1 = Inr ?s2"
    using f1 ip build_product_pending [OF bp]
    by (simp add: session_flush_Inr_iff flush_pending_product)
  have id2: "id_at ?s2 0 = Some k"
    by (simp add: id_at_def)
  have a2: "session_add (InventoryObj inventory) ?s2 = (1, ?s3)"
    by (simp add: session_add_eq)
  have co: "session_commit f ?s3 = Inr (created_session db2 product k inventory j)"
    using f2 ii build_inventory_pending [OF bi]
    by (simp add: session_commit_Inr_iff flush_pending_inventory created_session_def)
  have "id_at (created_session db2 product k inventory j) 0 = Some k"
    by (simp add: id_at_def created_session_def)
  with q bp a1 fl bi id2 a2 co f3 show ?thesis
    by (simp add: create_product_try_unfold session_refresh_def check_fault_def)
qed

section \<open>Atomicity\<close>

lemma create_product_try_committed:
  assumes "create_product_try f data s = (r, s')" and "f Refresh = None"
  shows "(\<exists>b. r = Inr (Reply 201 b)) \<or> committed s' = committed s"
  using assms
  by (auto simp: create_product_try_unfold session_add_eq session_refresh_Inl_iff
        split: sum.splits option.splits prod.splits dest: session_flush_Inr(1))

lemma except_reply_status: "status (except_reply e) \<in> {Some 400, Some 409, Some 500}"
  by (simp add: except_reply_def)

lemma create_product_try_Inr:
  assumes "create_product_try f data s = (Inr r, s')"
  shows "(\<exists>b. r = Reply 409 b) \<or> (\<exists>b. r = Reply 201 b)"
  using assms
  by (auto simp: create_product_try_unfold split: sum.splits option.splits prod.splits)

lemma except_reply_not_created:
  "status (except_reply e) \<noteq> Some 201"
  by (simp add: except_reply_def)

lemma except_reply_neq_created [simp]: "except_reply e \<noteq> Reply 201 body"
  using except_reply_not_created [of e] by auto

lemma create_product_result_plain:
  assumes "f Refresh = None"
  obtains (unchanged) "snd (create_product f db data) = db"
      and "status (fst (create_product f db data)) \<noteq> Some 201"
  | (created) body s' where "fst (create_product f db data) = Reply 201 body"
      and "create_product_try f data (new_session db) = (Inr (Reply 201 body), s')"
      and "snd (create_product f db data) = committed s'"
proof (cases "missing_fields data")
  case (Inl e)
  then show ?thesis by (intro unchanged) (simp_all add: create_product_unfold)
next
  case (Inr missing)
  obtain r s where run: "create_product_try f data (new_session db) = (r, s)"
    by (cases "create_product_try f data (new_session db)")
  show ?thesis
  proof (cases missing)
    case True
    with Inr show ?thesis
      by (intro unchanged) (simp_all add: create_product_unfold)
  next
    case False
    with Inr have present: "missing_fields data = Inr False" by simp
    show ?thesis
    proof (cases r)
      case (Inl e)
      with present run create_product_try_committed [OF run assms] except_reply_not_created
      show ?thesis
        by (intro unchanged) (simp_all add: create_product_unfold)
    next
      case reply: (Inr b)
      from create_product_try_Inr [OF run [unfolded reply]] show ?thesis
      proof
        assume "\<exists>body. b = Reply 409 body"
        with present run reply create_product_try_committed [OF run assms] show ?thesis
          by (intro unchanged) (auto simp: create_product_unfold)
      next
        assume "\<exists>body. b = Reply 201 body"
        with present run reply show ?thesis
          by (auto simp: create_product_unfold intro: created)
      qed
    qed
  qed
qed

section \<open>A failure after the commit\<close>

text \<open>
  The fault plan without the failure of the read after the commit. The other calls do
  not depend on it.
\<close>

lemma create_product_write_Inr:
  "create_product_write f data s = (Inr r, s') \<Longrightarrow> \<exists>b. r = Reply 201 b"
  by (auto simp: create_product_write_def split: sum.splits prod.splits)

lemma create_product_write_refresh:
  assumes "f Refresh = Some e"
  shows "create_product_write f data s =
    (case create_product_write (f(Refresh := None)) data s of
       (Inr r, s') \<Rightarrow> (Inl e, s')
     | (Inl e', s') \<Rightarrow> (Inl e', s'))"
  using assms
  by (simp add: create_product_write_def session_flush_def session_commit_def
      session_refresh_def check_fault_def split: sum.splits prod.splits)

lemma create_product_try_refresh:
  assumes "f Refresh = Some e"
  shows "create_product_try f data s =
    (case create_product_try (f(Refresh := None)) data s of
       (Inr r, s') \<Rightarrow> if status r = Some 201 then (Inl e, s') else (Inr r, s')
     | (Inl e', s') \<Rightarrow> (Inl e', s'))"
proof -
  have "query_product_by_sku (f(Refresh := None)) s = query_product_by_sku f s"
    by (simp add: query_product_by_sku_def check_fault_def fun_eq_iff)
  then show ?thesis
    using create_product_write_Inr [of "f(Refresh := None)" data s] assms
    by (auto simp: create_product_try_row create_product_write_refresh [where f = f and e = e]
        split: sum.splits option.splits prod.splits)
qed

lemma create_product_refresh:
  assumes "f Refresh = Some e"
  shows "create_product f db data =
    (case create_product (f(Refresh := None)) db data of
       (r, db') \<Rightarrow> if status r = Some 201 then (except_reply e, db') else (r, db'))"
  using assms
  by (auto simp: create_product_unfold create_product_try_refresh [where f = f and e = e]
      except_reply_not_created split: sum.splits bool.splits prod.splits)

lemma create_product_tables_refresh:
  "snd (create_product f db data) = snd (create_product (f(Refresh := None)) db data)"
proof (cases "f Refresh")
  case None
  then have "f(Refresh := None) = f" by (simp add: fun_upd_idem)
  then show ?thesis by simp
next
  case (Some e)
  then show ?thesis
    by (simp add: create_product_refresh [where f = f and e = e] case_prod_unfold)
qed

lemma create_product_result:
  obtains (unchanged) "snd (create_product f db data) = db"
      and "status (fst (create_product f db data)) \<noteq> Some 201"
  | (created) body s' where "fst (create_product f db data) = Reply 201 body"
      and "create_product_try f data (new_session db) = (Inr (Reply 201 body), s')"
      and "snd (create_product f db data) = committed s'"
  | (reported) e body s' where "f Refresh = Some e"
      and "fst (create_product f db data) = except_reply e"
      and "create_product_try (f(Refresh := None)) data (new_session db) =
        (Inr (Reply 201 body), s')"
      and "snd (create_product f db data) = committed s'"
proof (cases "f Refresh")
  case None
  then show ?thesis
    by (cases rule: create_product_result_plain [of f db data]) (auto intro: unchanged created)
next
  case (Some e)
  have "(f(Refresh := None)) Refresh = None" by simp
  then show ?thesis
  proof (cases rule: create_product_result_plain [of "f(Refresh := None)" db data])
    case unchanged
    then show ?thesis
      using Some
      by (intro that(1))
        (simp_all add: create_product_refresh [where f = f and e = e] case_prod_unfold)
  next
    case (created body s')
    with Some show ?thesis
      by (intro reported [of e body s'])
        (simp_all add: create_product_refresh [where f = f and e = e] case_prod_unfold)
  qed
qed

text \<open>
  C1. Whatever the request and whichever of the lookup, the flush and the commit fails, a
  request that is not answered with 201 leaves the committed tables exactly as they
  were: no product row and no inventory row of a failed creation is visible. The read of
  the key after the commit must not fail; when it does, the rows are committed and the
  answer is not 201 (\<open>create_product_refresh\<close>).
\<close>

theorem create_product_atomic:
  assumes "status (fst (create_product f db data)) \<noteq> Some 201" and "f Refresh = None"
  shows "snd (create_product f db data) = db"
  using assms by (cases rule: create_product_result [of f db data]) simp_all

theorem create_product_atomic_witness:
  "status (fst (create_product commit_fails sample_db sample_request)) \<noteq> Some 201
   \<and> commit_fails Refresh = None
   \<and> snd (create_product commit_fails sample_db sample_request) = sample_db"
proof -
  have "status (fst (create_product commit_fails sample_db sample_request)) = Some 500"
    by (simp add: create_product_defs db_defs fixture_defs float_of_int_exact)
  moreover have "commit_fails Refresh = None"
    by (simp add: commit_fails_def)
  ultimately show ?thesis
    using create_product_atomic [of commit_fails sample_db sample_request] by simp
qed

section \<open>The handler on a request that passed the field check\<close>

lemma create_product_run:
  assumes "missing_fields data = Inr False"
  shows "create_product f db data =
    (case create_product_try f data (new_session db) of
       (Inr r, s) \<Rightarrow> (r, committed s)
     | (Inl e, s) \<Rightarrow> (except_reply e, committed (session_rollback s)))"
  using assms by (simp add: create_product_unfold)

lemma inserted_rowsE:
  assumes bp: "build_product data = Inr product"
    and ip: "insert_product product db = Inr (k, db1)"
    and bi: "build_inventory (Some k) data = Inr inventory"
    and ii: "insert_inventory inventory db1 = Inr (j, db2)"
  obtains p i where
    "db2 = db\<lparr>products := products db @ [p], inventories := inventories db @ [i]\<rparr>"
    and "p_id p = k" and "i_product_id i = k" and "i_warehouse_id i = p_warehouse_id p"
    and "p_id p \<notin> set (map p_id (products db))"
    and "p_sku p \<notin> set (map p_sku (products db))"
    and "py_getitem data ''name'' = Inr (JStr (p_name p))"
    and "py_getitem data ''sku'' = Inr (JStr (p_sku p))"
    and "rbind (py_getitem data ''price'') py_float = Inr (p_price p)"
    and "py_getitem data ''warehouse_id'' = Inr (JInt (p_warehouse_id p))"
    and "rbind (py_getitem data ''initial_quantity'') py_int = Inr (i_quantity i)"
    and "p_product_type_id p = None" and "p_supplier_id p = None"
proof -
  from ip obtain name sku wid where
    ob: "po_name product = JStr name" "po_sku product = JStr sku"
      "po_warehouse_id product = JInt wid"
    and fresh: "sku \<notin> set (map p_sku (products db))" "k = next_id (map p_id (products db))"
    and db1: "db1 = db\<lparr>products := products db @
      [\<lparr>p_id = k, p_name = name, p_sku = sku, p_price = po_price product,
        p_warehouse_id = wid, p_product_type_id = None, p_supplier_id = None\<rparr>]\<rparr>"
    unfolding insert_product_Inr_iff by blast
  from ii obtain pid wid' where
    io: "io_product_id inventory = Some pid" "io_warehouse_id inventory = JInt wid'"
    and db2: "db2 = db1\<lparr>inventories := inventories db1 @
      [\<lparr>i_id = j, i_product_id = pid, i_warehouse_id = wid',
        i_quantity = io_quantity inventory\<rparr>]\<rparr>"
    unfolding insert_inventory_Inr_iff by blast
  from bp bi ob io have fields:
    "py_getitem data ''name'' = Inr (JStr name)" "py_getitem data ''sku'' = Inr (JStr sku)"
    "rbind (py_getitem data ''price'') py_float = Inr (po_price product)"
    "py_getitem data ''warehouse_id'' = Inr (JInt wid)"
    "rbind (py_getitem data ''initial_quantity'') py_int = Inr (io_quantity inventory)"
    "pid = k" "wid' = wid"
    by (auto simp: build_product_Inr_iff build_inventory_Inr_iff)
  let ?p = "\<lparr>p_id = k, p_name = name, p_sku = sku, p_price = po_price product,
    p_warehouse_id = wid, p_product_type_id = None, p_supplier_id = None\<rparr>"
  let ?i = "\<lparr>i_id = j, i_product_id = k, i_warehouse_id = wid,
    i_quantity = io_quantity inventory\<rparr>"
  from db1 db2 fresh fields show thesis
    by (intro that [where p = ?p and i = ?i]) simp_all
qed

lemma create_product_createdE:
  assumes "fst (create_product f db data) = Reply 201 body"
  obtains p i where "snd (create_product f db data) =
           db\<lparr>products := products db @ [p], inventories := inventories db @ [i]\<rparr> \<and>
         i_product_id i = p_id p \<and> i_warehouse_id i = p_warehouse_id p \<and>
         body = created_body (Some (p_id p)) \<and>
         p_id p \<notin> set (map p_id (products db)) \<and>
         p_sku p \<notin> set (map p_sku (products db)) \<and>
         py_getitem data ''name'' = Inr (JStr (p_name p)) \<and>
         py_getitem data ''sku'' = Inr (JStr (p_sku p)) \<and>
         rbind (py_getitem data ''price'') py_float = Inr (p_price p) \<and>
         py_getitem data ''warehouse_id'' = Inr (JInt (p_warehouse_id p)) \<and>
         rbind (py_getitem data ''initial_quantity'') py_int = Inr (i_quantity i) \<and>
         p_product_type_id p = None \<and> p_supplier_id p = None"
proof -
  from assms obtain s' where
    run: "create_product_try f data (new_session db) = (Inr (Reply 201 body), s')"
    and db': "snd (create_product f db data) = committed s'"
    by (cases rule: create_product_result [of f db data]) auto
  from run obtain product k db1 inventory j db2 where
    rows: "build_product data = Inr product" "insert_product product db = Inr (k, db1)"
      "build_inventory (Some k) data = Inr inventory"
      "insert_inventory inventory db1 = Inr (j, db2)"
    and body: "body = created_body (Some k)"
    and s': "s' = created_session db2 product k inventory j"
    by (rule create_product_try_createdE)
  from db' s' have db2: "snd (create_product f db data) = db2"
    by (simp add: created_session_def)
  from rows obtain p i where
    "db2 = db\<lparr>products := products db @ [p], inventories := inventories db @ [i]\<rparr>"
    "p_id p = k" "i_product_id i = k" "i_warehouse_id i = p_warehouse_id p"
    "p_id p \<notin> set (map p_id (products db))" "p_sku p \<notin> set (map p_sku (products db))"
    "py_getitem data ''name'' = Inr (JStr (p_name p))"
    "py_getitem data ''sku'' = Inr (JStr (p_sku p))"
    "rbind (py_getitem data ''price'') py_float = Inr (p_price p)"
    "py_getitem data ''warehouse_id'' = Inr (JInt (p_warehouse_id p))"
    "rbind (py_getitem data ''initial_quantity'') py_int = Inr (i_quantity i)"
    "p_product_type_id p = None" "p_supplier_id p = None"
    by (rule inserted_rowsE)
  with body db2 show thesis
    by (intro that [where p = p and i = i]) simp
qed

text \<open>
  C2. A creation answered with 201 has appended exactly one product row and exactly one
  inventory row, the inventory row carries the new product's key and the product's
  warehouse, the response names that key, the key and the SKU were not in use before,
  and the rows hold the request's converted values.
\<close>

theorem create_product_created:
  assumes "fst (create_product f db data) = Reply 201 body"
  shows "\<exists>p i. snd (create_product f db data) =
           db\<lparr>products := products db @ [p], inventories := inventories db @ [i]\<rparr> \<and>
         i_product_id i = p_id p \<and> i_warehouse_id i = p_warehouse_id p \<and>
         body = created_body (Some (p_id p)) \<and>
         p_id p \<notin> set (map p_id (products db)) \<and>
         p_sku p \<notin> set (map p_sku (products db)) \<and>
         py_getitem data ''name'' = Inr (JStr (p_name p)) \<and>
         py_getitem data ''sku'' = Inr (JStr (p_sku p)) \<and>
         rbind (py_getitem data ''price'') py_float = Inr (p_price p) \<and>
         py_getitem data ''warehouse_id'' = Inr (JInt (p_warehouse_id p)) \<and>
         rbind (py_getitem data ''initial_quantity'') py_int = Inr (i_quantity i) \<and>
         p_product_type_id p = None \<and> p_supplier_id p = None"
  using assms by (rule create_product_createdE) blast

theorem create_product_created_witness:
  "fst (create_product no_faults sample_db sample_request) = Reply 201 (created_body (Some 2))
   \<and> (\<exists>p i. snd (create_product no_faults sample_db sample_request) =
           sample_db\<lparr>products := products sample_db @ [p],
             inventories := inventories sample_db @ [i]\<rparr> \<and>
         i_product_id i = p_id p \<and> p_id p = 2 \<and> p_sku p = ''G-1'' \<and> i_quantity i = 8)"
proof -
  have run: "fst (create_product no_faults sample_db sample_request) =
      Reply 201 (created_body (Some 2))"
    by (simp add: create_product_defs db_defs fixture_defs float_of_int_exact)
  from create_product_created [OF run] show ?thesis
    using run by (auto simp: created_body_def json_of_id_def sample_request_def)
qed

section \<open>The branches of the transaction\<close>

lemma create_product_try_lookup_error:
  "rbind (py_getitem data ''sku'') (query_product_by_sku f s) = Inl e \<Longrightarrow>
   create_product_try f data s = (Inl e, s)"
  by (simp add: create_product_try_unfold)

lemma create_product_try_conflict:
  "rbind (py_getitem data ''sku'') (query_product_by_sku f s) = Inr (Some p) \<Longrightarrow>
   create_product_try f data s = (Inr (Reply 409 (sku_exists_body (p_sku p))), s)"
  by (simp add: create_product_try_unfold)

lemma create_product_try_build_error:
  "rbind (py_getitem data ''sku'') (query_product_by_sku f s) = Inr None \<Longrightarrow>
   build_product data = Inl e \<Longrightarrow> create_product_try f data s = (Inl e, s)"
  by (simp add: create_product_try_unfold)

lemma create_product_Inl:
  assumes "missing_fields data = Inr False"
    and "create_product_try f data (new_session db) = (Inl e, s')"
    and "committed s' = db"
  shows "create_product f db data = (except_reply e, db)"
  using assms by (simp add: create_product_unfold)

lemma lookup_taken_sku:
  assumes "f Query = None" and "py_getitem data ''sku'' = Inr (JStr sku)"
    and "sku \<in> set (map p_sku (products db))"
  obtains p where
    "rbind (py_getitem data ''sku'') (query_product_by_sku f (new_session db)) = Inr (Some p)"
    and "p_sku p = sku"
proof -
  from assms(3) obtain p where
    "List.find (\<lambda>p. p_sku p = sku) (products db) = Some p" and "p_sku p = sku"
    by (cases "List.find (\<lambda>p. p_sku p = sku) (products db)")
       (auto simp: find_None_iff dest: find_Some_set)
  with assms(1,2) that show ?thesis
    by (simp add: query_product_by_sku_str)
qed

text \<open>
  C8. A request whose SKU is already the SKU of a product is answered with 409 and the
  message that names the SKU, and the tables are unchanged, provided the lookup itself
  does not fail.
\<close>

theorem create_product_duplicate_sku:
  assumes "missing_fields data = Inr False"
    and "py_getitem data ''sku'' = Inr (JStr sku)"
    and "sku \<in> set (map p_sku (products db))"
    and "f Query = None"
  shows "create_product f db data = (Reply 409 (sku_exists_body sku), db)"
proof -
  from assms(4,2,3) obtain p where
    "rbind (py_getitem data ''sku'') (query_product_by_sku f (new_session db)) = Inr (Some p)"
    and "p_sku p = sku"
    by (rule lookup_taken_sku)
  from create_product_try_conflict [OF this(1)] assms(1) \<open>p_sku p = sku\<close> show ?thesis
    by (simp add: create_product_unfold)
qed

theorem create_product_duplicate_sku_witness:
  "missing_fields duplicate_request = Inr False
   \<and> py_getitem duplicate_request ''sku'' = Inr (JStr ''W-1'')
   \<and> ''W-1'' \<in> set (map p_sku (products sample_db))
   \<and> no_faults Query = None
   \<and> create_product no_faults sample_db duplicate_request =
       (Reply 409 (sku_exists_body ''W-1''), sample_db)"
proof -
  have h: "missing_fields duplicate_request = Inr False"
    "py_getitem duplicate_request ''sku'' = Inr (JStr ''W-1'')"
    "''W-1'' \<in> set (map p_sku (products sample_db))"
    "no_faults Query = None"
    by (simp_all add: missing_fields_def required_fields_def fixture_defs)
  from create_product_duplicate_sku [of duplicate_request "''W-1''" sample_db no_faults] h
  show ?thesis by simp
qed

lemma create_product_try_created_wf:
  assumes "wf_db db"
    and "create_product_try f data (new_session db) = (Inr (Reply 201 body), s')"
  shows "wf_db (committed s')"
proof -
  from assms(2) obtain product k db1 inventory j db2 where
    "insert_product product db = Inr (k, db1)"
    and "insert_inventory inventory db1 = Inr (j, db2)"
    and "s' = created_session db2 product k inventory j"
    by (rule create_product_try_createdE)
  with assms(1) show ?thesis
    by (auto simp: created_session_def dest!: insert_product_wf insert_inventory_wf)
qed

text \<open>
  C11. The handler keeps the constraints of the schema: from tables with unique keys,
  unique SKUs, one inventory row per product and warehouse and valid foreign keys it
  leaves such tables, whatever the request and the faults.
\<close>

theorem create_product_wf:
  assumes "wf_db db"
  shows "wf_db (snd (create_product f db data))"
  using assms
  by (cases rule: create_product_result [of f db data])
    (simp_all add: create_product_try_created_wf)

theorem create_product_wf_witness:
  "wf_db sample_db \<and> wf_db (snd (create_product no_faults sample_db sample_request))"
  using create_product_wf [OF wf_sample_db, of no_faults sample_request] wf_sample_db by simp

end
