(* ===== verification/Create_Reference.thy ===== *)
theory Create_Reference
  imports Create_Product
begin

text \<open>
  What the creation handler of \<open>src/fixedApiEnd.py\<close> promises, written without a session:
  the two inserts of a creation as one transaction on the tables, which either yields the
  new key and the tables with both rows or raises and yields nothing, and the handler as
  the field check, the lookup and that transaction. The handler with its unit of work is
  proved equal to it, response and tables, for every request and every fault plan.
\<close>

section \<open>The transaction on the tables\<close>

text \<open>
  The writes of lines 22 to 46 in the order the session issues them: the product is
  built and written at the flush, the inventory is built with the key of the product and
  written at the commit. A fault or a refused row ends the transaction with its exception.
\<close>

definition create_transaction :: "faults \<Rightarrow> database \<Rightarrow> json \<Rightarrow> (int \<times> database) result" where
  "create_transaction f db data =
     rbind (build_product data) (\<lambda>product.
     rbind (check_fault f Flush) (\<lambda>_.
     rbind (insert_product product db) (\<lambda>(k, db1).
     rbind (build_inventory (Some k) data) (\<lambda>inventory.
     rbind (check_fault f Commit) (\<lambda>_.
     rbind (insert_inventory inventory db1) (\<lambda>(j, db2). Inr (k, db2)))))))"

text \<open>
  The answer to the transaction: when it raised, the response of the \<open>except\<close> clause
  with the tables as they were; when it committed, the new tables, with 201 and the key,
  or with the response of the \<open>except\<close> clause when the key could not be read again.
\<close>

definition write_reference :: "faults \<Rightarrow> database \<Rightarrow> json \<Rightarrow> outcome \<times> database" where
  "write_reference f db data =
     (case create_transaction f db data of
        Inl e \<Rightarrow> (except_reply e, db)
      | Inr (k, db') \<Rightarrow>
          (case f Refresh of
             None \<Rightarrow> (Reply 201 (created_body (Some k)), db')
           | Some e \<Rightarrow> (except_reply e, db')))"

text \<open>The handler: field check, lookup of the SKU in the tables, transaction.\<close>

definition create_reference :: "faults \<Rightarrow> database \<Rightarrow> json \<Rightarrow> outcome \<times> database" where
  "create_reference f db data =
     (case missing_fields data of
        Inl e \<Rightarrow> (Unhandled e, db)
      | Inr True \<Rightarrow> (Reply 400 (error_body ''Missing required fields''), db)
      | Inr False \<Rightarrow>
          (case rbind (py_getitem data ''sku'') (query_product_by_sku f (new_session db)) of
             Inl e \<Rightarrow> (except_reply e, db)
           | Inr (Some p) \<Rightarrow> (Reply 409 (sku_exists_body (p_sku p)), db)
           | Inr None \<Rightarrow> write_reference f db data))"

section \<open>The transaction and its result\<close>

lemma create_transaction_InrE:
  assumes "create_transaction f db data = Inr (k, db2)"
  obtains product db1 inventory j where
    "build_product data = Inr product" and "f Flush = None"
    and "insert_product product db = Inr (k, db1)"
    and "build_inventory (Some k) data = Inr inventory" and "f Commit = None"
    and "insert_inventory inventory db1 = Inr (j, db2)"
  using assms by (auto simp: create_transaction_def rbind_eq_Inr_iff)

lemma create_transaction_wf:
  assumes "wf_db db" and "create_transaction f db data = Inr (k, db')"
  shows "wf_db db'"
  using assms(2,1) by (elim create_transaction_InrE) (blast dest: insert_product_wf insert_inventory_wf)

lemma write_reference_cases:
  obtains (unchanged) e where "create_transaction f db data = Inl e"
      and "write_reference f db data = (except_reply e, db)"
  | (created) k db' where "create_transaction f db data = Inr (k, db')"
      and "f Refresh = None"
      and "write_reference f db data = (Reply 201 (created_body (Some k)), db')"
  | (reported) e k db' where "create_transaction f db data = Inr (k, db')"
      and "f Refresh = Some e"
      and "write_reference f db data = (except_reply e, db')"
  by (cases "create_transaction f db data"; cases "f Refresh")
    (auto simp: write_reference_def)

lemma write_reference_wf:
  "wf_db db \<Longrightarrow> wf_db (snd (write_reference f db data))"
  by (cases rule: write_reference_cases [of f db data]) (auto dest: create_transaction_wf)

section \<open>Transactions that succeed and transactions that find the SKU taken\<close>

lemma create_transaction_succeeds:
  assumes "wf_db db" and "f Flush = None" and "f Commit = None"
    and "py_getitem data ''name'' = Inr (JStr name)"
    and "py_getitem data ''sku'' = Inr (JStr sku)"
    and "rbind (py_getitem data ''price'') py_float = Inr price"
    and "py_getitem data ''warehouse_id'' = Inr (JInt wid)"
    and "rbind (py_getitem data ''initial_quantity'') py_int = Inr quantity"
    and "sku \<notin> set (map p_sku (products db))"
    and "wid \<in> set (map w_id (warehouses db))"
  shows "\<exists>db'. create_transaction f db data = Inr (next_id (map p_id (products db)), db')"
proof -
  let ?k = "next_id (map p_id (products db))"
  let ?product = "\<lparr>po_id = None, po_name = JStr name, po_sku = JStr sku, po_price = price,
    po_warehouse_id = JInt wid\<rparr>"
  let ?p = "\<lparr>p_id = ?k, p_name = name, p_sku = sku, p_price = price, p_warehouse_id = wid,
    p_product_type_id = None, p_supplier_id = None\<rparr>"
  let ?db1 = "db\<lparr>products := products db @ [?p]\<rparr>"
  let ?inventory = "\<lparr>io_id = None, io_product_id = Some ?k, io_warehouse_id = JInt wid,
    io_quantity = quantity\<rparr>"
  let ?j = "next_id (map i_id (inventories db))"
  let ?db2 = "?db1\<lparr>inventories := inventories db @
    [\<lparr>i_id = ?j, i_product_id = ?k, i_warehouse_id = wid, i_quantity = quantity\<rparr>]\<rparr>"
  from assms(4-7) have bp: "build_product data = Inr ?product"
    by (auto simp: build_product_Inr_iff rbind_eq_Inr_iff)
  from assms(9,10) have ip: "insert_product ?product db = Inr (?k, ?db1)"
    by (simp add: insert_product_Inr_iff)
  from assms(7,8) have bi: "build_inventory (Some ?k) data = Inr ?inventory"
    by (auto simp: build_inventory_Inr_iff rbind_eq_Inr_iff)
  from assms(1) have "\<forall>i \<in> set (inventories db). i_product_id i \<noteq> ?k"
    by (blast dest: wf_next_id_unused)
  with assms(10) have "insert_inventory ?inventory ?db1 = Inr (?j, ?db2)"
    by (auto simp: insert_inventory_Inr_iff)
  with bp ip bi assms(2,3) show ?thesis
    by (simp add: create_transaction_def check_fault_def)
qed

lemma create_transaction_taken_sku:
  assumes "f Flush = None"
    and "py_getitem data ''name'' = Inr (JStr name)"
    and "py_getitem data ''sku'' = Inr (JStr sku)"
    and "rbind (py_getitem data ''price'') py_float = Inr price"
    and "py_getitem data ''warehouse_id'' = Inr (JInt wid)"
    and "sku \<in> set (map p_sku (products db))"
  shows "create_transaction f db data = Inl IntegrityError"
proof -
  let ?product = "\<lparr>po_id = None, po_name = JStr name, po_sku = JStr sku, po_price = price,
    po_warehouse_id = JInt wid\<rparr>"
  from assms(2-5) have "build_product data = Inr ?product"
    by (auto simp: build_product_Inr_iff rbind_eq_Inr_iff)
  moreover from assms(6) have "insert_product ?product db = Inl IntegrityError"
    by (simp add: insert_product_def)
  ultimately show ?thesis
    using assms(1) by (simp add: create_transaction_def check_fault_def)
qed

lemma create_transaction_products:
  assumes "create_transaction f db data = Inr (k, db')"
  shows "\<exists>p. products db' = products db @ [p] \<and> p_id p = k
    \<and> py_getitem data ''sku'' = Inr (JStr (p_sku p))"
proof -
  from assms obtain product db1 inventory j where "build_product data = Inr product"
    and "insert_product product db = Inr (k, db1)"
    and "insert_inventory inventory db1 = Inr (j, db')"
    by (rule create_transaction_InrE)
  then show ?thesis
    by (auto simp: build_product_Inr_iff insert_product_Inr_iff insert_inventory_Inr_iff)
qed

section \<open>The unit of work carries out the transaction\<close>

lemma flush_pending_new_product:
  assumes "po_id product = None"
  shows "flush_pending \<lparr>committed = db, working = db, objs = [ProductObj product]\<rparr> =
     rbind (insert_product product db) (\<lambda>(k, db1).
       Inr \<lparr>committed = db, working = db1, objs = [ProductObj (product\<lparr>po_id := Some k\<rparr>)]\<rparr>)"
  using assms
  by (cases "insert_product product db") (auto simp: flush_pending_def)

lemma flush_pending_new_inventory:
  assumes "io_id inventory = None"
  shows "flush_pending \<lparr>committed = db, working = db1,
       objs = [ProductObj (product\<lparr>po_id := Some k\<rparr>), InventoryObj inventory]\<rparr> =
     rbind (insert_inventory inventory db1) (\<lambda>(j, db2).
       Inr \<lparr>committed = db, working = db2,
            objs = [ProductObj (product\<lparr>po_id := Some k\<rparr>),
                    InventoryObj (inventory\<lparr>io_id := Some j\<rparr>)]\<rparr>)"
  using assms
  by (cases "insert_inventory inventory db1") (auto simp: flush_pending_def)

lemma create_product_write_reference:
  "(case create_product_write f data (new_session db) of
      (Inr r, s) \<Rightarrow> (r, committed s)
    | (Inl e, s) \<Rightarrow> (except_reply e, committed (session_rollback s))) =
   write_reference f db data"
proof (cases "build_product data")
  case (Inl e)
  then show ?thesis
    by (simp add: create_product_write_def write_reference_def create_transaction_def)
next
  case (Inr product)
  note bp = build_product_pending [OF Inr]
  note defs = create_product_write_def write_reference_def create_transaction_def
    session_add_def new_session_def session_flush_def session_commit_def id_at_def
    session_refresh_def check_fault_def flush_pending_new_product flush_pending_new_inventory
  show ?thesis
  proof (cases "f Flush")
    case (Some e)
    with Inr show ?thesis by (simp add: defs)
  next
    case None
    show ?thesis
    proof (cases "insert_product product db")
      case (Inl e)
      with Inr None bp show ?thesis by (simp add: defs)
    next
      case ins: (Inr kd)
      obtain k db1 where kd: "kd = (k, db1)" by (cases kd)
      show ?thesis
      proof (cases "build_inventory (Some k) data")
        case (Inl e)
        with Inr None bp ins kd show ?thesis by (simp add: defs)
      next
        case inv: (Inr inventory)
        note bi = build_inventory_pending [OF inv]
        from Inr None bp ins kd inv bi show ?thesis
          by (cases "f Commit"; cases "insert_inventory inventory db1"; cases "f Refresh")
            (auto simp: defs)
      qed
    qed
  qed
qed

section \<open>The handler and its reference\<close>

lemma create_product_lookup_unfold:
  "create_product f db data =
    (case missing_fields data of
        Inl e \<Rightarrow> (Unhandled e, db)
      | Inr True \<Rightarrow> (Reply 400 (error_body ''Missing required fields''), db)
      | Inr False \<Rightarrow>
          (case rbind (py_getitem data ''sku'') (query_product_by_sku f (new_session db)) of
             Inl e \<Rightarrow> (except_reply e, db)
           | Inr (Some p) \<Rightarrow> (Reply 409 (sku_exists_body (p_sku p)), db)
           | Inr None \<Rightarrow>
              (case create_product_write f data (new_session db) of
                (Inr r, s) \<Rightarrow> (r, committed s)
              | (Inl e, s) \<Rightarrow> (except_reply e, committed (session_rollback s)))))"
  by (auto simp: create_product_unfold create_product_try_row
        split: sum.splits bool.splits option.splits prod.splits)

lemma create_product_keeps_wf: "wf_db db \<Longrightarrow> wf_db (snd (create_product f db data))"
  by (auto simp: create_product_lookup_unfold create_product_write_reference write_reference_wf
      split: sum.splits bool.splits option.splits)

lemma create_product_201E:
  assumes "fst (create_product f db data) = Reply 201 body"
  obtains k db' where "missing_fields data = Inr False"
    and "create_transaction f db data = Inr (k, db')"
    and "create_product f db data = (Reply 201 (created_body (Some k)), db')"
  using assms
  by (auto simp: create_product_lookup_unfold create_product_write_reference
      write_reference_def split: sum.splits bool.splits option.splits)

text \<open>
  C3. The handler with its session, flush, commit and rollbacks computes what the
  reference computes: for every request, every state of the tables and every fault plan
  the response and the committed tables are those of the field check, the lookup and the
  transaction on the tables.
\<close>

theorem create_product_reference:
  "create_product f db data = create_reference f db data"
  by (simp add: create_product_lookup_unfold create_reference_def
        create_product_write_reference split: sum.splits bool.splits option.splits)

end
