(* ===== verification/Create_Paths.thy ===== *)
theory Create_Paths
  imports Create_Reference
begin

text \<open>
  The paths through \<open>create_product\<close> (\<open>src/fixedApiEnd.py\<close>) one by one: the field
  check (line 13), the conversion errors of the price (line 26) and of the quantity
  (line 36), the failures of the flush and of the commit with the clause that answers
  them (lines 48 to 57), the conditions under which the creation succeeds, and the set
  of answers the handler can give.
\<close>

section \<open>The field check\<close>

lemma missing_fields_object:
  "missing_fields (JObject kvs) = Inr (kvs = [] \<or> \<not> set required_fields \<subseteq> fst ` set kvs)"
  by (auto simp: missing_fields_def all_in_object)

lemma missing_fields_Inl:
  "missing_fields data = Inl e \<Longrightarrow>
   e = TypeError \<and> ((\<exists>b. data = JBool b) \<or> (\<exists>n. data = JInt n) \<or> (\<exists>x. data = JFloat x))"
  by (cases data) (auto simp: missing_fields_def required_fields_def split: if_splits)

lemma present_field:
  "missing_fields (JObject kvs) = Inr False \<Longrightarrow> k \<in> set required_fields \<Longrightarrow> k \<in> fst ` set kvs"
  by (auto simp: missing_fields_object)

text \<open>
  C23. A body that is a dictionary without one of the five required fields is answered
  with 400 "Missing required fields" before any storage call: the tables are unchanged
  and no fault can change the answer.
\<close>

theorem create_product_missing_field:
  assumes "k \<in> set required_fields" and "k \<notin> fst ` set kvs"
  shows "create_product f db (JObject kvs) =
    (Reply 400 (error_body ''Missing required fields''), db)"
proof -
  from assms have "missing_fields (JObject kvs) = Inr True"
    by (auto simp: missing_fields_object)
  then show ?thesis
    by (simp add: create_product_unfold)
qed

theorem create_product_missing_field_witness:
  "''price'' \<in> set required_fields
   \<and> ''price'' \<notin> fst ` set [(''name'', JStr ''Gadget''), (''sku'', JStr ''G-1'')]
   \<and> create_product commit_fails sample_db (JObject [(''name'', JStr ''Gadget''), (''sku'', JStr ''G-1'')]) =
       (Reply 400 (error_body ''Missing required fields''), sample_db)"
  using create_product_missing_field [of "''price''" "[(''name'', JStr ''Gadget''), (''sku'', JStr ''G-1'')]"
      commit_fails sample_db]
  by (simp add: required_fields_def)

text \<open>
  After the field check has passed on a dictionary, no subscription of the request
  raises \<open>KeyError\<close>: every required field has a value.
\<close>

theorem required_fields_present:
  assumes "missing_fields (JObject kvs) = Inr False" and "k \<in> set required_fields"
  shows "\<exists>v. py_getitem (JObject kvs) k = Inr v"
  using assms by (intro py_getitem_object_Inr present_field)

theorem required_fields_present_witness:
  "missing_fields sample_request = Inr False \<and> ''sku'' \<in> set required_fields
   \<and> (\<exists>v. py_getitem sample_request ''sku'' = Inr v)"
  using required_fields_present [of _ "''sku''"]
  by (simp add: missing_fields_object sample_request_def required_fields_def)

section \<open>Conversion errors\<close>

lemma build_product_price_error:
  assumes "py_getitem data ''name'' = Inr name" and "py_getitem data ''sku'' = Inr sku"
    and "py_getitem data ''price'' = Inr pr" and "py_float pr = Inl e"
  shows "build_product data = Inl e"
  using assms by (simp add: build_product_def)

text \<open>
  C21. A request with an unused SKU whose price \<open>float\<close> refuses with \<open>ValueError\<close> or
  \<open>TypeError\<close> is answered with 400 and leaves the tables unchanged.
\<close>

theorem create_product_invalid_price:
  assumes "missing_fields data = Inr False"
    and "f Query = None"
    and "py_getitem data ''sku'' = Inr (JStr sku)"
    and "sku \<notin> set (map p_sku (products db))"
    and "py_getitem data ''price'' = Inr pr"
    and "py_float pr = Inl e" and "e = ValueError \<or> e = TypeError"
  shows "create_product f db data =
    (Reply 400 (error_body ''Invalid data type for price or initial_quantity''), db)"
proof -
  from assms(3) obtain kvs where "data = JObject kvs"
    by (auto dest: py_getitem_Inr_object)
  with assms(1) obtain name where name: "py_getitem data ''name'' = Inr name"
    using py_getitem_object_Inr [OF present_field, of kvs "''name''"]
    by (auto simp: required_fields_def)
  from assms(2,4) have "query_product_by_sku f (new_session db) (JStr sku) = Inr None"
    by (auto simp: query_product_by_sku_str find_None_iff)
  with assms(3) have
    "rbind (py_getitem data ''sku'') (query_product_by_sku f (new_session db)) = Inr None"
    by simp
  moreover from name assms(3,5,6) have "build_product data = Inl e"
    by (rule build_product_price_error)
  ultimately have "create_product_try f data (new_session db) = (Inl e, new_session db)"
    by (rule create_product_try_build_error)
  from create_product_Inl [OF assms(1) this] assms(7) show ?thesis
    by (auto simp: except_reply_def)
qed

lemma parse_float_cheap: "parse_float ''cheap'' = None"
  by (simp add: py_defs)

theorem create_product_invalid_price_witness:
  "missing_fields bad_price_request = Inr False
   \<and> no_faults Query = None
   \<and> py_getitem bad_price_request ''sku'' = Inr (JStr ''G-1'')
   \<and> ''G-1'' \<notin> set (map p_sku (products sample_db))
   \<and> py_getitem bad_price_request ''price'' = Inr (JStr ''cheap'')
   \<and> py_float (JStr ''cheap'') = Inl ValueError
   \<and> create_product no_faults sample_db bad_price_request =
       (Reply 400 (error_body ''Invalid data type for price or initial_quantity''), sample_db)"
proof -
  have h: "missing_fields bad_price_request = Inr False" "no_faults Query = None"
    "py_getitem bad_price_request ''sku'' = Inr (JStr ''G-1'')"
    "''G-1'' \<notin> set (map p_sku (products sample_db))"
    "py_getitem bad_price_request ''price'' = Inr (JStr ''cheap'')"
    "py_float (JStr ''cheap'') = Inl ValueError"
    by (simp_all add: missing_fields_object bad_price_request_def required_fields_def
          fixture_defs parse_float_cheap)
  from create_product_invalid_price [of bad_price_request no_faults "''G-1''" sample_db
      "JStr ''cheap''" ValueError] h
  show ?thesis by simp
qed

section \<open>Errors after the lookup\<close>

lemma create_product_try_flush_error:
  assumes "rbind (py_getitem data ''sku'') (query_product_by_sku f s) = Inr None"
    and "build_product data = Inr product"
    and "session_flush f (snd (session_add (ProductObj product) s)) = Inl e"
  shows "create_product_try f data s = (Inl e, snd (session_add (ProductObj product) s))"
  using assms by (auto simp: create_product_try_unfold split: prod.splits)

lemma lookup_unused_sku:
  assumes "f Query = None" and "py_getitem data ''sku'' = Inr (JStr sku)"
    and "sku \<notin> set (map p_sku (products db))"
  shows "rbind (py_getitem data ''sku'') (query_product_by_sku f (new_session db)) = Inr None"
  using assms by (auto simp: query_product_by_sku_str find_None_iff)

lemma create_product_quantity_error:
  assumes "missing_fields data = Inr False"
    and "f Query = None" and "f Flush = None"
    and "build_product data = Inr product"
    and "insert_product product db = Inr (k, db1)"
    and "py_getitem data ''initial_quantity'' = Inr q"
    and "py_int q = Inl e"
  shows "create_product f db data = (except_reply e, db)"
proof -
  from assms(4,5) obtain sku where "py_getitem data ''sku'' = Inr (JStr sku)"
    and "sku \<notin> set (map p_sku (products db))"
    and wid: "\<exists>wid. py_getitem data ''warehouse_id'' = Inr wid"
    by (auto simp: build_product_Inr_iff insert_product_Inr_iff)
  with assms(2) have
    "rbind (py_getitem data ''sku'') (query_product_by_sku f (new_session db)) = Inr None"
    by (intro lookup_unused_sku)
  moreover from wid assms(6,7) have "build_inventory (Some k) data = Inl e"
    by (auto simp: build_inventory_def)
  with assms(3-5) have "create_transaction f db data = Inl e"
    by (simp add: create_transaction_def check_fault_def)
  ultimately show ?thesis
    using assms(1)
    by (auto simp: create_product_lookup_unfold create_product_write_reference
        write_reference_def)
qed

text \<open>
  C22. A quantity that \<open>int\<close> refuses with \<open>ValueError\<close> or \<open>TypeError\<close>, in a request whose
  product row the store accepts at the flush, is answered with 400, and the tables are
  unchanged.
\<close>

theorem create_product_invalid_quantity:
  assumes "missing_fields data = Inr False"
    and "f Query = None" and "f Flush = None"
    and "build_product data = Inr product"
    and "insert_product product db = Inr (k, db1)"
    and "py_getitem data ''initial_quantity'' = Inr q"
    and "py_int q = Inl e" and "e = ValueError \<or> e = TypeError"
  shows "create_product f db data =
    (Reply 400 (error_body ''Invalid data type for price or initial_quantity''), db)"
  using create_product_quantity_error [OF assms(1-7)] assms(8)
  by (auto simp: except_reply_def)

theorem create_product_invalid_quantity_witness:
  "\<exists>product k db1.
     missing_fields bad_quantity_request = Inr False
     \<and> no_faults Query = None \<and> no_faults Flush = None
     \<and> build_product bad_quantity_request = Inr product
     \<and> insert_product product sample_db = Inr (k, db1)
     \<and> products db1 \<noteq> products sample_db
     \<and> py_getitem bad_quantity_request ''initial_quantity'' = Inr (JStr ''a few'')
     \<and> py_int (JStr ''a few'') = Inl ValueError
     \<and> create_product no_faults sample_db bad_quantity_request =
         (Reply 400 (error_body ''Invalid data type for price or initial_quantity''), sample_db)"
proof -
  let ?product = "\<lparr>po_id = None, po_name = JStr ''Gadget'', po_sku = JStr ''G-1'',
    po_price = Finite 3, po_warehouse_id = JInt 1\<rparr>"
  let ?db1 = "sample_db\<lparr>products := products sample_db @
    [\<lparr>p_id = 2, p_name = ''Gadget'', p_sku = ''G-1'', p_price = Finite 3,
      p_warehouse_id = 1, p_product_type_id = None, p_supplier_id = None\<rparr>]\<rparr>"
  have h: "missing_fields bad_quantity_request = Inr False"
    "no_faults Query = None" "no_faults Flush = None"
    "build_product bad_quantity_request = Inr ?product"
    "insert_product ?product sample_db = Inr (2, ?db1)"
    "py_getitem bad_quantity_request ''initial_quantity'' = Inr (JStr ''a few'')"
    "py_int (JStr ''a few'') = Inl ValueError"
    by (simp_all add: missing_fields_object required_fields_def build_product_def
          insert_defs fixture_defs float_of_int_exact parse_defs)
  from create_product_invalid_quantity [OF h] h show ?thesis
    by (intro exI [of _ ?product] exI [of _ 2] exI [of _ ?db1]) simp
qed


text \<open>
  C26. An infinite quantity is not a validation error for the handler: \<open>int\<close> refuses
  \<open>Infinity\<close> and \<open>-Infinity\<close> with \<open>OverflowError\<close>, which the clause for \<open>ValueError\<close> and
  \<open>TypeError\<close> does not catch. Every such request whose product row the store accepts at
  the flush is answered with 500, and the tables are unchanged.
\<close>

theorem create_product_infinite_quantity:
  assumes "missing_fields data = Inr False"
    and "f Query = None" and "f Flush = None"
    and "build_product data = Inr product"
    and "insert_product product db = Inr (k, db1)"
    and "py_getitem data ''initial_quantity'' = Inr (JFloat x)"
    and "x = PosInf \<or> x = NegInf"
  shows "create_product f db data =
    (Reply 500 (error_body ''An unexpected error occurred.''), db)"
proof -
  from assms(7) have "py_int (JFloat x) = Inl OverflowError"
    by (auto simp: int_of_float_def)
  from create_product_quantity_error [OF assms(1-6) this] show ?thesis
    by (simp add: except_reply_def)
qed

theorem create_product_infinite_quantity_witness:
  "\<exists>product k db1.
     missing_fields infinite_quantity_request = Inr False
     \<and> no_faults Query = None \<and> no_faults Flush = None
     \<and> build_product infinite_quantity_request = Inr product
     \<and> insert_product product sample_db = Inr (k, db1)
     \<and> py_getitem infinite_quantity_request ''initial_quantity'' = Inr (JFloat PosInf)
     \<and> create_product no_faults sample_db infinite_quantity_request =
         (Reply 500 (error_body ''An unexpected error occurred.''), sample_db)"
proof -
  let ?product = "\<lparr>po_id = None, po_name = JStr ''Gadget'', po_sku = JStr ''G-1'',
    po_price = Finite 3, po_warehouse_id = JInt 1\<rparr>"
  let ?db1 = "sample_db\<lparr>products := products sample_db @
    [\<lparr>p_id = 2, p_name = ''Gadget'', p_sku = ''G-1'', p_price = Finite 3,
      p_warehouse_id = 1, p_product_type_id = None, p_supplier_id = None\<rparr>]\<rparr>"
  have h: "missing_fields infinite_quantity_request = Inr False"
    "no_faults Query = None" "no_faults Flush = None"
    "build_product infinite_quantity_request = Inr ?product"
    "insert_product ?product sample_db = Inr (2, ?db1)"
    "py_getitem infinite_quantity_request ''initial_quantity'' = Inr (JFloat PosInf)"
    by (simp_all add: missing_fields_object required_fields_def build_product_def
          insert_defs fixture_defs float_of_int_exact)
  from create_product_infinite_quantity [OF h] h show ?thesis
    by (intro exI [of _ ?product] exI [of _ 2] exI [of _ ?db1]) simp
qed

section \<open>When a creation succeeds\<close>

lemma fields_present_not_missing:
  assumes "\<forall>k \<in> set required_fields. \<exists>v. py_getitem data k = Inr v"
  shows "missing_fields data = Inr False"
proof -
  from assms obtain v where "py_getitem data ''name'' = Inr v"
    by (auto simp: required_fields_def)
  then obtain kvs where kvs: "data = JObject kvs"
    by (auto dest: py_getitem_Inr_object)
  from assms have "set required_fields \<subseteq> fst ` set kvs"
    unfolding kvs by (blast dest: py_getitem_Inr_key)
  then show ?thesis
    unfolding kvs missing_fields_object by (auto simp: required_fields_def)
qed

text \<open>
  C20. A creation succeeds whenever it should: with well-formed tables, no fault in any
  of the four calls, a string name, a string SKU no product has, a price \<open>float\<close> accepts, the key of an
  existing warehouse and a quantity \<open>int\<close> accepts, the answer is 201 with the next
  product key.
\<close>

theorem create_product_succeeds:
  assumes "wf_db db"
    and "f Query = None" and "f Flush = None" and "f Commit = None" and "f Refresh = None"
    and "py_getitem data ''name'' = Inr (JStr name)"
    and "py_getitem data ''sku'' = Inr (JStr sku)"
    and "rbind (py_getitem data ''price'') py_float = Inr price"
    and "py_getitem data ''warehouse_id'' = Inr (JInt wid)"
    and "rbind (py_getitem data ''initial_quantity'') py_int = Inr quantity"
    and "sku \<notin> set (map p_sku (products db))"
    and "wid \<in> set (map w_id (warehouses db))"
  shows "fst (create_product f db data) =
    Reply 201 (created_body (Some (next_id (map p_id (products db)))))"
proof -
  from assms(6-10) have present: "missing_fields data = Inr False"
    by (intro fields_present_not_missing) (auto simp: required_fields_def rbind_eq_Inr_iff)
  from assms(2,7,11) have look:
    "rbind (py_getitem data ''sku'') (query_product_by_sku f (new_session db)) = Inr None"
    by (rule lookup_unused_sku)
  from create_transaction_succeeds [OF assms(1,3,4,6-)] present look assms(5) show ?thesis
    by (auto simp: create_product_lookup_unfold create_product_write_reference
        write_reference_def)
qed

theorem create_product_succeeds_witness:
  "wf_db sample_db
   \<and> no_faults Query = None \<and> no_faults Flush = None \<and> no_faults Commit = None
   \<and> no_faults Refresh = None
   \<and> py_getitem sample_request ''name'' = Inr (JStr ''Gadget'')
   \<and> py_getitem sample_request ''sku'' = Inr (JStr ''G-1'')
   \<and> rbind (py_getitem sample_request ''price'') py_float = Inr (Finite 3)
   \<and> py_getitem sample_request ''warehouse_id'' = Inr (JInt 1)
   \<and> rbind (py_getitem sample_request ''initial_quantity'') py_int = Inr 8
   \<and> ''G-1'' \<notin> set (map p_sku (products sample_db))
   \<and> 1 \<in> set (map w_id (warehouses sample_db))
   \<and> fst (create_product no_faults sample_db sample_request) = Reply 201 (created_body (Some 2))"
proof -
  have h: "no_faults Query = None" "no_faults Flush = None" "no_faults Commit = None"
    "no_faults Refresh = None"
    "py_getitem sample_request ''name'' = Inr (JStr ''Gadget'')"
    "py_getitem sample_request ''sku'' = Inr (JStr ''G-1'')"
    "rbind (py_getitem sample_request ''price'') py_float = Inr (Finite 3)"
    "py_getitem sample_request ''warehouse_id'' = Inr (JInt 1)"
    "rbind (py_getitem sample_request ''initial_quantity'') py_int = Inr 8"
    "''G-1'' \<notin> set (map p_sku (products sample_db))"
    "1 \<in> set (map w_id (warehouses sample_db))"
    by (simp_all add: fixture_defs float_of_int_exact)
  have "next_id (map p_id (products sample_db)) = 2"
    by (simp add: sample_db_def next_id_def)
  with create_product_succeeds [OF wf_sample_db h] wf_sample_db h show ?thesis
    by simp
qed

section \<open>The answers of the handler\<close>

text \<open>
  C33. The handler answers with 201, 400, 409 or 500, or not at all: the only exception
  that leaves it is the \<open>TypeError\<close> of the field check on a body that is a number or
  \<open>true\<close>.
\<close>

theorem create_product_status:
  "status (fst (create_product f db data)) \<in> {Some 201, Some 400, Some 409, Some 500}
   \<or> (fst (create_product f db data) = Unhandled TypeError \<and> truthy data \<and>
       ((\<exists>b. data = JBool b) \<or> (\<exists>n. data = JInt n) \<or> (\<exists>x. data = JFloat x)))"
proof (cases "missing_fields data")
  case (Inl e)
  from missing_fields_Inl [OF this] Inl show ?thesis
    by (auto simp: create_product_unfold missing_fields_def split: if_splits)
next
  case (Inr missing)
  obtain r s where run: "create_product_try f data (new_session db) = (r, s)"
    by (cases "create_product_try f data (new_session db)")
  show ?thesis
  proof (cases r)
    case (Inl e)
    with Inr run except_reply_status [of e] show ?thesis
      by (cases missing) (auto simp: create_product_unfold)
  next
    case r: (Inr reply)
    with run create_product_try_Inr [of f data "new_session db" reply s] Inr show ?thesis
      by (cases missing) (auto simp: create_product_unfold)
  qed
qed

text \<open>
  C34. A request for a warehouse that does not exist fails the foreign key at the flush.
  The handler answers 409 with the message about the SKU, although the SKU is unused,
  and leaves the tables unchanged.
\<close>

theorem create_product_unknown_warehouse:
  assumes "missing_fields data = Inr False"
    and "f Query = None" and "f Flush = None"
    and "py_getitem data ''name'' = Inr (JStr name)"
    and "py_getitem data ''sku'' = Inr (JStr sku)"
    and "rbind (py_getitem data ''price'') py_float = Inr price"
    and "py_getitem data ''warehouse_id'' = Inr (JInt wid)"
    and "sku \<notin> set (map p_sku (products db))"
    and "wid \<notin> set (map w_id (warehouses db))"
  shows "create_product f db data =
    (Reply 409 (error_body ''Database integrity error. SKU might already exist.''), db)"
proof -
  let ?product = "\<lparr>po_id = None, po_name = JStr name, po_sku = JStr sku, po_price = price,
    po_warehouse_id = JInt wid\<rparr>"
  from assms(2,5,8) have look:
    "rbind (py_getitem data ''sku'') (query_product_by_sku f (new_session db)) = Inr None"
    by (rule lookup_unused_sku)
  from assms(4-7) have bp: "build_product data = Inr ?product"
    by (auto simp: build_product_Inr_iff rbind_eq_Inr_iff)
  from assms(8,9) have "insert_product ?product db = Inl IntegrityError"
    by (simp add: insert_product_def)
  with assms(3) have
    "session_flush f (snd (session_add (ProductObj ?product) (new_session db))) = Inl IntegrityError"
    by (simp add: session_flush_def flush_pending_def check_fault_def)
  from create_product_try_flush_error [OF look bp this] create_product_Inl [OF assms(1)]
  show ?thesis
    by (simp add: except_reply_def)
qed

theorem create_product_unknown_warehouse_witness:
  "missing_fields unknown_warehouse_request = Inr False
   \<and> no_faults Query = None \<and> no_faults Flush = None
   \<and> py_getitem unknown_warehouse_request ''name'' = Inr (JStr ''Gadget'')
   \<and> py_getitem unknown_warehouse_request ''sku'' = Inr (JStr ''G-1'')
   \<and> rbind (py_getitem unknown_warehouse_request ''price'') py_float = Inr (Finite 3)
   \<and> py_getitem unknown_warehouse_request ''warehouse_id'' = Inr (JInt 99)
   \<and> ''G-1'' \<notin> set (map p_sku (products sample_db))
   \<and> 99 \<notin> set (map w_id (warehouses sample_db))
   \<and> create_product no_faults sample_db unknown_warehouse_request =
       (Reply 409 (error_body ''Database integrity error. SKU might already exist.''), sample_db)"
proof -
  have h: "missing_fields unknown_warehouse_request = Inr False"
    "no_faults Query = None" "no_faults Flush = None"
    "py_getitem unknown_warehouse_request ''name'' = Inr (JStr ''Gadget'')"
    "py_getitem unknown_warehouse_request ''sku'' = Inr (JStr ''G-1'')"
    "rbind (py_getitem unknown_warehouse_request ''price'') py_float = Inr (Finite 3)"
    "py_getitem unknown_warehouse_request ''warehouse_id'' = Inr (JInt 99)"
    "''G-1'' \<notin> set (map p_sku (products sample_db))"
    "99 \<notin> set (map w_id (warehouses sample_db))"
    by (simp_all add: missing_fields_object required_fields_def fixture_defs float_of_int_exact)
  from create_product_unknown_warehouse [OF h] h show ?thesis by simp
qed

section \<open>A creation and its resubmission\<close>

text \<open>
  C25. What a creation stores, the lookup finds: when a request was answered with 201,
  the same request sent again is answered with 409 and the message that names its SKU,
  and changes nothing, provided the lookup itself does not fail.
\<close>

theorem create_product_resubmitted:
  assumes "fst (create_product f db data) = Reply 201 body" and "f' Query = None"
  shows "\<exists>sku. py_getitem data ''sku'' = Inr (JStr sku) \<and>
    create_product f' (snd (create_product f db data)) data =
      (Reply 409 (sku_exists_body sku), snd (create_product f db data))"
proof -
  from assms(1) obtain k db' where present: "missing_fields data = Inr False"
    and tr: "create_transaction f db data = Inr (k, db')"
    and db': "snd (create_product f db data) = db'"
    by (rule create_product_201E) simp
  from create_transaction_products [OF tr] obtain sku where
    sku: "py_getitem data ''sku'' = Inr (JStr sku)"
    and "sku \<in> set (map p_sku (products db'))"
    by auto
  with assms(2) obtain p where "rbind (py_getitem data ''sku'')
      (query_product_by_sku f' (new_session db')) = Inr (Some p)" and "p_sku p = sku"
    by (elim lookup_taken_sku)
  with present sku db' show ?thesis
    by (simp add: create_product_lookup_unfold)
qed

theorem create_product_resubmitted_witness:
  "fst (create_product no_faults sample_db sample_request) = Reply 201 (created_body (Some 2))
   \<and> no_faults Query = None
   \<and> fst (create_product no_faults (snd (create_product no_faults sample_db sample_request))
        sample_request) = Reply 409 (sku_exists_body ''G-1'')"
proof -
  have run: "fst (create_product no_faults sample_db sample_request) =
      Reply 201 (created_body (Some 2))"
    by (simp add: create_product_defs db_defs fixture_defs float_of_int_exact)
  have q: "no_faults Query = None" by (simp add: no_faults_def)
  from create_product_resubmitted [where f' = no_faults, OF run] run q show ?thesis
    by (auto simp: sample_request_def)
qed

section \<open>A failure after the commit\<close>

lemma appended_rows_neq:
  "db\<lparr>products := products db @ [p], inventories := inventories db @ [i]\<rparr> \<noteq> db"
proof
  assume "db\<lparr>products := products db @ [p], inventories := inventories db @ [i]\<rparr> = db"
  then have "products (db\<lparr>products := products db @ [p],
      inventories := inventories db @ [i]\<rparr>) = products db"
    by (rule arg_cong)
  then show False by simp
qed

text \<open>
  C4. The key of the new product is read for the response after the commit, inside the
  \<open>try\<close> block. When that read fails, the handler rolls back, which undoes nothing, and
  answers as for any failure, although both rows are committed: a request that would
  have been answered with 201 is answered by the \<open>except\<close> clause and leaves the tables
  of the successful creation.
\<close>

theorem create_product_failure_after_commit:
  assumes "fst (create_product (f(Refresh := None)) db data) = Reply 201 body"
    and "f Refresh = Some e"
  shows "create_product f db data =
      (except_reply e, snd (create_product (f(Refresh := None)) db data))
    \<and> snd (create_product f db data) \<noteq> db"
proof -
  from assms(1) obtain p i where "snd (create_product (f(Refresh := None)) db data) =
      db\<lparr>products := products db @ [p], inventories := inventories db @ [i]\<rparr>"
    by (rule create_product_createdE) blast
  with assms show ?thesis
    by (simp add: create_product_refresh [where f = f and e = e] case_prod_unfold
        appended_rows_neq)
qed

theorem create_product_failure_after_commit_witness:
  "fst (create_product (refresh_fails(Refresh := None)) sample_db sample_request) =
     Reply 201 (created_body (Some 2))
   \<and> refresh_fails Refresh = Some OperationalError
   \<and> create_product refresh_fails sample_db sample_request =
       (Reply 500 (error_body ''An unexpected error occurred.''), gadget_db)"
proof -
  have f: "refresh_fails(Refresh := None) = no_faults"
    by (auto simp: refresh_fails_def no_faults_def)
  have run: "create_product no_faults sample_db sample_request =
      (Reply 201 (created_body (Some 2)), gadget_db)"
    by (simp add: create_product_defs db_defs fixture_defs float_of_int_exact gadget_db_def)
  have e: "refresh_fails Refresh = Some OperationalError"
    by (simp add: refresh_fails_def)
  from create_product_failure_after_commit [where f = refresh_fails and db = sample_db
      and data = sample_request and e = OperationalError and body = "created_body (Some 2)"]
    run e show ?thesis
    by (simp add: f except_reply_def)
qed

end
