(* ===== verification/Concurrency.thy ===== *)
theory Concurrency
  imports Create_Paths Create_Reference
begin

text \<open>
  Creation requests that overlap. Each request of \<open>src/fixedApiEnd.py\<close> runs in a session
  of its own on tables all requests share. The handler does not lock: between the lookup of
  the SKU (line 19) and the writes (lines 22 to 41) other requests may commit. A request is
  therefore two steps, the checks up to the lookup and the writes with the \<open>except\<close>
  clauses, and a schedule says whose step comes next. The store is taken to show each
  statement the tables committed at its moment and to run the writes of one transaction,
  from its flush to its commit, without another in between.
\<close>

section \<open>Requests in two steps\<close>

datatype request_state =
    Received faults json
  | Checked faults json
  | Answered outcome

record system =
  tables :: database
  requests :: "request_state list"

text \<open>
  Lines 9 to 20: the field check and the lookup on the tables of this moment. The request
  is answered here, or has passed the checks and goes on to write.
\<close>

definition check_request :: "faults \<Rightarrow> database \<Rightarrow> json \<Rightarrow> request_state" where
  "check_request f db data =
     (case missing_fields data of
        Inl e \<Rightarrow> Answered (Unhandled e)
      | Inr True \<Rightarrow> Answered (Reply 400 (error_body ''Missing required fields''))
      | Inr False \<Rightarrow>
          (case rbind (py_getitem data ''sku'') (query_product_by_sku f (new_session db)) of
             Inl e \<Rightarrow> Answered (fst (create_product_except e (new_session db)))
           | Inr (Some existing) \<Rightarrow>
               (case rbind (py_getitem data ''sku'') (\<lambda>sku.
                    Inr (Reply 409 (sku_exists_body (py_format sku)))) of
                  Inl e \<Rightarrow> Answered (fst (create_product_except e (new_session db)))
                | Inr r \<Rightarrow> Answered r)
           | Inr None \<Rightarrow> Checked f data))"

text \<open>
  Lines 22 to 57: the writes of the \<open>try\<close> block on the tables of this moment and the
  \<open>except\<close> clause of what they raise; the tables afterwards are the committed ones.
\<close>

definition write_request :: "faults \<Rightarrow> database \<Rightarrow> json \<Rightarrow> outcome \<times> database" where
  "write_request f db data =
     (case create_product_write f data (new_session db) of
        (Inr r, s) \<Rightarrow> (r, committed s)
      | (Inl e, s) \<Rightarrow> (case create_product_except e s of (r, s') \<Rightarrow> (r, committed s')))"

fun request_step :: "database \<Rightarrow> request_state \<Rightarrow> request_state \<times> database" where
  "request_step db (Received f data) = (check_request f db data, db)"
| "request_step db (Checked f data) =
     (Answered (fst (write_request f db data)), snd (write_request f db data))"
| "request_step db (Answered r) = (Answered r, db)"

section \<open>Schedules\<close>

text \<open>The request at position \<open>i\<close> takes its next step; a position out of range is skipped.\<close>

definition system_step :: "nat \<Rightarrow> system \<Rightarrow> system" where
  "system_step i sys =
     (if i < length (requests sys)
      then \<lparr>tables = snd (request_step (tables sys) (requests sys ! i)),
            requests = (requests sys)[i := fst (request_step (tables sys) (requests sys ! i))]\<rparr>
      else sys)"

fun system_run :: "nat list \<Rightarrow> system \<Rightarrow> system" where
  "system_run [] sys = sys"
| "system_run (i # sched) sys = system_run sched (system_step i sys)"

definition initial :: "database \<Rightarrow> (faults \<times> json) list \<Rightarrow> system" where
  "initial db reqs = \<lparr>tables = db, requests = map (\<lambda>(f, data). Received f data) reqs\<rparr>"

text \<open>The requests that write under a schedule, in the order of their writes.\<close>

fun writers :: "nat list \<Rightarrow> system \<Rightarrow> (faults \<times> json) list" where
  "writers [] sys = []"
| "writers (i # sched) sys =
     (if i < length (requests sys)
      then (case requests sys ! i of Checked f data \<Rightarrow> [(f, data)] | _ \<Rightarrow> [])
      else []) @ writers sched (system_step i sys)"

text \<open>The handler on one request after the other.\<close>

definition serial_run :: "(faults \<times> json) list \<Rightarrow> database \<Rightarrow> database" where
  "serial_run reqs db = foldl (\<lambda>db (f, data). snd (create_product f db data)) db reqs"

text \<open>A request that passed the checks has its fields, and its lookup did not fail.\<close>

fun checked_ok :: "request_state \<Rightarrow> bool" where
  "checked_ok (Checked f data) \<longleftrightarrow> missing_fields data = Inr False \<and> f Query = None"
| "checked_ok _ \<longleftrightarrow> True"

section \<open>Two requests for one SKU\<close>

text \<open>Two requests for the SKU \<open>G-1\<close>, which no product of \<open>sample_db\<close> has.\<close>

definition race :: system where
  "race = initial sample_db [(no_faults, sample_request), (no_faults, sample_request)]"

section \<open>The two steps and the handler\<close>

lemma write_request_reference: "write_request f db data = write_reference f db data"
  by (simp add: write_request_def create_product_except_eq
        create_product_write_reference [symmetric] split: prod.splits sum.splits)

lemma check_request_row:
  "check_request f db data =
     (case missing_fields data of
        Inl e \<Rightarrow> Answered (Unhandled e)
      | Inr True \<Rightarrow> Answered (Reply 400 (error_body ''Missing required fields''))
      | Inr False \<Rightarrow>
          (case rbind (py_getitem data ''sku'') (query_product_by_sku f (new_session db)) of
             Inl e \<Rightarrow> Answered (fst (create_product_except e (new_session db)))
           | Inr (Some p) \<Rightarrow> Answered (Reply 409 (sku_exists_body (p_sku p)))
           | Inr None \<Rightarrow> Checked f data))"
  by (auto simp: check_request_def dest: sku_lookup_Some
        split: sum.splits option.splits bool.splits)

lemma check_request_cases:
  obtains (answered) "check_request f db data = Answered (fst (create_product f db data))"
      and "snd (create_product f db data) = db"
  | (checked) "check_request f db data = Checked f data"
      and "create_product f db data = write_request f db data"
      and "missing_fields data = Inr False" and "f Query = None"
proof (cases "missing_fields data")
  case (Inl e)
  then show ?thesis
    by (intro answered) (simp_all add: check_request_row create_product_lookup_unfold)
next
  case (Inr missing)
  show ?thesis
  proof (cases "rbind (py_getitem data ''sku'') (query_product_by_sku f (new_session db))")
    case (Inl e)
    with Inr show ?thesis
      by (intro answered)
        (simp_all add: check_request_row create_product_lookup_unfold create_product_except_eq
          split: bool.splits)
  next
    case look: (Inr found)
    show ?thesis
    proof (cases "missing \<or> found \<noteq> None")
      case True
      with Inr look show ?thesis
        by (intro answered)
          (auto simp: check_request_row create_product_lookup_unfold split: bool.splits)
    next
      case False
      with Inr look have "f Query = None"
        by (auto simp: rbind_eq_Inr_iff query_product_by_sku_def)
      with False Inr look show ?thesis
        by (intro checked)
          (auto simp: check_request_row create_product_lookup_unfold write_request_reference
            create_product_write_reference)
    qed
  qed
qed

lemma write_request_cases:
  obtains (unchanged) "snd (write_request f db data) = db"
      and "status (fst (write_request f db data)) \<noteq> Some 201"
  | (written) k db' where "create_transaction f db data = Inr (k, db')"
      and "snd (write_request f db data) = db'"
  by (cases rule: write_reference_cases [of f db data])
    (auto simp: write_request_reference except_reply_not_created)

section \<open>Writes against the tables of the moment\<close>

lemma create_transaction_unused_sku:
  assumes "create_transaction f db data = Inr (k, db')" and "f Query = None"
  shows "rbind (py_getitem data ''sku'') (query_product_by_sku f (new_session db)) = Inr None"
proof -
  from assms(1) obtain product db1 where "build_product data = Inr product"
    and "insert_product product db = Inr (k, db1)"
    by (rule create_transaction_InrE)
  then obtain sku where "py_getitem data ''sku'' = Inr (JStr sku)"
    and "sku \<notin> set (map p_sku (products db))"
    by (auto simp: build_product_Inr_iff insert_product_Inr_iff)
  with assms(2) show ?thesis by (intro lookup_unused_sku)
qed

lemma write_request_serial:
  assumes "missing_fields data = Inr False" and "f Query = None"
  shows "write_request f db data = create_product f db data
    \<or> (snd (write_request f db data) = db \<and> snd (create_product f db data) = db
       \<and> status (fst (write_request f db data)) \<noteq> Some 201
       \<and> status (fst (create_product f db data)) \<noteq> Some 201)"
proof (cases rule: write_request_cases [of f db data])
  case unchanged
  with assms(1) show ?thesis
    by (auto simp: create_product_lookup_unfold write_request_reference
        create_product_write_reference except_reply_not_created
        split: sum.splits option.splits)
next
  case (written k db')
  from create_transaction_unused_sku [OF written(1) assms(2)] assms(1) show ?thesis
    by (simp add: create_product_lookup_unfold write_request_reference
        create_product_write_reference)
qed

lemma write_request_tables:
  assumes "missing_fields data = Inr False" and "f Query = None"
  shows "snd (write_request f db data) = snd (create_product f db data)"
  using write_request_serial [of data f db] assms by auto

lemma write_request_wf: "wf_db db \<Longrightarrow> wf_db (snd (write_request f db data))"
  by (simp add: write_request_reference write_reference_wf)

section \<open>Steps of the system\<close>


lemma request_step_wf:
  assumes "wf_db db"
  shows "wf_db (snd (request_step db q))"
proof (cases q)
  case (Checked f data)
  with write_request_wf [OF assms, of f data] show ?thesis
    by simp
qed (simp_all add: assms)

lemma length_system_step [simp]: "length (requests (system_step i sys)) = length (requests sys)"
  by (simp add: system_step_def)

lemma length_system_run [simp]: "length (requests (system_run sched sys)) = length (requests sys)"
  by (induction sched arbitrary: sys) simp_all

lemma system_step_wf: "wf_db (tables sys) \<Longrightarrow> wf_db (tables (system_step i sys))"
  using request_step_wf [of "tables sys" "requests sys ! i"]
  by (auto simp: system_step_def)

lemma system_step_other:
  "j \<noteq> i \<Longrightarrow> requests (system_step i sys) ! j = requests sys ! j"
  by (simp add: system_step_def)

lemma system_step_same:
  "i < length (requests sys) \<Longrightarrow>
   requests (system_step i sys) ! i = fst (request_step (tables sys) (requests sys ! i))"
  by (simp add: system_step_def)

lemma request_step_checked_ok: "checked_ok q \<Longrightarrow> checked_ok (fst (request_step db q))"
proof (cases q)
  case (Received f data)
  then show ?thesis
    by (cases rule: check_request_cases [of f db data]) simp_all
qed (simp_all split: prod.splits)

lemma system_step_checked_ok:
  assumes "list_all checked_ok (requests sys)"
  shows "list_all checked_ok (requests (system_step i sys))"
  using assms request_step_checked_ok [of "requests sys ! i" "tables sys"]
  by (auto simp: system_step_def list_all_iff split: prod.splits
        dest!: set_update_subset_insert [THEN subsetD])

section \<open>Runs of the system\<close>

lemma initial_checked_ok: "list_all checked_ok (requests (initial db reqs))"
  by (auto simp: initial_def list_all_iff)

lemma serial_run_simps [simp]:
  "serial_run [] db = db"
  "serial_run ((f, data) # reqs) db = serial_run reqs (snd (create_product f db data))"
  by (simp_all add: serial_run_def)

lemma serial_run_wf: "wf_db db \<Longrightarrow> wf_db (serial_run reqs db)"
  by (induction reqs arbitrary: db) (auto simp: create_product_keeps_wf)

lemma system_step_tables:
  assumes "list_all checked_ok (requests sys)"
  shows "serial_run (writers (i # sched) sys) (tables sys) =
    serial_run (writers sched (system_step i sys)) (tables (system_step i sys))"
proof (cases "i < length (requests sys)")
  case True
  with assms have ok: "checked_ok (requests sys ! i)"
    by (simp add: list_all_length)
  show ?thesis
  proof (cases "requests sys ! i")
    case (Checked f data)
    with ok write_request_tables [of data f "tables sys"] True show ?thesis
      by (simp add: system_step_def)
  qed (simp_all add: system_step_def True)
qed (simp add: system_step_def)

lemma system_run_tables:
  assumes "list_all checked_ok (requests sys)"
  shows "tables (system_run sched sys) = serial_run (writers sched sys) (tables sys)"
  using assms
proof (induction sched arbitrary: sys)
  case (Cons i sched)
  from Cons.prems have "list_all checked_ok (requests (system_step i sys))"
    by (rule system_step_checked_ok)
  then have "tables (system_run (i # sched) sys) =
    serial_run (writers sched (system_step i sys)) (tables (system_step i sys))"
    by (simp add: Cons.IH)
  with Cons.prems show ?case
    by (simp only: system_step_tables)
qed simp

section \<open>The handler alone and the handler in a race\<close>

lemma write_request_taken_sku:
  assumes "f Flush = None"
    and "py_getitem data ''name'' = Inr (JStr name)"
    and "py_getitem data ''sku'' = Inr (JStr sku)"
    and "rbind (py_getitem data ''price'') py_float = Inr price"
    and "py_getitem data ''warehouse_id'' = Inr (JInt wid)"
    and "sku \<in> set (map p_sku (products db))"
  shows "write_request f db data =
    (Reply 409 (error_body ''Database integrity error. SKU might already exist.''), db)"
  using assms create_transaction_taken_sku [where f = f and data = data and db = db]
  by (simp add: write_request_reference write_reference_def except_reply_def)

lemma sample_request_fields:
  "py_getitem sample_request ''name'' = Inr (JStr ''Gadget'')"
  "py_getitem sample_request ''sku'' = Inr (JStr ''G-1'')"
  "rbind (py_getitem sample_request ''price'') py_float = Inr (Finite 3)"
  "py_getitem sample_request ''warehouse_id'' = Inr (JInt 1)"
  "rbind (py_getitem sample_request ''initial_quantity'') py_int = Inr 8"
  by (simp_all add: fixture_defs float_of_int_exact)

lemma check_sample_request:
  "check_request no_faults sample_db sample_request = Checked no_faults sample_request"
  by (simp add: check_request_row create_product_defs db_defs fixture_defs)

lemma write_sample_request:
  "write_request no_faults sample_db sample_request =
     (Reply 201 (created_body (Some 2)), gadget_db)"
  by (simp add: write_request_reference write_reference_def create_transaction_def
      create_product_defs db_defs fixture_defs float_of_int_exact gadget_db_def)

lemma race_run:
  "system_run [0, 1, 0, 1] race =
     \<lparr>tables = gadget_db,
      requests =
        [Answered (Reply 201 (created_body (Some 2))),
         Answered
           (Reply 409 (error_body ''Database integrity error. SKU might already exist.''))]\<rparr>"
proof -
  have "write_request no_faults gadget_db sample_request =
      (Reply 409 (error_body ''Database integrity error. SKU might already exist.''), gadget_db)"
    using write_request_taken_sku [where f = no_faults and data = sample_request
        and db = gadget_db and sku = "''G-1''" and name = "''Gadget''" and price = "Finite 3"
        and wid = 1]
    by (simp add: sample_request_fields gadget_db_def no_faults_def)
  then show ?thesis
    by (simp add: race_def initial_def system_step_def check_sample_request
        write_sample_request)
qed

section \<open>Properties of overlapping requests\<close>


text \<open>
  C12. Overlapping requests keep the constraints of the schema: from well-formed tables,
  whatever the requests, their faults and the order of their steps, the tables are
  well-formed after every step.
\<close>

theorem system_run_wf:
  assumes "wf_db (tables sys)"
  shows "wf_db (tables (system_run sched sys))"
  using assms by (induction sched arbitrary: sys) (simp_all add: system_step_wf)

theorem system_run_wf_witness:
  "wf_db (tables race) \<and> wf_db (tables (system_run [0, 1, 0, 1] race))"
  using system_run_wf [of race "[0, 1, 0, 1]"] wf_sample_db
  by (simp add: race_def initial_def)

text \<open>
  C6. Overlapping requests are serializable: under every schedule the tables end as if
  the handler had run alone on each request that reached its writes, one after the
  other in the order of the writes. The requests answered at their checks change nothing.
\<close>

theorem system_run_serializable:
  "tables (system_run sched (initial db reqs)) =
     serial_run (writers sched (initial db reqs)) db"
  using system_run_tables [OF initial_checked_ok, of sched db reqs]
  by (simp add: initial_def)

text \<open>
  C9. A request that lost the race is refused by the unique index: when the SKU of a
  request that passed its lookup has been committed by another request before its
  writes, the flush raises \<open>IntegrityError\<close>, the answer is 409 with the message of
  that clause, and the tables stay as the other request left them.
\<close>

theorem request_step_lost_race:
  assumes "f Flush = None"
    and "py_getitem data ''name'' = Inr (JStr name)"
    and "py_getitem data ''sku'' = Inr (JStr sku)"
    and "rbind (py_getitem data ''price'') py_float = Inr price"
    and "py_getitem data ''warehouse_id'' = Inr (JInt wid)"
    and "sku \<in> set (map p_sku (products db))"
  shows "request_step db (Checked f data) =
    (Answered (Reply 409 (error_body ''Database integrity error. SKU might already exist.'')),
     db)"
  using assms write_request_taken_sku [where f = f and data = data and db = db] by simp

theorem request_step_lost_race_witness:
  "no_faults Flush = None
   \<and> py_getitem sample_request ''name'' = Inr (JStr ''Gadget'')
   \<and> py_getitem sample_request ''sku'' = Inr (JStr ''G-1'')
   \<and> rbind (py_getitem sample_request ''price'') py_float = Inr (Finite 3)
   \<and> py_getitem sample_request ''warehouse_id'' = Inr (JInt 1)
   \<and> ''G-1'' \<in> set (map p_sku (products gadget_db))
   \<and> request_step gadget_db (Checked no_faults sample_request) =
       (Answered (Reply 409 (error_body ''Database integrity error. SKU might already exist.'')),
        gadget_db)"
  using request_step_lost_race [where f = no_faults and data = sample_request
      and db = gadget_db and sku = "''G-1''" and name = "''Gadget''" and price = "Finite 3"
      and wid = 1]
  by (simp add: sample_request_fields gadget_db_def no_faults_def)

end
