(* ===== verification/Session_Protocol.thy ===== *)
theory Session_Protocol
  imports Create_Product
begin

text \<open>
  The session as a state machine. The calls a request handler makes on \<open>db.session\<close>
  are the steps; a run is a sequence of steps with the events it produced. The
  invariants of the unit of work are proved for every run, and the session that
  \<open>create_product\<close> leaves (\<open>src/fixedApiEnd.py\<close>, the \<open>try\<close> block of lines 16 to 46 with
  the rollback of the \<open>except\<close> clauses on lines 49, 52 and 55) is shown to be reached by
  such a run and to have nothing pending.
\<close>

section \<open>Steps and runs\<close>

datatype session_event =
    Added orm_obj
  | Flushed
  | FlushFailed exn
  | Committed
  | CommitFailed exn
  | RolledBack

inductive session_step :: "faults \<Rightarrow> session \<Rightarrow> session_event \<Rightarrow> session \<Rightarrow> bool" where
  add: "session_step f s (Added ob) (snd (session_add ob s))"
| flush: "session_flush f s = Inr s' \<Longrightarrow> session_step f s Flushed s'"
| flush_failed: "session_flush f s = Inl e \<Longrightarrow> session_step f s (FlushFailed e) s"
| commit: "session_commit f s = Inr s' \<Longrightarrow> session_step f s Committed s'"
| commit_failed: "session_commit f s = Inl e \<Longrightarrow> session_step f s (CommitFailed e) s"
| rollback: "session_step f s RolledBack (session_rollback s)"

inductive session_run :: "faults \<Rightarrow> session \<Rightarrow> session_event list \<Rightarrow> session \<Rightarrow> bool" where
  finished: "session_run f s [] s"
| further: "session_step f s ev s' \<Longrightarrow> session_run f s' evs s'' \<Longrightarrow> session_run f s (ev # evs) s''"

text \<open>Both copies of the tables satisfy the constraints of the schema.\<close>

definition session_inv :: "session \<Rightarrow> bool" where
  "session_inv s \<longleftrightarrow> wf_db (committed s) \<and> wf_db (working s)"

text \<open>Nothing is pending: the transaction's copy is the committed one.\<close>

definition settled :: "session \<Rightarrow> bool" where
  "settled s \<longleftrightarrow> working s = committed s"

inductive_simps session_step_Added: "session_step f s (Added ob) s'"
inductive_simps session_step_Flushed: "session_step f s Flushed s'"
inductive_simps session_step_FlushFailed: "session_step f s (FlushFailed e) s'"
inductive_simps session_step_Committed: "session_step f s Committed s'"
inductive_simps session_step_CommitFailed: "session_step f s (CommitFailed e) s'"
inductive_simps session_step_RolledBack: "session_step f s RolledBack s'"
inductive_simps session_run_Nil: "session_run f s [] s'"
inductive_simps session_run_Cons: "session_run f s (ev # evs) s'"
inductive_cases session_run_NilE: "session_run f s [] s'"

lemmas session_step_simps =
  session_step_Added session_step_Flushed session_step_FlushFailed session_step_Committed
  session_step_CommitFailed session_step_RolledBack

lemmas session_run_simps = session_run_Nil session_run_Cons session_step_simps

section \<open>Invariants of every run\<close>

lemma session_step_inv:
  assumes "session_step f s ev s'" and "session_inv s"
  shows "session_inv s'"
  using assms
proof (induction rule: session_step.induct)
  case (commit f s s')
  from session_commit_Inr(1,2) [OF commit(1)] commit(2) show ?case
    by (simp add: session_inv_def)
qed (auto simp: session_inv_def dest: session_flush_Inr(1,2))

lemma session_step_committed:
  assumes "session_step f s ev s'" and "ev \<noteq> Committed"
  shows "committed s' = committed s"
  using assms by (induction rule: session_step.induct) (auto dest: session_flush_Inr(1))

lemma session_step_settled:
  assumes "session_step f s ev s'" and "ev = Committed \<or> ev = RolledBack"
  shows "settled s'"
  using assms
  by (induction rule: session_step.induct) (auto simp: settled_def dest: session_commit_Inr(1))

lemma session_run_append:
  assumes "session_run f s evs s'" and "session_run f s' evs' s''"
  shows "session_run f s (evs @ evs') s''"
  using assms by (induction rule: session_run.induct) (auto intro: session_run.intros)

lemma session_run_single: "session_step f s ev s' \<Longrightarrow> session_run f s [ev] s'"
  by (auto intro: session_run.intros)

section \<open>The handler is a run\<close>

text \<open>The calls of the \<open>try\<close> block up to each point where it can leave.\<close>

lemma write_runs:
  "session_run f s [] s"
  "session_run f s [Added a] (snd (session_add a s))"
  "session_flush f (snd (session_add a s)) = Inr s2 \<Longrightarrow> session_run f s [Added a, Flushed] s2"
  "session_flush f (snd (session_add a s)) = Inr s2 \<Longrightarrow>
     session_run f s [Added a, Flushed, Added b] (snd (session_add b s2))"
  "session_flush f (snd (session_add a s)) = Inr s2 \<Longrightarrow>
   session_commit f (snd (session_add b s2)) = Inr s4 \<Longrightarrow>
     session_run f s [Added a, Flushed, Added b, Committed] s4"
  by (auto simp: session_run_simps)

lemma create_product_write_run:
  "\<exists>evs. session_run f s evs (snd (create_product_write f data s))"
  unfolding create_product_write_def
  by (auto simp: case_prod_unfold split: sum.splits intro!: exI intro: write_runs)

lemma create_product_try_run: "\<exists>evs. session_run f s evs (snd (create_product_try f data s))"
  using create_product_write_run [of f s data] write_runs(1) [of f s]
  by (auto simp: create_product_try_row split: sum.splits option.splits)

lemma create_product_session_run:
  "\<exists>evs. session_run f s evs (snd (create_product_session f data s))"
proof -
  obtain evs where run: "session_run f s evs (snd (create_product_try f data s))"
    using create_product_try_run by blast
  have "session_run f (snd (create_product_try f data s)) [RolledBack]
      (session_rollback (snd (create_product_try f data s)))"
    by (simp add: session_run_simps)
  with run have "session_run f s (evs @ [RolledBack])
      (session_rollback (snd (create_product_try f data s)))"
    by (rule session_run_append)
  with run session_run.finished [of f s] show ?thesis
    by (auto simp: create_product_session_def create_product_except_eq
          split: sum.splits bool.splits prod.splits)
qed

lemma create_product_try_settled:
  assumes "create_product_try f data s = (Inr r, s')" and "settled s"
  shows "settled s'"
  using assms
  by (auto simp: create_product_try_unfold settled_def split: sum.splits option.splits prod.splits
        dest: session_commit_Inr(1))

text \<open>The calls of the handler on the sample request, with a commit that succeeds or fails.\<close>

lemma sample_run:
  "session_run no_faults (new_session sample_db)
     [Added (ProductObj \<lparr>po_id = None, po_name = JStr ''Gadget'', po_sku = JStr ''G-1'',
        po_price = Finite 3, po_warehouse_id = JInt 1\<rparr>),
      Flushed,
      Added (InventoryObj \<lparr>io_id = None, io_product_id = Some 2, io_warehouse_id = JInt 1,
        io_quantity = 8\<rparr>),
      Committed]
     (snd (create_product_session no_faults sample_request (new_session sample_db)))"
  by (simp add: session_run_simps create_product_session_def create_product_try_unfold
        build_product_def build_inventory_def missing_fields_def required_fields_def
        db_defs fixture_defs float_of_int_exact)

lemma failed_commit_run:
  "session_run commit_fails (new_session sample_db)
     [Added (ProductObj \<lparr>po_id = None, po_name = JStr ''Gadget'', po_sku = JStr ''G-1'',
        po_price = Finite 3, po_warehouse_id = JInt 1\<rparr>),
      Flushed,
      Added (InventoryObj \<lparr>io_id = None, io_product_id = Some 2, io_warehouse_id = JInt 1,
        io_quantity = 8\<rparr>),
      CommitFailed OperationalError,
      RolledBack]
     (snd (create_product_session commit_fails sample_request (new_session sample_db)))"
  by (simp add: session_run_simps create_product_session_def create_product_try_unfold
        create_product_except_eq
        build_product_def build_inventory_def missing_fields_def required_fields_def
        db_defs fixture_defs float_of_int_exact)

section \<open>Properties of the protocol\<close>

text \<open>
  C17. Every exit of the handler releases the transaction: started on a session with
  nothing pending, the handler leaves a session with nothing pending, whether it
  committed, answered early or rolled back in a clause.
\<close>

theorem create_product_session_settled:
  assumes "settled s"
  shows "settled (snd (create_product_session f data s))"
proof (cases "missing_fields data")
  case (Inl e)
  with assms show ?thesis by (simp add: create_product_session_def)
next
  case (Inr missing)
  obtain r s' where run: "create_product_try f data s = (r, s')"
    by (cases "create_product_try f data s")
  show ?thesis
  proof (cases r)
    case (Inl e)
    with Inr run assms show ?thesis
      by (cases missing)
         (simp_all add: create_product_session_def create_product_except_eq settled_def)
  next
    case reply: (Inr b)
    with run assms have "settled s'"
      by (auto dest: create_product_try_settled)
    with Inr run reply assms show ?thesis
      by (cases missing) (simp_all add: create_product_session_def)
  qed
qed

theorem create_product_session_settled_witness:
  "settled (new_session sample_db) \<and>
   settled (snd (create_product_session commit_fails sample_request (new_session sample_db)))"
  using create_product_session_settled [of "new_session sample_db" commit_fails sample_request]
  by (simp add: settled_def)

text \<open>
  C28. Whatever a handler calls on the session, in whatever order, both copies of the
  tables keep the constraints of the schema.
\<close>

theorem session_run_inv:
  assumes "session_run f s evs s'" and "session_inv s"
  shows "session_inv s'"
  using assms by (induction rule: session_run.induct) (auto dest: session_step_inv)

theorem session_run_inv_witness:
  "session_run commit_fails (new_session sample_db)
     [Added (ProductObj \<lparr>po_id = None, po_name = JStr ''Gadget'', po_sku = JStr ''G-1'',
        po_price = Finite 3, po_warehouse_id = JInt 1\<rparr>),
      Flushed,
      Added (InventoryObj \<lparr>io_id = None, io_product_id = Some 2, io_warehouse_id = JInt 1,
        io_quantity = 8\<rparr>),
      CommitFailed OperationalError,
      RolledBack]
     (snd (create_product_session commit_fails sample_request (new_session sample_db))) \<and>
   session_inv (new_session sample_db) \<and>
   session_inv (snd (create_product_session commit_fails sample_request (new_session sample_db)))"
  using session_run_inv [OF failed_commit_run] wf_sample_db failed_commit_run
  by (simp add: session_inv_def)

text \<open>
  C29. Only a commit publishes: a run without a successful commit leaves the committed
  tables as they were, whatever it added and flushed.
\<close>

theorem session_run_committed:
  assumes "session_run f s evs s'" and "Committed \<notin> set evs"
  shows "committed s' = committed s"
  using assms by (induction rule: session_run.induct) (auto dest: session_step_committed)

theorem session_run_committed_witness:
  "session_run commit_fails (new_session sample_db)
     [Added (ProductObj \<lparr>po_id = None, po_name = JStr ''Gadget'', po_sku = JStr ''G-1'',
        po_price = Finite 3, po_warehouse_id = JInt 1\<rparr>),
      Flushed,
      Added (InventoryObj \<lparr>io_id = None, io_product_id = Some 2, io_warehouse_id = JInt 1,
        io_quantity = 8\<rparr>),
      CommitFailed OperationalError,
      RolledBack]
     (snd (create_product_session commit_fails sample_request (new_session sample_db))) \<and>
   committed (snd (create_product_session commit_fails sample_request (new_session sample_db))) =
     committed (new_session sample_db)"
  using session_run_committed [OF failed_commit_run] failed_commit_run
  by simp

text \<open>
  A run that ends with a commit or a rollback leaves nothing pending.
\<close>

theorem session_run_settled:
  assumes "session_run f s evs s'" and "evs \<noteq> []" and "last evs = Committed \<or> last evs = RolledBack"
  shows "settled s'"
  using assms
proof (induction rule: session_run.induct)
  case (finished f s)
  then show ?case by simp
next
  case (further f s ev s' evs s'')
  show ?case
  proof (cases evs)
    case Nil
    with further show ?thesis
      by (auto elim!: session_run_NilE dest: session_step_settled)
  next
    case (Cons a list)
    with further show ?thesis by simp
  qed
qed

theorem session_run_settled_witness:
  "session_run no_faults (new_session sample_db)
     [Added (ProductObj \<lparr>po_id = None, po_name = JStr ''Gadget'', po_sku = JStr ''G-1'',
        po_price = Finite 3, po_warehouse_id = JInt 1\<rparr>),
      Flushed,
      Added (InventoryObj \<lparr>io_id = None, io_product_id = Some 2, io_warehouse_id = JInt 1,
        io_quantity = 8\<rparr>),
      Committed]
     (snd (create_product_session no_faults sample_request (new_session sample_db))) \<and>
   settled (snd (create_product_session no_faults sample_request (new_session sample_db)))"
  using session_run_settled [OF sample_run] sample_run
  by simp

end
