(* ===== verification/Low_Stock.thy ===== *)
theory Low_Stock
  imports Fixtures
begin

text \<open>
  The low-stock alert handler, \<open>get_low_stock_alerts\<close> of
  \<open>src/low_stock_alert_APIEndpoint.py\<close>: the start of the sales window, the query that
  joins inventory, product, warehouse, product type, supplier and recent sales and sums
  the sales of each group, the loop that estimates the days until stock-out and builds
  one alert per group, and the response. The handler reads the tables and never writes
  them. The current time is an argument, in microseconds.
\<close>

section \<open>The sales window\<close>

definition recent_period_days :: int where
  "recent_period_days = 30"

definition timedelta_days :: "int \<Rightarrow> int" where
  "timedelta_days n = n * 86400000000"

definition activity_since_date :: "int \<Rightarrow> int" where
  "activity_since_date now = now - timedelta_days recent_period_days"

section \<open>The query\<close>

type_synonym joined_row =
  "inventory \<times> product \<times> warehouse \<times> product_type \<times> supplier option \<times> sales_activity"

type_synonym alert_row =
  "inventory \<times> product \<times> warehouse \<times> product_type \<times> supplier option \<times> int option"

text \<open>
  The outer join keeps a product without a matching supplier, with \<open>None\<close> in the
  supplier's place.
\<close>

definition outerjoin_supplier :: "database \<Rightarrow> product \<Rightarrow> supplier option list" where
  "outerjoin_supplier db p =
     (case filter (\<lambda>s. p_supplier_id p = Some (s_id s)) (suppliers db) of
        [] \<Rightarrow> [None]
      | ss \<Rightarrow> map Some ss)"

text \<open>The joins and the three filters of the query, before grouping.\<close>

definition low_stock_join :: "database \<Rightarrow> int \<Rightarrow> int \<Rightarrow> joined_row list" where
  "low_stock_join db company_id since =
     [(iv, p, w, pt, su, sa).
        iv \<leftarrow> inventories db,
        p \<leftarrow> products db, i_product_id iv = p_id p,
        w \<leftarrow> warehouses db, i_warehouse_id iv = w_id w,
        pt \<leftarrow> product_types db, p_product_type_id p = Some (pt_id pt),
        su \<leftarrow> outerjoin_supplier db p,
        sa \<leftarrow> sales_activities db,
        sa_product_id sa = i_product_id iv \<and> sa_warehouse_id sa = i_warehouse_id iv,
        w_company_id w = company_id,
        since \<le> sa_sale_date sa,
        i_quantity iv \<le> pt_low_stock_threshold pt]"

text \<open>The columns of \<open>group_by\<close>.\<close>

definition group_key :: "joined_row \<Rightarrow> int \<times> int \<times> int \<times> int \<times> int option" where
  "group_key r =
     (case r of (iv, p, w, pt, su, sa) \<Rightarrow>
        (i_id iv, p_id p, w_id w, pt_id pt, map_option s_id su))"

text \<open>
  Grouping: the rows with the key of the first row form the first group, and the rest
  is grouped in the same way. A group is its first row and the rows that follow it.
\<close>

fun group_rows :: "('r \<Rightarrow> 'k) \<Rightarrow> 'r list \<Rightarrow> ('r \<times> 'r list) list" where
  "group_rows key [] = []"
| "group_rows key (r # rs) =
     (r, filter (\<lambda>x. key x = key r) rs) # group_rows key (filter (\<lambda>x. key x \<noteq> key r) rs)"

text \<open>SQL's \<open>SUM\<close> skips \<open>NULL\<close> and is \<open>NULL\<close> when nothing is left.\<close>

definition sql_sum :: "int option list \<Rightarrow> int option" where
  "sql_sum vs = (case List.map_filter id vs of [] \<Rightarrow> None | ns \<Rightarrow> Some (sum_list ns))"

definition aggregate :: "joined_row \<times> joined_row list \<Rightarrow> alert_row" where
  "aggregate g =
     (case g of ((iv, p, w, pt, su, sa), rest) \<Rightarrow>
        (iv, p, w, pt, su,
         sql_sum (sa_quantity_sold sa # map (\<lambda>r. sa_quantity_sold (snd (snd (snd (snd (snd r)))))) rest)))"

definition low_stock_query :: "database \<Rightarrow> int \<Rightarrow> int \<Rightarrow> alert_row list" where
  "low_stock_query db company_id since =
     map aggregate (group_rows group_key (low_stock_join db company_id since))"

section \<open>Formatting\<close>

text \<open>
  The estimate: the average daily sales is \<open>total_sold / 30\<close> in floating point, and the
  days are the truncated quotient of the stock by it.
\<close>

definition days_until_stockout :: "int \<Rightarrow> int option \<Rightarrow> int option result" where
  "days_until_stockout quantity total_sold =
     (case total_sold of
        None \<Rightarrow> Inr None
      | Some t \<Rightarrow>
          if t \<noteq> 0 \<and> 0 < t then
            rbind (int_true_div t recent_period_days) (\<lambda>avg_daily_sales.
              if float_pos avg_daily_sales then
                rbind (float_of_int quantity) (\<lambda>q.
                rbind (float_div q avg_daily_sales) (\<lambda>d.
                rbind (int_of_float d) (\<lambda>n. Inr (Some n))))
              else Inr None)
          else Inr None)"

definition supplier_json :: "supplier option \<Rightarrow> json" where
  "supplier_json su =
     JObject [(''id'', case su of None \<Rightarrow> JNull | Some s \<Rightarrow> JInt (s_id s)),
              (''name'', case su of None \<Rightarrow> JNull | Some s \<Rightarrow> JStr (s_name s)),
              (''contact_email'',
                 case su of None \<Rightarrow> JNull | Some s \<Rightarrow> JStr (s_contact_email s))]"

definition format_alert :: "alert_row \<Rightarrow> json result" where
  "format_alert row =
     (case row of (inventory, product, warehouse, product_type, supplier, total_sold) \<Rightarrow>
        rbind (days_until_stockout (i_quantity inventory) total_sold) (\<lambda>days.
          Inr (JObject
            [(''product_id'', JInt (p_id product)),
             (''product_name'', JStr (p_name product)),
             (''sku'', JStr (p_sku product)),
             (''warehouse_id'', JInt (w_id warehouse)),
             (''warehouse_name'', JStr (w_name warehouse)),
             (''current_stock'', JInt (i_quantity inventory)),
             (''threshold'', JInt (pt_low_stock_threshold product_type)),
             (''days_until_stockout'', case days of None \<Rightarrow> JNull | Some n \<Rightarrow> JInt n),
             (''supplier'', supplier_json supplier)])))"

text \<open>The loop over the rows; an exception in one row ends it.\<close>

fun format_alerts :: "alert_row list \<Rightarrow> json list result" where
  "format_alerts [] = Inr []"
| "format_alerts (row # rows) =
     rbind (format_alert row) (\<lambda>a. rbind (format_alerts rows) (\<lambda>as. Inr (a # as)))"

section \<open>The handler\<close>

definition alerts_body :: "json list \<Rightarrow> json" where
  "alerts_body alerts =
     JObject [(''alerts'', JArray alerts), (''total_alerts'', JInt (int (length alerts)))]"

definition get_low_stock_alerts :: "faults \<Rightarrow> database \<Rightarrow> int \<Rightarrow> int \<Rightarrow> outcome" where
  "get_low_stock_alerts f db now company_id =
     (case rbind (check_fault f Query) (\<lambda>_.
             format_alerts (low_stock_query db company_id (activity_since_date now))) of
        Inl e \<Rightarrow> Unhandled e
      | Inr alerts \<Rightarrow> Reply 200 (alerts_body alerts))"

section \<open>Reference semantics\<close>

text \<open>
  What the query promises, stated without joins and grouping: for every inventory row,
  look up its product, its warehouse, the type and the supplier of the product by their
  keys; the row raises an alert when the warehouse belongs to the company, the stock is
  at or below the threshold of the type and the pair of product and warehouse has sales
  in the window; the total is the sum over these sales.
\<close>

definition recent_sales :: "database \<Rightarrow> inventory \<Rightarrow> int \<Rightarrow> sales_activity list" where
  "recent_sales db iv since =
     filter (\<lambda>sa. (sa_product_id sa = i_product_id iv \<and> sa_warehouse_id sa = i_warehouse_id iv) \<and>
                  since \<le> sa_sale_date sa) (sales_activities db)"

definition alert_entities ::
  "database \<Rightarrow> inventory \<Rightarrow> (product \<times> warehouse \<times> product_type \<times> supplier option) option" where
  "alert_entities db iv =
     (case List.find (\<lambda>p. i_product_id iv = p_id p) (products db) of
        None \<Rightarrow> None
      | Some p \<Rightarrow>
          (case List.find (\<lambda>w. i_warehouse_id iv = w_id w) (warehouses db) of
             None \<Rightarrow> None
           | Some w \<Rightarrow>
               (case List.find (\<lambda>pt. p_product_type_id p = Some (pt_id pt)) (product_types db) of
                  None \<Rightarrow> None
                | Some pt \<Rightarrow>
                    Some (p, w, pt,
                      List.find (\<lambda>s. p_supplier_id p = Some (s_id s)) (suppliers db)))))"

definition alert_rows :: "database \<Rightarrow> int \<Rightarrow> int \<Rightarrow> inventory \<Rightarrow> joined_row list" where
  "alert_rows db company_id since iv =
     (case alert_entities db iv of
        None \<Rightarrow> []
      | Some (p, w, pt, su) \<Rightarrow>
          if w_company_id w = company_id \<and> i_quantity iv \<le> pt_low_stock_threshold pt
          then map (\<lambda>sa. (iv, p, w, pt, su, sa)) (recent_sales db iv since) else [])"

definition alert_for :: "database \<Rightarrow> int \<Rightarrow> int \<Rightarrow> inventory \<Rightarrow> alert_row option" where
  "alert_for db company_id since iv =
     (case alert_entities db iv of
        None \<Rightarrow> None
      | Some (p, w, pt, su) \<Rightarrow>
          if w_company_id w = company_id \<and> i_quantity iv \<le> pt_low_stock_threshold pt \<and>
             recent_sales db iv since \<noteq> []
          then Some (iv, p, w, pt, su, sql_sum (map sa_quantity_sold (recent_sales db iv since)))
          else None)"

definition reference_alerts :: "database \<Rightarrow> int \<Rightarrow> int \<Rightarrow> alert_row list" where
  "reference_alerts db company_id since =
     List.map_filter (alert_for db company_id since) (inventories db)"

definition block_key :: "database \<Rightarrow> inventory \<Rightarrow> int \<times> int \<times> int \<times> int \<times> int option" where
  "block_key db iv =
     (case alert_entities db iv of
        None \<Rightarrow> (i_id iv, 0, 0, 0, None)
      | Some (p, w, pt, su) \<Rightarrow> (i_id iv, p_id p, w_id w, pt_id pt, map_option s_id su))"

lemmas low_stock_defs [handler_defs] =
  get_low_stock_alerts_def alerts_body_def format_alert_def supplier_json_def
  low_stock_query_def aggregate_def group_key_def low_stock_join_def outerjoin_supplier_def
  activity_since_date_def timedelta_days_def recent_period_days_def sql_sum_def

lemmas reference_defs =
  reference_alerts_def alert_for_def alert_entities_def recent_sales_def

section \<open>Rows of the join\<close>

lemma set_outerjoin_supplier:
  "su \<in> set (outerjoin_supplier db p) \<longleftrightarrow>
     (case su of
        None \<Rightarrow> \<forall>s \<in> set (suppliers db). p_supplier_id p \<noteq> Some (s_id s)
      | Some s \<Rightarrow> s \<in> set (suppliers db) \<and> p_supplier_id p = Some (s_id s))"
proof -
  let ?ss = "filter (\<lambda>s. p_supplier_id p = Some (s_id s)) (suppliers db)"
  have "set (outerjoin_supplier db p) = (if ?ss = [] then {None} else Some ` set ?ss)"
    by (cases ?ss) (simp_all add: outerjoin_supplier_def del: filter_eq_Cons_iff filter_empty_conv set_filter)
  then show ?thesis
    by (cases su) (auto simp: filter_empty_conv)
qed

lemma set_low_stock_join:
  "(iv, p, w, pt, su, sa) \<in> set (low_stock_join db company_id since) \<longleftrightarrow>
     iv \<in> set (inventories db) \<and> p \<in> set (products db) \<and> i_product_id iv = p_id p \<and>
     w \<in> set (warehouses db) \<and> i_warehouse_id iv = w_id w \<and>
     pt \<in> set (product_types db) \<and> p_product_type_id p = Some (pt_id pt) \<and>
     su \<in> set (outerjoin_supplier db p) \<and>
     sa \<in> set (sales_activities db) \<and>
     sa_product_id sa = i_product_id iv \<and> sa_warehouse_id sa = i_warehouse_id iv \<and>
     w_company_id w = company_id \<and> since \<le> sa_sale_date sa \<and>
     i_quantity iv \<le> pt_low_stock_threshold pt"
  by (auto simp: low_stock_join_def)

section \<open>Grouping\<close>

lemma group_rows_filter:
  "(r, rs) \<in> set (group_rows key xs) \<Longrightarrow> r # rs = filter (\<lambda>x. key x = key r) xs"
proof (induction key xs rule: group_rows.induct)
  case (1 key)
  then show ?case by simp
next
  case (2 key x xs)
  show ?case
  proof (cases "(r, rs) = (x, filter (\<lambda>y. key y = key x) xs)")
    case True
    then show ?thesis by simp
  next
    case False
    with "2.prems" have mem: "(r, rs) \<in> set (group_rows key (filter (\<lambda>y. key y \<noteq> key x) xs))"
      by auto
    from "2.IH" [OF mem] have eq: "r # rs = filter (\<lambda>y. key y = key r) (filter (\<lambda>y. key y \<noteq> key x) xs)" .
    then have "r \<in> set (filter (\<lambda>y. key y \<noteq> key x) xs)"
      by (metis list.set_intros(1) filter_is_subset subsetD)
    then have "key r \<noteq> key x" by simp
    with eq show ?thesis
      by (auto simp: filter_filter intro: filter_cong)
  qed
qed

lemma group_rows_subset:
  assumes "(r, rs) \<in> set (group_rows key xs)"
  shows "r \<in> set xs" and "set rs \<subseteq> set xs" and "\<forall>x \<in> set rs. key x = key r"
proof -
  from group_rows_filter [OF assms] have "set (r # rs) = {x \<in> set xs. key x = key r}"
    by (metis set_filter)
  then show "r \<in> set xs" and "set rs \<subseteq> set xs" and "\<forall>x \<in> set rs. key x = key r"
    by auto
qed

lemma group_rows_keys: "set (map (\<lambda>g. key (fst g)) (group_rows key xs)) = key ` set xs"
  by (induction key xs rule: group_rows.induct) auto

lemma group_rows_distinct: "distinct (map (\<lambda>g. key (fst g)) (group_rows key xs))"
proof (induction key xs rule: group_rows.induct)
  case (1 key)
  then show ?case by simp
next
  case (2 key x xs)
  have "key x \<notin> key ` set (filter (\<lambda>y. key y \<noteq> key x) xs)"
    by auto
  with 2 show ?case
    by (simp add: group_rows_keys [simplified])
qed

lemma length_group_rows_le: "length (group_rows key xs) \<le> length xs"
proof (induction key xs rule: group_rows.induct)
  case (1 key)
  then show ?case by simp
next
  case (2 key x xs)
  have "length (filter (\<lambda>y. key y \<noteq> key x) xs) \<le> length xs"
    by (rule length_filter_le)
  with 2 show ?case by (simp del: length_filter_le)
qed

section \<open>Rows of the result\<close>

lemma low_stock_query_rowE:
  assumes "(iv, p, w, pt, su, total_sold) \<in> set (low_stock_query db c since)"
  obtains sa rest where
    "(iv, p, w, pt, su, sa) # rest =
       filter (\<lambda>r. group_key r = group_key (iv, p, w, pt, su, sa)) (low_stock_join db c since)"
    and "total_sold = sql_sum (map (\<lambda>r. sa_quantity_sold (snd (snd (snd (snd (snd r))))))
            ((iv, p, w, pt, su, sa) # rest))"
proof -
  from assms obtain r rest where g: "(r, rest) \<in> set (group_rows group_key (low_stock_join db c since))"
    and row: "(iv, p, w, pt, su, total_sold) = aggregate (r, rest)"
    by (auto simp: low_stock_query_def)
  from row obtain sa where r: "r = (iv, p, w, pt, su, sa)"
    by (cases r) (auto simp: aggregate_def)
  from group_rows_filter [OF g] r have "(iv, p, w, pt, su, sa) # rest =
       filter (\<lambda>r. group_key r = group_key (iv, p, w, pt, su, sa)) (low_stock_join db c since)"
    by simp
  moreover from row r have "total_sold =
      sql_sum (map (\<lambda>r. sa_quantity_sold (snd (snd (snd (snd (snd r))))))
        ((iv, p, w, pt, su, sa) # rest))"
    by (simp add: aggregate_def)
  ultimately show thesis
    by (rule that)
qed

lemma low_stock_query_joined:
  assumes "(iv, p, w, pt, su, total_sold) \<in> set (low_stock_query db c since)"
  obtains sa where "(iv, p, w, pt, su, sa) \<in> set (low_stock_join db c since)"
proof -
  from assms obtain sa rest where
    "(iv, p, w, pt, su, sa) # rest =
       filter (\<lambda>r. group_key r = group_key (iv, p, w, pt, su, sa)) (low_stock_join db c since)"
    by (rule low_stock_query_rowE)
  then have "(iv, p, w, pt, su, sa) \<in> set (filter (\<lambda>r. group_key r = group_key (iv, p, w, pt, su, sa)) (low_stock_join db c since))"
    by (metis list.set_intros(1))
  then show thesis
    by (intro that [of sa]) simp
qed

section \<open>Grouping a list of blocks\<close>

lemma group_rows_first_block:
  assumes "\<forall>x \<in> set rs. key x = key r" and "\<forall>x \<in> set rest. key x \<noteq> key r"
  shows "group_rows key (r # rs @ rest) = (r, rs) # group_rows key rest"
proof -
  from assms(1) have "filter (\<lambda>x. key x = key r) rs = rs"
    and "filter (\<lambda>x. key x \<noteq> key r) rs = []"
    by (simp_all add: filter_empty_conv filter_id_conv)
  moreover from assms(2) have "filter (\<lambda>x. key x = key r) rest = []"
    and "filter (\<lambda>x. key x \<noteq> key r) rest = rest"
    by (simp_all add: filter_empty_conv filter_id_conv)
  ultimately show ?thesis
    by (simp only: group_rows.simps filter_append append_Nil2 append_Nil)
qed

lemma group_rows_concat_blocks:
  assumes "distinct (map f bs)"
    and "\<forall>b \<in> set bs. \<forall>x \<in> set (rows b). key x = k b \<and> proj (k b) = f b"
  shows "group_rows key (concat (map rows bs)) =
         map (\<lambda>b. (hd (rows b), tl (rows b))) (filter (\<lambda>b. rows b \<noteq> []) bs)"
  using assms
proof (induction bs)
  case Nil
  then show ?case by simp
next
  case (Cons b bs)
  from Cons.prems have IH: "group_rows key (concat (map rows bs)) =
         map (\<lambda>b. (hd (rows b), tl (rows b))) (filter (\<lambda>b. rows b \<noteq> []) bs)"
    by (intro Cons.IH) simp_all
  show ?case
  proof (cases "rows b")
    case Nil
    with IH show ?thesis by simp
  next
    case rows: (Cons r rs)
    let ?rest = "concat (map rows bs)"
    from Cons.prems(2) rows have r: "key r = k b" "proj (k b) = f b"
      and same: "\<forall>x \<in> set rs. key x = key r"
      by simp_all
    have "key x \<noteq> key r" if "x \<in> set ?rest" for x
    proof -
      from that obtain b' where b': "b' \<in> set bs" "x \<in> set (rows b')"
        by auto
      with Cons.prems(2) have "key x = k b'" "proj (k b') = f b'"
        by simp_all
      moreover from b'(1) Cons.prems(1) have "f b' \<noteq> f b"
        by (auto simp: image_iff)
      ultimately show ?thesis
        using r by auto
    qed
    with same have "group_rows key (r # rs @ ?rest) = (r, rs) # group_rows key ?rest"
      by (intro group_rows_first_block) simp_all
    with rows IH show ?thesis
      by simp
  qed
qed

section \<open>The query computes the reference\<close>

lemma outerjoin_supplier_unique:
  assumes "distinct (map s_id (suppliers db))"
  shows "outerjoin_supplier db p =
         [List.find (\<lambda>s. p_supplier_id p = Some (s_id s)) (suppliers db)]"
  by (simp add: outerjoin_supplier_def filter_Some_key [OF assms] split: option.splits)

lemma low_stock_join_blocks:
  assumes "wf_keys db"
  shows "low_stock_join db company_id since =
         concat (map (alert_rows db company_id since) (inventories db))"
proof -
  from assms have d: "distinct (map p_id (products db))" "distinct (map w_id (warehouses db))"
    "distinct (map pt_id (product_types db))" "distinct (map s_id (suppliers db))"
    by (simp_all add: wf_keys_def)
  show ?thesis
    unfolding low_stock_join_def alert_rows_def alert_entities_def recent_sales_def
    by (simp only: concat_map_if_key [OF d(1)] concat_map_if_key [OF d(2)]
          concat_map_if_Some_key [OF d(3)] outerjoin_supplier_unique [OF d(4)]
          concat_map_guards)
       (auto intro!: arg_cong [where f = concat] split: option.splits)
qed

lemma aggregate_block:
  "aggregate ((iv, p, w, pt, su, sa), map (\<lambda>sa. (iv, p, w, pt, su, sa)) sas) =
     (iv, p, w, pt, su, sql_sum (map sa_quantity_sold (sa # sas)))"
  by (simp add: aggregate_def comp_def)

lemma alert_for_rows:
  "alert_for db c since iv =
     (if alert_rows db c since iv = [] then None
      else Some (aggregate (hd (alert_rows db c since iv), tl (alert_rows db c since iv))))"
  by (cases "recent_sales db iv since")
     (auto simp: alert_for_def alert_rows_def aggregate_block split: option.splits)

lemma alert_rows_key:
  "r \<in> set (alert_rows db c since iv) \<Longrightarrow>
     group_key r = block_key db iv \<and> fst (block_key db iv) = i_id iv"
  by (auto simp: alert_rows_def block_key_def group_key_def split: option.splits if_splits)

lemma low_stock_query_eq:
  assumes "wf_keys db"
  shows "low_stock_query db c since = reference_alerts db c since"
proof -
  let ?rows = "alert_rows db c since"
  from assms have "distinct (map i_id (inventories db))"
    by (simp add: wf_keys_def)
  then have "group_rows group_key (concat (map ?rows (inventories db))) =
      map (\<lambda>iv. (hd (?rows iv), tl (?rows iv))) (filter (\<lambda>iv. ?rows iv \<noteq> []) (inventories db))"
    by (rule group_rows_concat_blocks [where k = "block_key db" and proj = fst])
       (simp add: alert_rows_key)
  then show ?thesis
    by (simp add: low_stock_query_def low_stock_join_blocks [OF assms] reference_alerts_def
          alert_for_rows [abs_def] map_filter_if_None)
qed

lemma alert_for_fst: "alert_for db c since iv = Some row \<Longrightarrow> fst row = iv"
  by (auto simp: alert_for_def split: option.splits if_splits)

lemma set_reference_alerts:
  "row \<in> set (reference_alerts db c since) \<longleftrightarrow>
     (\<exists>iv \<in> set (inventories db). alert_for db c since iv = Some row)"
  by (simp add: reference_alerts_def set_map_filter)

lemma map_fst_reference_alerts:
  "map fst (reference_alerts db c since) =
     filter (\<lambda>iv. alert_for db c since iv \<noteq> None) (inventories db)"
  unfolding reference_alerts_def by (rule map_map_filter_inverse) (rule alert_for_fst)

lemma alert_entities_SomeI:
  assumes "wf_keys db"
    and "p \<in> set (products db)" and "i_product_id iv = p_id p"
    and "w \<in> set (warehouses db)" and "i_warehouse_id iv = w_id w"
    and "pt \<in> set (product_types db)" and "p_product_type_id p = Some (pt_id pt)"
  shows "alert_entities db iv =
     Some (p, w, pt, List.find (\<lambda>s. p_supplier_id p = Some (s_id s)) (suppliers db))"
proof -
  from assms(1) have d: "distinct (map p_id (products db))" "distinct (map w_id (warehouses db))"
    "distinct (map pt_id (product_types db))"
    by (simp_all add: wf_keys_def)
  from d(1) assms(2,3) have "List.find (\<lambda>p. i_product_id iv = p_id p) (products db) = Some p"
    by (intro find_key [where f = p_id]) simp_all
  moreover from d(2) assms(4,5)
  have "List.find (\<lambda>w. i_warehouse_id iv = w_id w) (warehouses db) = Some w"
    by (intro find_key [where f = w_id]) simp_all
  moreover from d(3) assms(6,7)
  have "List.find (\<lambda>pt. p_product_type_id p = Some (pt_id pt)) (product_types db) = Some pt"
    by (intro find_Some_key) simp_all
  ultimately show ?thesis
    by (simp add: alert_entities_def)
qed

lemma stock_query:
  "low_stock_query stock_db 7 (activity_since_date sample_now) =
     [(widget_main, widget, wh_main, type_standard, Some acme, Some 60),
      (bolt_east, bolt, wh_east, type_standard, None, Some 6)]"
  by (simp add: low_stock_defs fixture_defs row_defs List.map_filter_simps)

lemma stock_query_other:
  "low_stock_query stock_db 8 (activity_since_date sample_now) =
     [(widget_other, widget, wh_other, type_standard, Some acme, Some 15)]"
  by (simp add: low_stock_defs fixture_defs row_defs List.map_filter_simps)

section \<open>A product without a type joins nothing\<close>

lemma low_stock_join_untyped_product:
  assumes "p_product_type_id p = None"
    and "p_id p \<notin> i_product_id ` set (inventories db)"
    and "p_id p \<notin> p_id ` set (products db)"
    and "i_product_id i = p_id p"
  shows "low_stock_join (db\<lparr>products := products db @ [p], inventories := inventories db @ [i]\<rparr>)
           c since = low_stock_join db c since"
proof -
  let ?db' = "db\<lparr>products := products db @ [p], inventories := inventories db @ [i]\<rparr>"
  have su: "outerjoin_supplier ?db' q = outerjoin_supplier db q" for q
    by (simp add: outerjoin_supplier_def)
  from assms(2) have old: "iv \<in> set (inventories db) \<Longrightarrow> i_product_id iv \<noteq> p_id p" for iv
    by (metis imageI)
  show ?thesis
    unfolding low_stock_join_def
    using assms(3) by (auto simp: su assms(1) assms(4) old image_iff cong: if_cong map_cong)
qed

section \<open>Properties of the query\<close>

text \<open>
  C13. Every row of the result joins rows of the tables: its inventory row is in the
  inventory table, its product is the product of that row, its warehouse the warehouse
  of that row, its type the type of the product, and its supplier the supplier of the
  product or none when no supplier matches.
\<close>

theorem low_stock_query_sound:
  assumes "(iv, p, w, pt, su, total_sold) \<in> set (low_stock_query db c since)"
  shows "iv \<in> set (inventories db) \<and> p \<in> set (products db) \<and> i_product_id iv = p_id p \<and>
         w \<in> set (warehouses db) \<and> i_warehouse_id iv = w_id w \<and>
         pt \<in> set (product_types db) \<and> p_product_type_id p = Some (pt_id pt) \<and>
         su \<in> set (outerjoin_supplier db p)"
  using assms by (rule low_stock_query_joined) (simp add: set_low_stock_join)

theorem low_stock_query_sound_witness:
  "(widget_main, widget, wh_main, type_standard, Some acme, Some 60)
     \<in> set (low_stock_query stock_db 7 (activity_since_date sample_now)) \<and>
   widget_main \<in> set (inventories stock_db) \<and> widget \<in> set (products stock_db) \<and>
   i_product_id widget_main = p_id widget \<and> wh_main \<in> set (warehouses stock_db) \<and>
   i_warehouse_id widget_main = w_id wh_main \<and> type_standard \<in> set (product_types stock_db) \<and>
   p_product_type_id widget = Some (pt_id type_standard) \<and>
   Some acme \<in> set (outerjoin_supplier stock_db widget)"
  using low_stock_query_sound [of widget_main widget wh_main type_standard "Some acme" "Some 60"
      stock_db 7 "activity_since_date sample_now"]
  by (simp add: stock_query)

text \<open>
  C14. The alerts are scoped to the requested company: the warehouse of every row of the
  result belongs to it.
\<close>

theorem low_stock_company_scoped:
  assumes "(iv, p, w, pt, su, total_sold) \<in> set (low_stock_query db c since)"
  shows "w_company_id w = c"
  using assms by (rule low_stock_query_joined) (simp add: set_low_stock_join)

theorem low_stock_company_scoped_witness:
  "(widget_other, widget, wh_other, type_standard, Some acme, Some 15)
     \<in> set (low_stock_query stock_db 8 (activity_since_date sample_now)) \<and>
   w_company_id wh_other = 8"
  using low_stock_company_scoped [of widget_other widget wh_other type_standard "Some acme"
      "Some 15" stock_db 8 "activity_since_date sample_now"]
  by (simp add: stock_query_other)

text \<open>
  C15. An item above its threshold never appears: the stock of every row of the result
  is at or below the threshold of the row's product type.
\<close>

theorem low_stock_below_threshold:
  assumes "(iv, p, w, pt, su, total_sold) \<in> set (low_stock_query db c since)"
  shows "i_quantity iv \<le> pt_low_stock_threshold pt"
  using assms by (rule low_stock_query_joined) (simp add: set_low_stock_join)

theorem low_stock_below_threshold_witness:
  "(bolt_east, bolt, wh_east, type_standard, None, Some 6)
     \<in> set (low_stock_query stock_db 7 (activity_since_date sample_now)) \<and>
   i_quantity bolt_east \<le> pt_low_stock_threshold type_standard"
  using low_stock_below_threshold [of bolt_east bolt wh_east type_standard None "Some 6"
      stock_db 7 "activity_since_date sample_now"]
  by (simp add: stock_query)

text \<open>
  C16. An item without a sale in the window never appears, whatever its stock: every row
  of the result has a sale of its product in its warehouse on or after the start of the
  window.
\<close>

theorem low_stock_recent_sale:
  assumes "(iv, p, w, pt, su, total_sold) \<in> set (low_stock_query db c since)"
  shows "recent_sales db iv since \<noteq> []"
  using assms
  by (rule low_stock_query_joined) (auto simp: set_low_stock_join recent_sales_def filter_empty_conv)

theorem low_stock_recent_sale_witness:
  "(widget_main, widget, wh_main, type_standard, Some acme, Some 60)
     \<in> set (low_stock_query stock_db 7 (activity_since_date sample_now)) \<and>
   recent_sales stock_db widget_main (activity_since_date sample_now) \<noteq> []"
  using low_stock_recent_sale [of widget_main widget wh_main type_standard "Some acme" "Some 60"
      stock_db 7 "activity_since_date sample_now"]
  by (simp add: stock_query)

text \<open>
  C7. With unique keys the result misses nothing: an inventory row of a warehouse of the
  company, with stock at or below the threshold of its product's type and a sale in the
  window, has a row in the result, and the total of that row is the sum over the sales
  of the window.
\<close>

theorem low_stock_query_complete:
  assumes "wf_keys db"
    and "iv \<in> set (inventories db)"
    and "p \<in> set (products db)" and "i_product_id iv = p_id p"
    and "w \<in> set (warehouses db)" and "i_warehouse_id iv = w_id w"
    and "pt \<in> set (product_types db)" and "p_product_type_id p = Some (pt_id pt)"
    and "w_company_id w = c" and "i_quantity iv \<le> pt_low_stock_threshold pt"
    and "recent_sales db iv since \<noteq> []"
  shows "\<exists>su. (iv, p, w, pt, su, sql_sum (map sa_quantity_sold (recent_sales db iv since)))
            \<in> set (low_stock_query db c since)"
proof -
  from assms have "alert_for db c since iv =
      Some (iv, p, w, pt, List.find (\<lambda>s. p_supplier_id p = Some (s_id s)) (suppliers db),
            sql_sum (map sa_quantity_sold (recent_sales db iv since)))"
    by (simp add: alert_for_def alert_entities_SomeI)
  with assms(1,2) show ?thesis
    by (auto simp: low_stock_query_eq set_reference_alerts)
qed

theorem low_stock_query_complete_witness:
  "wf_keys stock_db \<and> bolt_east \<in> set (inventories stock_db) \<and>
   bolt \<in> set (products stock_db) \<and> i_product_id bolt_east = p_id bolt \<and>
   wh_east \<in> set (warehouses stock_db) \<and> i_warehouse_id bolt_east = w_id wh_east \<and>
   type_standard \<in> set (product_types stock_db) \<and>
   p_product_type_id bolt = Some (pt_id type_standard) \<and> w_company_id wh_east = 7 \<and>
   i_quantity bolt_east \<le> pt_low_stock_threshold type_standard \<and>
   recent_sales stock_db bolt_east (activity_since_date sample_now) \<noteq> [] \<and>
   (\<exists>su. (bolt_east, bolt, wh_east, type_standard, su,
           sql_sum (map sa_quantity_sold
             (recent_sales stock_db bolt_east (activity_since_date sample_now))))
         \<in> set (low_stock_query stock_db 7 (activity_since_date sample_now)))"
proof -
  have facts: "bolt_east \<in> set (inventories stock_db)" "bolt \<in> set (products stock_db)"
    "i_product_id bolt_east = p_id bolt" "wh_east \<in> set (warehouses stock_db)"
    "i_warehouse_id bolt_east = w_id wh_east" "type_standard \<in> set (product_types stock_db)"
    "p_product_type_id bolt = Some (pt_id type_standard)" "w_company_id wh_east = 7"
    "i_quantity bolt_east \<le> pt_low_stock_threshold type_standard"
    "recent_sales stock_db bolt_east (activity_since_date sample_now) \<noteq> []"
    by (simp_all add: stock_db_def row_defs recent_sales_def activity_since_date_def
          timedelta_days_def recent_period_days_def sample_now_def day_def)
  from low_stock_query_complete [OF wf_keys_stock_db facts] wf_keys_stock_db facts
  show ?thesis by blast
qed

text \<open>
  C10. With unique keys the total of a row is the sum of the quantities of all sales of
  the row's product in the row's warehouse within the window, and of nothing else.
\<close>

theorem low_stock_total_sold:
  assumes "wf_keys db"
    and "(iv, p, w, pt, su, total_sold) \<in> set (low_stock_query db c since)"
  shows "total_sold = sql_sum (map sa_quantity_sold (recent_sales db iv since))"
  using assms
  by (auto simp: low_stock_query_eq set_reference_alerts alert_for_def
        split: option.splits if_splits)

theorem low_stock_total_sold_witness:
  "wf_keys stock_db \<and>
   (bolt_east, bolt, wh_east, type_standard, None, Some 6)
     \<in> set (low_stock_query stock_db 7 (activity_since_date sample_now)) \<and>
   Some 6 = sql_sum (map sa_quantity_sold
     (recent_sales stock_db bolt_east (activity_since_date sample_now)))"
  using low_stock_total_sold [of stock_db bolt_east bolt wh_east type_standard None "Some 6" 7
      "activity_since_date sample_now"] wf_keys_stock_db
  by (simp add: stock_query)

text \<open>
  C32. With unique keys there is at most one alert for a pair of product and warehouse.
\<close>

theorem low_stock_one_alert_per_item:
  assumes "wf_keys db"
  shows "distinct (map (\<lambda>row. (i_product_id (fst row), i_warehouse_id (fst row)))
            (low_stock_query db c since))"
proof -
  from assms have "distinct (map (\<lambda>i. (i_product_id i, i_warehouse_id i)) (inventories db))"
    by (simp add: wf_keys_def)
  then have "distinct (map (\<lambda>i. (i_product_id i, i_warehouse_id i))
      (map fst (reference_alerts db c since)))"
    unfolding map_fst_reference_alerts by (rule distinct_map_filter)
  with assms show ?thesis
    by (simp add: low_stock_query_eq comp_def)
qed

theorem low_stock_one_alert_per_item_witness:
  "wf_keys stock_db \<and>
   distinct (map (\<lambda>row. (i_product_id (fst row), i_warehouse_id (fst row)))
     (low_stock_query stock_db 7 (activity_since_date sample_now)))"
  using low_stock_one_alert_per_item [of stock_db 7 "activity_since_date sample_now"]
    wf_keys_stock_db
  by simp

end
