(* ===== verification/Stockout.thy ===== *)
theory Stockout
  imports Low_Stock
begin

text \<open>
  The estimate of the days until stock-out and the response of the low-stock handler
  (\<open>src/low_stock_alert_APIEndpoint.py\<close>, lines 43 to 66): when the estimate is
  defined, what it is for quantities of 64 bits, and that the handler answers with one
  alert per row of the query.
\<close>

section \<open>Rows within 64 bits\<close>

text \<open>
  The stock of the row and the total of its sales are within the range of a signed
  integer of 64 bits, the widest integer column of a relational store.
\<close>

definition int64_row :: "alert_row \<Rightarrow> bool" where
  "int64_row row =
     (case row of (iv, p, w, pt, su, total_sold) \<Rightarrow>
        \<bar>i_quantity iv\<bar> \<le> 2 ^ 63 \<and>
        (case total_sold of None \<Rightarrow> True | Some t \<Rightarrow> t \<le> 2 ^ 63))"

section \<open>The estimate within 64 bits\<close>

lemma avg_daily_sales_bounds:
  assumes "0 < t" and "t \<le> 2 ^ 63"
  shows "pow2 (- 5) \<le> round64 (of_int t / 30)" and "\<bar>of_int t / 30\<bar> \<le> pow2 63"
proof -
  from assms(1) have "1 \<le> rat_of_int t" by simp
  then have "pow2 (- 5) \<le> of_int t / 30"
    by (simp add: pow2_def power_int_minus field_simps)
  then show "pow2 (- 5) \<le> round64 (of_int t / 30)"
    by (rule round64_ge_pow2) simp
  from assms have "\<bar>rat_of_int t\<bar> \<le> pow2 (int 63)"
    by (intro abs_of_int_le_pow2) simp
  with assms(1) show "\<bar>of_int t / 30\<bar> \<le> pow2 63"
    by simp
qed

lemma stock_quotient_bound:
  assumes "\<bar>q\<bar> \<le> pow2 63" and "pow2 (- 5) \<le> a"
  shows "\<bar>q / a\<bar> \<le> pow2 68"
proof -
  from assms(2) have a: "0 < a"
    using pow2_pos [of "- 5"] by linarith
  have "\<bar>q\<bar> \<le> pow2 63 * 1" using assms(1) by simp
  also have "pow2 63 * 1 \<le> pow2 63 * (pow2 5 * a)"
  proof (rule mult_left_mono)
    have "pow2 5 * pow2 (- 5) \<le> pow2 5 * a"
      using assms(2) by (intro mult_left_mono) simp_all
    then show "1 \<le> pow2 5 * a"
      by (simp add: pow2_add [symmetric])
  qed simp
  also have "\<dots> = pow2 68 * a"
    by (simp add: pow2_add [symmetric] mult.assoc [symmetric])
  finally have "\<bar>q\<bar> / a \<le> pow2 68"
    using a by (simp add: pos_divide_le_eq)
  with a show ?thesis by simp
qed

lemma days_until_stockout_Some:
  assumes "0 < t" and "t \<le> 2 ^ 63" and "\<bar>q\<bar> \<le> 2 ^ 63"
  shows "days_until_stockout q (Some t) =
     Inr (Some (trunc (round64 (round64 (of_int q) / round64 (of_int t / 30)))))"
proof -
  let ?a = "round64 (of_int t / 30)" and ?q = "round64 (of_int q)"
  note avg = avg_daily_sales_bounds [OF assms(1,2)]
  from avg(2) have div: "int_true_div t 30 = Inr (Finite ?a)"
    using int_true_div_finite [of 30 t 63] by simp
  from avg(1) have pos: "0 < ?a"
    using pow2_pos [of "- 5"] by linarith
  from assms(3) have q: "\<bar>rat_of_int q\<bar> \<le> pow2 63"
    using abs_of_int_le_pow2 [of q 63] by simp
  then have fq: "float_of_int q = Inr (Finite ?q)"
    by (rule float_of_int_finite) simp
  from q have "\<bar>?q\<bar> \<le> pow2 63"
    by (rule round64_abs_le_pow2) simp
  then have "\<bar>?q / ?a\<bar> \<le> pow2 68"
    using avg(1) by (rule stock_quotient_bound)
  then have "float_of_rat (?q / ?a) = Finite (round64 (?q / ?a))"
    by (rule float_of_rat_finite) simp
  with pos have "float_div (Finite ?q) (Finite ?a) = Inr (Finite (round64 (?q / ?a)))"
    by (simp add: float_div_def)
  with assms(1) div pos fq show ?thesis
    by (simp add: days_until_stockout_def recent_period_days_def float_pos_def int_of_float_def)
qed

section \<open>Evaluations\<close>

lemma round64_23_30: "round64 (23 / 30) = 6905519428634761 * pow2 (- 53)"
  using round64_eqI [of "- 1" "23 / 30" 6905519428634761]
  by (simp add: pow2_def power_int_minus)

lemma round64_23_avg:
  "round64 (23 / (6905519428634761 * pow2 (- 53))) = 8444249301319679 * pow2 (- 48)"
  using round64_eqI [of 4 "23 / (6905519428634761 * pow2 (- 53))" 8444249301319679]
  by (simp add: pow2_def power_int_minus)

lemma days_until_stockout_example: "days_until_stockout 5 (Some 60) = Inr (Some 2)"
proof -
  have r: "round64 (of_int 5) = of_int 5" "round64 (of_int 2) = of_int 2"
    by (rule round64_of_int_exact, simp)+
  have "round64 (of_int 5 * pow2 (- 1)) = of_int 5 * pow2 (- 1)"
    by (rule round64_dyadic_exact) simp_all
  then have d: "round64 (5 / 2) = 5 / 2"
    by (simp add: pow2_def power_int_minus)
  have t: "trunc (5 / 2) = 2"
    by (rule trunc_eqI) simp_all
  from r show ?thesis
    by (simp add: days_until_stockout_Some d t)
qed

section \<open>When the estimate is defined\<close>

lemma days_until_stockout_None [simp]: "days_until_stockout q None = Inr None"
  by (simp add: days_until_stockout_def)

lemma days_until_stockout_nonpos: "t \<le> 0 \<Longrightarrow> days_until_stockout q (Some t) = Inr None"
  by (simp add: days_until_stockout_def)

lemma days_until_stockout_zero:
  assumes "0 < t" and "t \<le> 2 ^ 63"
  shows "days_until_stockout 0 (Some t) = Inr (Some 0)"
  using assms by (simp add: days_until_stockout_Some)

lemma days_until_stockout_cases:
  assumes "\<bar>q\<bar> \<le> 2 ^ 63" and "case total_sold of None \<Rightarrow> True | Some t \<Rightarrow> t \<le> 2 ^ 63"
  obtains (undefined) "days_until_stockout q total_sold = Inr None"
      and "total_sold = None \<or> (\<exists>t. total_sold = Some t \<and> t \<le> 0)"
    | (estimate) t where "total_sold = Some t" and "0 < t"
      and "days_until_stockout q total_sold =
        Inr (Some (trunc (round64 (round64 (of_int q) / round64 (of_int t / 30)))))"
proof (cases total_sold)
  case None
  then show ?thesis by (intro undefined) simp_all
next
  case (Some t)
  show ?thesis
  proof (cases "0 < t")
    case True
    with Some assms show ?thesis
      by (intro estimate [of t]) (simp_all add: days_until_stockout_Some)
  next
    case False
    with Some show ?thesis
      by (intro undefined) (simp_all add: days_until_stockout_nonpos)
  qed
qed

lemma format_alert_Inr:
  assumes "int64_row row"
  shows "\<exists>a. format_alert row = Inr a"
proof -
  obtain iv p w pt su total_sold where row: "row = (iv, p, w, pt, su, total_sold)"
    by (cases row)
  with assms have "\<bar>i_quantity iv\<bar> \<le> 2 ^ 63"
    and "case total_sold of None \<Rightarrow> True | Some t \<Rightarrow> t \<le> 2 ^ 63"
    by (auto simp: int64_row_def split: option.splits)
  then show ?thesis
    by (cases rule: days_until_stockout_cases) (simp_all add: row format_alert_def)
qed

lemma format_alerts_Inr:
  assumes "list_all int64_row rows"
  shows "\<exists>alerts. format_alerts rows = Inr alerts \<and> length alerts = length rows"
  using assms
proof (induction rows)
  case Nil
  then show ?case by simp
next
  case (Cons row rows)
  then obtain alerts where "format_alerts rows = Inr alerts" "length alerts = length rows"
    by auto
  moreover from Cons.prems format_alert_Inr [of row] obtain a where "format_alert row = Inr a"
    by auto
  ultimately show ?case by simp
qed

lemma format_alerts_length:
  "format_alerts rows = Inr alerts \<Longrightarrow> length alerts = length rows"
  by (induction rows arbitrary: alerts) (auto simp: rbind_eq_Inr_iff)

lemma stockout_quotient_nonneg:
  assumes "0 \<le> q" and "0 < t"
  shows "0 \<le> round64 (round64 (of_int q) / round64 (of_int t / 30))"
proof -
  from assms have "0 \<le> round64 (rat_of_int q)" "0 \<le> round64 (rat_of_int t / 30)"
    by (simp_all add: round64_nonneg)
  then have "0 \<le> round64 (rat_of_int q) / round64 (rat_of_int t / 30)"
    by (rule divide_nonneg_nonneg)
  then show ?thesis
    by (rule round64_nonneg)
qed

lemma stock_query_int64:
  "list_all int64_row (low_stock_query stock_db 7 (activity_since_date sample_now))"
  by (simp add: stock_query int64_row_def row_defs)

section \<open>Properties of the estimate\<close>

text \<open>
  C31. For a stock and a total within 64 bits the estimate never raises, and it is
  \<open>None\<close> exactly when the total is \<open>NULL\<close>, zero or negative.
\<close>

theorem days_until_stockout_defined:
  assumes "\<bar>q\<bar> \<le> 2 ^ 63" and "case total_sold of None \<Rightarrow> True | Some t \<Rightarrow> t \<le> 2 ^ 63"
  shows "\<exists>d. days_until_stockout q total_sold = Inr d \<and>
           (d = None \<longleftrightarrow> total_sold = None \<or> (\<exists>t. total_sold = Some t \<and> t \<le> 0))"
  using assms by (cases rule: days_until_stockout_cases) auto

theorem days_until_stockout_defined_witness:
  "\<bar>5 :: int\<bar> \<le> 2 ^ 63 \<and> (case Some (60 :: int) of None \<Rightarrow> True | Some t \<Rightarrow> t \<le> 2 ^ 63) \<and>
   (\<exists>d. days_until_stockout 5 (Some 60) = Inr d \<and>
      (d = None \<longleftrightarrow> Some (60 :: int) = None \<or> (\<exists>t. Some 60 = Some t \<and> t \<le> (0 :: int))))"
  using days_until_stockout_defined [of 5 "Some 60"] by simp

text \<open>
  C19. The estimate is the truncated binary64 quotient, not the floor of the exact one:
  with a stock of 23 and 23 units sold the average \<open>23 / 30\<close> is rounded up, the
  quotient falls just below 30 and the estimate is 29 days, where the exact quotient is
  30.
\<close>

theorem days_until_stockout_rounds_below:
  "days_until_stockout 23 (Some 23) = Inr (Some 29) \<and> \<lfloor>(23 :: rat) / (23 / 30)\<rfloor> = 30"
proof -
  have r: "round64 (of_int 23) = of_int 23"
    by (rule round64_of_int_exact) simp
  have t: "trunc (8444249301319679 * pow2 (- 48)) = 29"
    by (rule trunc_eqI) (simp_all add: pow2_def power_int_minus)
  from r show ?thesis
    by (simp add: days_until_stockout_Some round64_23_30 round64_23_avg t)
qed

text \<open>
  With a stock that is not negative the estimate is not negative.
\<close>

theorem days_until_stockout_nonneg:
  assumes "0 \<le> q" and "q \<le> 2 ^ 63" and "0 < t" and "t \<le> 2 ^ 63"
  shows "\<exists>n. days_until_stockout q (Some t) = Inr (Some n) \<and> 0 \<le> n"
  using assms stockout_quotient_nonneg [of q t]
  by (simp add: days_until_stockout_Some trunc_nonneg)

theorem days_until_stockout_nonneg_witness:
  "(0 :: int) \<le> 5 \<and> (5 :: int) \<le> 2 ^ 63 \<and> (0 :: int) < 60 \<and> (60 :: int) \<le> 2 ^ 63 \<and>
   (\<exists>n. days_until_stockout 5 (Some 60) = Inr (Some n) \<and> 0 \<le> n)"
  using days_until_stockout_nonneg [of 5 60] by simp

text \<open>
  C36. More stock never gives a shorter estimate: for the same sales the estimate is
  monotone in the stock, rounding included.
\<close>

theorem days_until_stockout_mono:
  assumes "q \<le> q'" and "\<bar>q\<bar> \<le> 2 ^ 63" and "\<bar>q'\<bar> \<le> 2 ^ 63" and "0 < t" and "t \<le> 2 ^ 63"
  shows "\<exists>n n'. days_until_stockout q (Some t) = Inr (Some n) \<and>
           days_until_stockout q' (Some t) = Inr (Some n') \<and> n \<le> n'"
proof -
  let ?a = "round64 (of_int t / 30)"
  from avg_daily_sales_bounds(1) [OF assms(4,5)] have "0 < ?a"
    using pow2_pos [of "- 5"] by linarith
  moreover from assms(1) have "round64 (of_int q) \<le> round64 (of_int q')"
    by (intro round64_mono) simp
  ultimately have "round64 (of_int q) / ?a \<le> round64 (of_int q') / ?a"
    by (simp add: divide_right_mono)
  then have "trunc (round64 (round64 (of_int q) / ?a)) \<le> trunc (round64 (round64 (of_int q') / ?a))"
    by (intro trunc_mono round64_mono)
  with assms show ?thesis
    by (simp add: days_until_stockout_Some)
qed

theorem days_until_stockout_mono_witness:
  "(5 :: int) \<le> 23 \<and> \<bar>5 :: int\<bar> \<le> 2 ^ 63 \<and> \<bar>23 :: int\<bar> \<le> 2 ^ 63 \<and> (0 :: int) < 60 \<and>
   (60 :: int) \<le> 2 ^ 63 \<and>
   (\<exists>n n'. days_until_stockout 5 (Some 60) = Inr (Some n) \<and>
      days_until_stockout 23 (Some 60) = Inr (Some n') \<and> n \<le> n')"
  using days_until_stockout_mono [of 5 23 60] by simp

text \<open>
  C37. More sales never give a longer estimate: for the same stock, not negative, the
  estimate is antitone in the total sold.
\<close>

theorem days_until_stockout_antimono:
  assumes "t \<le> t'" and "0 < t" and "t' \<le> 2 ^ 63" and "0 \<le> q" and "q \<le> 2 ^ 63"
  shows "\<exists>n n'. days_until_stockout q (Some t) = Inr (Some n) \<and>
           days_until_stockout q (Some t') = Inr (Some n') \<and> n' \<le> n"
proof -
  let ?a = "round64 (of_int t / 30)" and ?a' = "round64 (of_int t' / 30)"
  from assms have t: "t \<le> 2 ^ 63" and t': "0 < t'" by simp_all
  from avg_daily_sales_bounds(1) [OF assms(2) t] have "0 < ?a"
    using pow2_pos [of "- 5"] by linarith
  moreover from assms(1) have "?a \<le> ?a'"
    by (intro round64_mono) simp
  moreover from assms(4) have "0 \<le> round64 (rat_of_int q)"
    by (simp add: round64_nonneg)
  ultimately have "round64 (of_int q) / ?a' \<le> round64 (of_int q) / ?a"
    by (intro divide_left_mono) (simp_all add: mult_pos_pos order.strict_trans2)
  then have "trunc (round64 (round64 (of_int q) / ?a')) \<le> trunc (round64 (round64 (of_int q) / ?a))"
    by (intro trunc_mono round64_mono)
  with assms t t' show ?thesis
    by (simp add: days_until_stockout_Some)
qed

theorem days_until_stockout_antimono_witness:
  "(23 :: int) \<le> 60 \<and> (0 :: int) < 23 \<and> (60 :: int) \<le> 2 ^ 63 \<and> (0 :: int) \<le> 5 \<and>
   (5 :: int) \<le> 2 ^ 63 \<and>
   (\<exists>n n'. days_until_stockout 5 (Some 23) = Inr (Some n) \<and>
      days_until_stockout 5 (Some 60) = Inr (Some n') \<and> n' \<le> n)"
  using days_until_stockout_antimono [of 23 60 5] by simp

section \<open>Properties of the handler\<close>

text \<open>
  C30. When the query does not fail and the rows are within 64 bits, the handler answers
  with 200 and one alert for each row of the query.
\<close>

theorem get_low_stock_alerts_answers:
  assumes "f Query = None"
    and "list_all int64_row (low_stock_query db c (activity_since_date now))"
  shows "\<exists>alerts. get_low_stock_alerts f db now c = Reply 200 (alerts_body alerts) \<and>
           length alerts = length (low_stock_query db c (activity_since_date now))"
  using format_alerts_Inr [OF assms(2)] assms(1)
  by (auto simp: get_low_stock_alerts_def check_fault_def)

theorem get_low_stock_alerts_answers_witness:
  "no_faults Query = None \<and>
   list_all int64_row (low_stock_query stock_db 7 (activity_since_date sample_now)) \<and>
   (\<exists>alerts. get_low_stock_alerts no_faults stock_db sample_now 7 =
        Reply 200 (alerts_body alerts) \<and>
      length alerts = length (low_stock_query stock_db 7 (activity_since_date sample_now)))"
  using get_low_stock_alerts_answers [of no_faults stock_db 7 sample_now] stock_query_int64
  by (simp add: no_faults_def)

text \<open>
  A failure of the query is not handled: the exception leaves the handler.
\<close>

theorem get_low_stock_alerts_fault:
  assumes "f Query = Some e"
  shows "get_low_stock_alerts f db now c = Unhandled e"
  using assms by (simp add: get_low_stock_alerts_def check_fault_def)

theorem get_low_stock_alerts_fault_witness:
  "query_fails Query = Some OperationalError \<and>
   get_low_stock_alerts query_fails stock_db sample_now 7 = Unhandled OperationalError"
  using get_low_stock_alerts_fault [of query_fails OperationalError stock_db sample_now 7]
  by (simp add: query_fails_def)

text \<open>
  Every response of the handler has status 200, and its \<open>total_alerts\<close> is the number
  of its alerts, which is the number of rows of the query.
\<close>

theorem get_low_stock_alerts_total_alerts:
  assumes "get_low_stock_alerts f db now c = Reply code body"
  shows "\<exists>alerts. code = 200 \<and>
           body = JObject [(''alerts'', JArray alerts),
                           (''total_alerts'', JInt (int (length alerts)))] \<and>
           length alerts = length (low_stock_query db c (activity_since_date now))"
  using assms
  by (auto simp: get_low_stock_alerts_def alerts_body_def rbind_eq_Inr_iff
        dest: format_alerts_length split: sum.splits)

theorem get_low_stock_alerts_total_alerts_witness:
  "get_low_stock_alerts no_faults stock_db sample_now 7 = Reply 200 stock_alerts_body \<and>
   (\<exists>alerts. (200 :: nat) = 200 \<and>
      stock_alerts_body = JObject [(''alerts'', JArray alerts),
                                   (''total_alerts'', JInt (int (length alerts)))] \<and>
      length alerts = length (low_stock_query stock_db 7 (activity_since_date sample_now)))"
proof -
  have run: "get_low_stock_alerts no_faults stock_db sample_now 7 = Reply 200 stock_alerts_body"
    by (simp add: get_low_stock_alerts_def stock_query format_alert_def supplier_json_def
          alerts_body_def days_until_stockout_example days_until_stockout_zero row_defs
          no_faults_def check_fault_def stock_alerts_body_def)
  from get_low_stock_alerts_total_alerts [OF run] run show ?thesis
    by simp
qed

text \<open>
  C5. With unique keys the handler computes the reference: its response is the response
  built from the alerts of the reference semantics, which looks up the product, the
  warehouse, the type and the supplier of each inventory row and sums its sales of the
  window.
\<close>

theorem get_low_stock_alerts_reference:
  assumes "wf_keys db"
  shows "get_low_stock_alerts f db now c =
     (case rbind (check_fault f Query) (\<lambda>_.
             format_alerts (reference_alerts db c (activity_since_date now))) of
        Inl e \<Rightarrow> Unhandled e
      | Inr alerts \<Rightarrow> Reply 200 (alerts_body alerts))"
  using assms by (simp add: get_low_stock_alerts_def low_stock_query_eq)

theorem get_low_stock_alerts_reference_witness:
  "wf_keys stock_db \<and>
   get_low_stock_alerts no_faults stock_db sample_now 7 =
     (case rbind (check_fault no_faults Query) (\<lambda>_.
             format_alerts (reference_alerts stock_db 7 (activity_since_date sample_now))) of
        Inl e \<Rightarrow> Unhandled e
      | Inr alerts \<Rightarrow> Reply 200 (alerts_body alerts))"
  using get_low_stock_alerts_reference [of stock_db no_faults sample_now 7] wf_keys_stock_db
  by simp

section \<open>The estimate and the exact quotient\<close>

lemma stockout_quotient_error:
  assumes "0 < t" and "t \<le> 2 ^ 63" and "0 \<le> q"
  shows "\<bar>round64 (of_int q / round64 (of_int t / 30)) - of_int (30 * q) / of_int t\<bar>
    \<le> of_int (30 * q) / of_int t * (3 * pow2 (- 53))"
proof -
  let ?a = "rat_of_int t / 30" and ?u = "pow2 (- 53)"
  let ?y = "of_int q / round64 ?a"
  note avg = avg_daily_sales_bounds [OF assms(1,2)]
  from assms(1) have a: "0 < ?a" by simp
  from assms(1) have "1 \<le> rat_of_int t" by simp
  then have "pow2 (- 1022) \<le> \<bar>?a\<bar>"
    using pow2_mono [of "- 1022" "- 5"] by (simp add: pow2_def power_int_minus field_simps)
  then have a': "\<bar>round64 ?a - ?a\<bar> \<le> ?a * ?u"
    using round64_rel_error [of ?a] a by simp
  have y: "\<bar>round64 ?y - ?y\<bar> \<le> ?y * ?u"
  proof (cases "q = 0")
    case False
    with assms(3) have q: "1 \<le> rat_of_int q" by simp
    from a avg(2) have "round64 ?a \<le> pow2 63"
      by (intro round64_le_pow2) simp_all
    moreover from avg(1) have pos: "0 < round64 ?a"
      using pow2_pos [of "- 5"] by linarith
    ultimately have "1 / pow2 63 \<le> 1 / round64 ?a"
      by (intro divide_left_mono) simp_all
    also from q pos have "1 / round64 ?a \<le> ?y"
      by (simp add: divide_right_mono)
    finally have "pow2 (- 63) \<le> ?y"
      by (simp add: pow2_def power_int_minus field_simps)
    moreover have "pow2 (- 1022) \<le> pow2 (- 63)" by simp
    ultimately have "pow2 (- 1022) \<le> \<bar>?y\<bar>" by linarith
    from round64_rel_error [OF this] q pos show ?thesis by simp
  qed simp
  have "?u \<le> 1 / 3" by (simp add: pow2_def power_int_minus)
  from quotient_rel_error [OF a _ _ this a' y] assms(3) show ?thesis
    by (simp add: mult.commute)
qed

text \<open>
  The truncated quotient of a stock that is not negative, against the exact quotient
  \<open>30 * q / t\<close>.
\<close>

lemma stockout_estimate_floor:
  assumes "0 < t" and "t \<le> 2 ^ 63" and "0 \<le> q" and "90 * q < 2 ^ 53"
  shows "(30 * q) div t - (if t dvd 30 * q then 1 else 0)
      \<le> trunc (round64 (of_int q / round64 (of_int t / 30)))"
    and "trunc (round64 (of_int q / round64 (of_int t / 30))) \<le> (30 * q) div t"
proof -
  let ?a = "round64 (of_int t / 30)"
  let ?r = "round64 (of_int q / ?a)"
  from avg_daily_sales_bounds(1) [OF assms(1,2)] have "0 < ?a"
    using pow2_pos [of "- 5"] by linarith
  with assms(3) have "0 \<le> ?r"
    by (intro round64_nonneg) simp
  then have tr: "trunc ?r = \<lfloor>?r\<rfloor>" by (rule trunc_nonneg)
  have "\<bar>?r - of_int (30 * q) / of_int t\<bar> < 1 / of_int t"
  proof -
    from assms(4) have "rat_of_int (90 * q) < of_int (2 ^ 53)"
      by (simp only: of_int_less_iff)
    then have "rat_of_int (30 * q) * (3 * pow2 (- 53)) < 1"
      by (simp add: pow2_def power_int_minus field_simps)
    with assms(1) have "of_int (30 * q) * (3 * pow2 (- 53)) / of_int t < 1 / rat_of_int t"
      by (simp add: divide_strict_right_mono)
    with stockout_quotient_error [OF assms(1-3)] show ?thesis by simp
  qed
  from floor_near_quotient [OF assms(1) this] tr
  show "(30 * q) div t - (if t dvd 30 * q then 1 else 0) \<le> trunc ?r"
    and "trunc ?r \<le> (30 * q) div t"
    by simp_all
qed

lemma days_until_stockout_exact_stock:
  assumes "0 < t" and "t \<le> 2 ^ 63" and "\<bar>q\<bar> < 2 ^ 53"
  shows "days_until_stockout q (Some t) =
    Inr (Some (trunc (round64 (of_int q / round64 (of_int t / 30)))))"
  using assms by (simp add: days_until_stockout_Some round64_of_int_exact)

text \<open>
  C18. The estimate and the exact quotient: for a stock of at most \<open>2 ^ 53 / 90\<close> and a
  total within 64 bits, the estimate is the floor of \<open>30 * quantity / total\<close> whenever
  that quotient is not an integer, and the quotient or one less when it is. The double
  rounding never adds a day and never loses more than one.
\<close>

theorem days_until_stockout_floor:
  assumes "0 < t" and "t \<le> 2 ^ 63" and "0 \<le> q" and "90 * q < 2 ^ 53"
  shows "\<exists>d. days_until_stockout q (Some t) = Inr (Some d) \<and>
    (30 * q) div t - (if t dvd 30 * q then 1 else 0) \<le> d \<and> d \<le> (30 * q) div t"
proof -
  from assms(3,4) have "\<bar>q\<bar> < 2 ^ 53" by simp
  from days_until_stockout_exact_stock [OF assms(1,2) this] stockout_estimate_floor [OF assms]
  show ?thesis by simp
qed

theorem days_until_stockout_floor_witness:
  "\<exists>d. days_until_stockout 23 (Some 23) = Inr (Some d) \<and> 29 \<le> d \<and> d \<le> 30"
  using days_until_stockout_floor [of 23 23] by simp

text \<open>
  C27. A negative stock: \<open>int\<close> truncates towards zero, so for a stock below zero (down
  to \<open>- 2 ^ 53 / 90\<close>) the estimate is one more than the floor of \<open>30 * quantity / total\<close>
  whenever that quotient is not an integer, and the quotient or one more when it is. It
  is never the floor of a quotient that is not an integer.
\<close>

theorem days_until_stockout_negative_stock:
  assumes "0 < t" and "t \<le> 2 ^ 63" and "q < 0" and "- (2 ^ 53) < 90 * q"
  shows "\<exists>d. days_until_stockout q (Some t) = Inr (Some d) \<and>
    (30 * q) div t + (if t dvd 30 * q then 0 else 1) \<le> d \<and> d \<le> (30 * q) div t + 1"
proof -
  let ?a = "round64 (of_int t / 30)"
  define p where "p = - q"
  with assms(3,4) have p: "0 \<le> p" "90 * p < 2 ^ 53" "\<bar>q\<bar> < 2 ^ 53"
    by simp_all
  have "rat_of_int q / ?a = - (of_int p / ?a)"
    by (simp add: p_def)
  then have "trunc (round64 (of_int q / ?a)) = - trunc (round64 (of_int p / ?a))"
    by (simp only: round64_minus trunc_minus)
  with days_until_stockout_exact_stock [OF assms(1,2) p(3)]
  have "days_until_stockout q (Some t) = Inr (Some (- trunc (round64 (of_int p / ?a))))"
    by simp
  moreover from assms(1) have "(30 * q) div t =
      (if t dvd 30 * p then - ((30 * p) div t) else - ((30 * p) div t) - 1)"
    using zdiv_zminus1_eq_if [of t "30 * p"] by (simp add: p_def dvd_eq_mod_eq_0)
  moreover have "t dvd 30 * q \<longleftrightarrow> t dvd 30 * p"
    by (simp add: p_def)
  ultimately show ?thesis
    using stockout_estimate_floor [OF assms(1,2) p(1,2)] by (auto split: if_splits)
qed

theorem days_until_stockout_negative_stock_witness:
  "days_until_stockout (- 5) (Some 60) = Inr (Some (- 2)) \<and> (30 * (- 5)) div (60 :: int) = - 3"
  using days_until_stockout_negative_stock [of 60 "- 5"] by auto

end
