(* ===== verification/Spec2Isabelle.thy ===== *)
theory Spec2Isabelle
  imports Prelude Binary64 Py_Value Database Fixtures Create_Product Create_Reference Create_Paths
    Concurrency Session_Protocol Low_Stock Stockout
begin

text \<open>
  \<^bold>\<open>The program.\<close> The repository holds two request handlers of an inventory back end,
  written for Flask and SQLAlchemy. \<open>create_product\<close> (\<open>src/fixedApiEnd.py\<close>) checks that
  the JSON body has five fields, looks the SKU up, inserts a product, flushes to obtain
  its key, inserts the initial inventory row, commits and answers with the key; three
  \<open>except\<close> clauses roll back and answer 400, 409 or 500. \<open>get_low_stock_alerts\<close>
  (\<open>src/low_stock_alert_APIEndpoint.py\<close>) runs one query that joins inventory, product,
  warehouse, product type, supplier and sales, keeps the rows of one company with stock
  at or below the threshold and a sale in the last thirty days, groups them and sums the
  sales; a loop turns each row into an alert with an estimate of the days until
  stock-out. The handlers share the tables and nothing else.

  \<^bold>\<open>The theories.\<close>

  \<^item> \<open>Prelude\<close>: the exceptions the handlers can meet (\<open>exn\<close>), results \<open>exn + 'a\<close> with
    \<open>rbind\<close> for a sequence of statements that an exception ends, \<open>trunc\<close> for \<open>int\<close> of a
    float, the collections \<open>py_defs\<close>, \<open>db_defs\<close> and \<open>handler_defs\<close>, and the lemmas on
    lists that the components share: a nested iteration over a keyed table is a lookup,
    \<open>List.map_filter\<close>, \<open>find\<close> on distinct keys.

  \<^item> \<open>Binary64\<close>: Python's floats. A finite float is the rational it denotes;
    \<open>round64\<close> rounds a rational to the nearest binary64 value, ties to even, with
    gradual underflow; \<open>float_of_int\<close>, \<open>int_true_div\<close>, \<open>float_div\<close>, \<open>float_pos\<close> and
    \<open>int_of_float\<close> are the operations of lines 46 to 48 of the alert handler and of
    \<open>float(data['price'])\<close>, with the exceptions Python raises. The lemmas show that
    \<open>round64\<close> is within half a unit in the last place, monotone, idempotent, exact on
    integers below \<open>2 ^ 53\<close> and on dyadic rationals with a significand of 53 bits, and
    that its result is always such a rational.

  \<^item> \<open>Py_Value\<close>: the JSON body (\<open>json\<close>) and what the creation handler does with it:
    truthiness, \<open>in\<close>, subscription, \<open>float()\<close> and \<open>int()\<close> with the grammar of numeric
    strings, the replacement field of the f-string of line 20 (\<open>py_format\<close>), and the
    response (\<open>outcome\<close>): a status with a body, or an exception that no clause catches.
    A string is a list of characters with code points below 256; \<open>is_space\<close> holds of
    the characters of that range that \<open>str.isspace\<close> accepts.

  \<^item> \<open>Database\<close>: the six tables as records and lists of rows (\<open>database\<close>), the
    constraints of the schema (\<open>wf_keys\<close>, \<open>wf_refs\<close>), the inserts with their checks
    (\<open>insert_product\<close>, \<open>insert_inventory\<close>), and the session: the committed tables, the
    working copy of the open transaction and the objects added, with \<open>session_add\<close>,
    \<open>session_flush\<close>, \<open>session_commit\<close>, \<open>session_refresh\<close>, \<open>session_rollback\<close> and
    \<open>query_product_by_sku\<close>. The lemmas characterise each insert and each session call
    on every branch and show that the inserts keep the constraints.

  \<^item> \<open>Fixtures\<close>: sample tables and requests for the witnesses.

  \<^item> \<open>Create_Product\<close>: the handler \<open>create_product_session\<close>, composed as the source
    composes it from \<open>missing_fields\<close>, \<open>create_product_try\<close> (the \<open>try\<close> block: the
    lookup of line 19, the early return of line 20 with a message built from
    \<open>data['sku']\<close>, then \<open>create_product_write\<close>, the statements of lines 22 to 46)
    and \<open>create_product_except\<close> (the clauses in their order, each with its rollback);
    it maps a fault plan, the request body and the session to the response and the
    session it leaves. \<open>create_product\<close> is a request: the handler on a fresh session,
    returning the committed tables. The theorems: atomicity, what a 201 has stored, the
    duplicate SKU, the preservation of the constraints. \<open>create_product_refresh\<close> relates
    the handler under a fault plan to the handler under the plan without the failure of
    the last read.

  \<^item> \<open>Create_Reference\<close>: what the handler promises, without a session:
    \<open>create_transaction\<close> is the two inserts as one transaction on the tables, which
    yields the key and both rows or an exception and nothing, and \<open>create_reference\<close> is
    the field check, the lookup and that transaction. The theorem: \<open>create_product\<close>
    equals \<open>create_reference\<close>, response and tables, for every request and fault plan.
    The lemmas on \<open>create_transaction\<close> carry the proofs of the theories below.

  \<^item> \<open>Create_Paths\<close>: the paths of the handler one by one: the field check, each
    conversion error with its status (400 for a price or a quantity that is refused
    with \<open>ValueError\<close> or \<open>TypeError\<close>, 500 for an infinite quantity), the valid request
    that succeeds, the statuses the handler can answer with, the request sent a second
    time, and the failure after the commit, which is answered as a failure although the
    rows are stored.

  \<^item> \<open>Concurrency\<close>: requests that overlap. A request is two steps, \<open>check_request\<close>
    (lines 9 to 20) and \<open>write_request\<close> (lines 22 to 57), and \<open>system_run\<close> runs the
    steps of several requests on shared tables in the order of a schedule. The
    theorems: every schedule keeps the constraints of the schema; every schedule leaves
    the tables that the handler leaves when it runs alone on the requests that wrote,
    in the order of their writes; a request whose SKU was committed between its lookup
    and its writes is answered 409 by the clause for \<open>IntegrityError\<close>; two steps of
    one request in a row are \<open>create_product\<close>.

  \<^item> \<open>Session_Protocol\<close>: the calls on the session as a step relation
    (\<open>session_step\<close>) with runs (\<open>session_run\<close>) and their events. The theorems: every
    run keeps the constraints in both copies of the tables, only a commit publishes, a
    run that ends with a commit or a rollback leaves nothing pending; the lemmas
    \<open>create_product_write_run\<close> and \<open>create_product_session_run\<close> show that the session the
    handler leaves is reached by a run, and \<open>create_product_session_settled\<close> that the
    handler releases the transaction on every exit.

  \<^item> \<open>Low_Stock\<close>: the window (\<open>activity_since_date\<close>), the query (\<open>low_stock_join\<close> for
    the joins and filters, \<open>group_rows\<close> and \<open>aggregate\<close> for \<open>group_by\<close> and \<open>SUM\<close>,
    \<open>low_stock_query\<close>), the loop (\<open>days_until_stockout\<close>, \<open>format_alert\<close>,
    \<open>format_alerts\<close>) and the handler \<open>get_low_stock_alerts\<close>; then the reference
    semantics \<open>reference_alerts\<close>, which looks up the rows an inventory row refers to
    instead of joining. The theorems: every row of the query satisfies the conditions
    of the specification, with unique keys the query equals the reference
    (\<open>low_stock_query_eq\<close>), misses no item and sums exactly the sales of the window.

  \<^item> \<open>Stockout\<close>: the estimate and the response: when the estimate is defined, its
    value for integers of 64 bits, its monotonicity, the cases where it differs from
    the exact floor and by how much at most (\<open>days_until_stockout_floor\<close> for a stock
    that is not negative, \<open>days_until_stockout_negative_stock\<close> for a negative one), and
    that the handler answers with one alert per row.

  \<^item> This theory: the properties that span both handlers: a creation, and any
    schedule of overlapping creations, leaves the alerts of every company as they were.

  The theories import each other in this order: \<open>Prelude\<close>, \<open>Binary64\<close>, \<open>Py_Value\<close>,
  \<open>Database\<close>, \<open>Fixtures\<close>, \<open>Create_Product\<close>, \<open>Create_Reference\<close>, \<open>Create_Paths\<close>,
  \<open>Concurrency\<close> and \<open>Session_Protocol\<close>; \<open>Low_Stock\<close>, \<open>Stockout\<close>.

  \<^bold>\<open>Correspondence.\<close> A statement of a handler that can raise is a result in
  \<open>exn + 'a\<close>; the \<open>try\<close> block returns the exception together with the session as the
  statement left it, so that the clauses roll back what was really done. Time is an
  argument of the alert handler (microseconds since an epoch), where the source reads
  the clock. Rows of a result are in the order of the inventory table; SQL promises no
  order, and no theorem depends on it except through equality with the reference, which
  iterates in the same order.

  \<^bold>\<open>Assumptions about the storage layer.\<close> The model classes and the database are not
  in the sources: the records of the tables, the constraints, the inserts and the calls
  on the session are modelled from the specification and from the way the handlers use
  them, not translated from code. The model takes from the specification the columns,
  the unique SKU, the unique pair of product and warehouse and the foreign keys, and
  assumes: a column refuses a value of another JSON type with \<open>DataError\<close>; \<open>null\<close> is
  stored as \<open>NULL\<close> and refused by the columns the handler fills; a product is stored
  with the type and the supplier the handler gives it, which is none; integer columns
  are unbounded; a new key is one more than the largest key of the table, so that a
  rollback leaves no trace (a sequence would skip the key of an insert that was rolled
  back; only the value of the key in the response depends on this); \<open>SUM\<close> over an
  integer column yields an integer. Failures that do not depend on the
  data (a lost connection, a timeout) are a fault plan: a function that says for each
  of the calls \<open>Query\<close>, \<open>Flush\<close>, \<open>Commit\<close> and \<open>Refresh\<close> whether it fails and with which
  exception. \<open>Refresh\<close> is the read of \<open>product.id\<close> on line 45: the commit expires the
  objects of the session (the default of the library), so the read loads the row again
  and can fail like any statement; with objects that do not expire, the plans without
  \<open>Refresh\<close> are the possible ones. The theorems hold for every fault plan unless they
  exclude one.

  \<^bold>\<open>Assumptions about isolation.\<close> The handler takes no lock, and the sources do not
  say which store runs under it. \<open>Concurrency\<close> assumes that a statement sees the tables
  committed at its moment, and that the writes of one transaction, from its flush to
  its commit, are not interleaved with the writes of another: the unique index makes a
  second writer of the same SKU wait for the first and then fail, and a store with one
  writer at a time does so for every writer. Keys are assigned in the order of the
  writes. The lookup and the writes of one request may be separated by any number of
  steps of other requests; this is the race the specification names.

  \<^bold>\<open>Bounds.\<close> No definition uses fuel: every loop of the program is a recursion over a
  list. A schedule is a finite list of positions; a request needs two steps. The bound
  \<open>90 * quantity < 2 ^ 53\<close> of \<open>days_until_stockout_floor\<close> (and its mirror image for a
  negative stock) keeps three rounding errors of the quotient below the distance
  \<open>1 / total\<close> between the quotient and the next integer; beyond it these theorems say
  nothing. The other theorems on the estimate assume a stock and a total of at most
  \<open>2 ^ 63\<close> in absolute value, the range of the widest integer column; within it the
  average is at least \<open>2 ^ -5\<close> and the quotient at most \<open>2 ^ 68\<close>, far from the overflow
  threshold \<open>2 ^ 1024 - 2 ^ 970\<close>. Beyond the range of binary64 the model raises
  \<open>OverflowError\<close> as Python does.

  \<^bold>\<open>Not modelled.\<close> Flask's routing, the parsing of the request into \<open>request.json\<close>,
  the \<open>int\<close> converter of the URL and \<open>jsonify\<close>; the SQL text and the query planner;
  isolation levels weaker than the one assumed above, deadlocks and lock timeouts
  (they reach the handler as exceptions of the fault plan); requests that change
  inventory or sales while the alert handler reads (it issues one query, which sees
  one state of the tables); the sign of a float zero; characters with code points of
  256 and above, among them the digits and spaces of that range; the text of an
  f-string field that is not a string; the limit on the number of digits in
  \<open>int(str)\<close>; results of \<open>SUM\<close> that a driver returns as decimals.
\<close>

text \<open>
  Creating a product never changes the alerts of any company: the new product has no
  product type, so its inventory row joins nothing, and a creation that fails leaves the
  tables as they were. The inventory rows must reference products of the table.
\<close>

theorem created_product_raises_no_alert:
  assumes "wf_refs db"
  shows "get_low_stock_alerts g (snd (create_product f db data)) now c =
         get_low_stock_alerts g db now c"
proof -
  let ?f = "f(Refresh := None)"
  have "?f Refresh = None" by simp
  then have "get_low_stock_alerts g (snd (create_product ?f db data)) now c =
      get_low_stock_alerts g db now c"
  proof (cases rule: create_product_result_plain [of ?f db data])
    case (created body s')
    from created(1) obtain p i where
      db': "snd (create_product ?f db data) =
        db\<lparr>products := products db @ [p], inventories := inventories db @ [i]\<rparr>"
      and p: "i_product_id i = p_id p" "p_id p \<notin> set (map p_id (products db))"
        "p_product_type_id p = None"
      by (rule create_product_createdE) blast
    from assms have "i_product_id ` set (inventories db) \<subseteq> set (map p_id (products db))"
      by (auto simp: wf_refs_def list_all_iff)
    with p(2) have "p_id p \<notin> i_product_id ` set (inventories db)"
      by blast
    with p have "low_stock_join (snd (create_product ?f db data)) c (activity_since_date now) =
        low_stock_join db c (activity_since_date now)"
      unfolding db' by (intro low_stock_join_untyped_product) simp_all
    then show ?thesis
      by (simp add: get_low_stock_alerts_def low_stock_query_def)
  qed simp
  then show ?thesis
    by (simp only: create_product_tables_refresh [of f])
qed

theorem created_product_raises_no_alert_witness:
  "wf_refs sample_db \<and>
   get_low_stock_alerts no_faults (snd (create_product no_faults sample_db sample_request))
     sample_now 7 =
   get_low_stock_alerts no_faults sample_db sample_now 7"
  using created_product_raises_no_alert [of sample_db no_faults no_faults sample_request
      sample_now 7] wf_sample_db
  by (simp add: wf_db_def)

text \<open>
  C24. On tables that satisfy the constraints of the schema, no schedule of creation
  requests changes the alerts of any company: whatever the requests, their faults and
  the order of their steps, the alert handler answers after them as it answered before,
  because no product created through the endpoint has a product type.
\<close>

theorem system_run_raises_no_alert:
  assumes "wf_db db"
  shows "get_low_stock_alerts g (tables (system_run sched (initial db reqs))) now c =
         get_low_stock_alerts g db now c"
proof -
  have "get_low_stock_alerts g (serial_run rs db') now c = get_low_stock_alerts g db' now c"
    if "wf_db db'" for rs db'
    using that
  proof (induction rs arbitrary: db')
    case (Cons r rs)
    obtain f data where r: "r = (f, data)" by (cases r)
    from Cons.prems have "wf_db (snd (create_product f db' data))"
      by (rule create_product_keeps_wf)
    from Cons.IH [OF this] Cons.prems show ?case
      by (simp add: r created_product_raises_no_alert wf_db_def)
  qed simp
  from this [OF assms] show ?thesis
    using system_run_tables [OF initial_checked_ok, of sched db reqs]
    by (simp add: initial_def)
qed

theorem system_run_raises_no_alert_witness:
  "wf_db sample_db \<and>
   get_low_stock_alerts no_faults (tables (system_run [0, 1, 0, 1] race)) sample_now 7 =
   get_low_stock_alerts no_faults sample_db sample_now 7"
  using system_run_raises_no_alert [OF wf_sample_db, of no_faults "[0, 1, 0, 1]"
      "[(no_faults, sample_request), (no_faults, sample_request)]" sample_now 7] wf_sample_db
  by (simp add: race_def)

end
